theory Spec2Isabelle
  imports Main "HOL-Library.Word" "HOL-Library.Char_ord" "HOL-Library.List_Lexorder"
    "HOL-Library.Product_Lexorder"
begin

unbundle bit_operations_syntax

section \<open>Python text primitives on Latin-1 strings\<close>

text \<open>
  The interpreter reads its file with \<^verbatim>\<open>raw.decode("latin-1", errors="replace")\<close>, so every
  character it ever sees is one of the 256 Latin-1 code points.  A Python \<^verbatim>\<open>str\<close> of the
  processor is therefore a \<^typ>\<open>string\<close>: a \<^typ>\<open>char\<close> is the code point, and also the byte
  that \<^verbatim>\<open>encode("latin-1")\<close> gives back.  The built-in string methods keep their Unicode
  meaning on these 256 characters; the tables below are the Latin-1 part of them.
\<close>

text \<open>\<^verbatim>\<open>str.isspace\<close> on one character: TAB..CR, FS..US, SPACE, NEL (0x85), NBSP (0xA0).\<close>

definition py_isspace :: "char \<Rightarrow> bool" where
  "py_isspace c =
     (let n = (of_char c :: nat)
      in (9 \<le> n \<and> n \<le> 13) \<or> (28 \<le> n \<and> n \<le> 32) \<or> n = 133 \<or> n = 160)"

text \<open>
  \<^verbatim>\<open>str.isdigit\<close> on one character: the decimal digits and the characters of numeric type
  Digit, which in Latin-1 are the superscripts 0xB2, 0xB3 and 0xB9.
\<close>

definition ascii_digit :: "char \<Rightarrow> bool" where
  "ascii_digit c = (let n = (of_char c :: nat) in 48 \<le> n \<and> n \<le> 57)"

definition py_isdigit :: "char \<Rightarrow> bool" where
  "py_isdigit c = (ascii_digit c \<or> (of_char c :: nat) \<in> {178, 179, 185})"

text \<open>\<^verbatim>\<open>def _is_digits(s): return s.isdigit()\<close>: false on the empty string.\<close>

definition is_digits :: "string \<Rightarrow> bool" where
  "is_digits s = (s \<noteq> [] \<and> list_all py_isdigit s)"

text \<open>\<^verbatim>\<open>str.lstrip()\<close>, \<^verbatim>\<open>str.rstrip()\<close> and \<^verbatim>\<open>str.strip()\<close> without argument.\<close>

definition py_lstrip :: "string \<Rightarrow> string" where
  "py_lstrip s = dropWhile py_isspace s"

definition py_rstrip :: "string \<Rightarrow> string" where
  "py_rstrip s = rev (dropWhile py_isspace (rev s))"

definition py_strip :: "string \<Rightarrow> string" where
  "py_strip s = py_rstrip (py_lstrip s)"

text \<open>
  A slice \<^verbatim>\<open>s[lo:hi]\<close> with integer bounds: a negative bound counts from the end, and both
  are clamped to the string.
\<close>

definition py_index :: "nat \<Rightarrow> int \<Rightarrow> nat" where
  "py_index len i = (if i < 0 then nat (int len + i) else min (nat i) len)"

definition py_slice :: "'a list \<Rightarrow> int \<Rightarrow> int \<Rightarrow> 'a list" where
  "py_slice s lo hi =
     (let l = py_index (length s) lo; h = py_index (length s) hi
      in take (h - l) (drop l s))"

text \<open>\<^verbatim>\<open>def _slice(line, a, b): return line[a-1:b]\<close>\<close>

definition slice_afd :: "string \<Rightarrow> int \<Rightarrow> int \<Rightarrow> string" where
  "slice_afd line a b = py_slice line (a - 1) b"

text \<open>
  \<^verbatim>\<open>str.upper()\<close>.  Three Latin-1 characters have an upper case outside Latin-1 (the micro
  sign gives U+039C, the sharp s gives two letters S, y with diaeresis gives U+0178), so the
  result is a list of code points.
\<close>

type_synonym ustring = "nat list"

definition ustr :: "string \<Rightarrow> ustring" where
  "ustr s = map of_char s"

definition py_upper_char :: "char \<Rightarrow> ustring" where
  "py_upper_char c =
     (let n = (of_char c :: nat)
      in if 97 \<le> n \<and> n \<le> 122 then [n - 32]
         else if n = 181 then [924]
         else if n = 223 then [83, 83]
         else if 224 \<le> n \<and> n \<le> 254 \<and> n \<noteq> 247 then [n - 32]
         else if n = 255 then [376]
         else [n])"

definition py_upper :: "string \<Rightarrow> ustring" where
  "py_upper s = concat (map py_upper_char s)"

text \<open>
  \<^verbatim>\<open>int(s)\<close> on a string: white space is skipped on both sides (of the ASCII characters
  only TAB..CR and SPACE; of the others NEL and NBSP), then an optional sign, then decimal
  digits in groups separated by single underscores.  \<open>None\<close> is the \<^verbatim>\<open>ValueError\<close>.
\<close>

definition int_space :: "char \<Rightarrow> bool" where
  "int_space c =
     (let n = (of_char c :: nat) in (9 \<le> n \<and> n \<le> 13) \<or> n = 32 \<or> n = 133 \<or> n = 160)"

definition digit_val :: "char \<Rightarrow> int" where
  "digit_val c = int (of_char c) - 48"

fun digits_groups :: "int \<Rightarrow> string \<Rightarrow> int option" where
  "digits_groups acc [] = Some acc"
| "digits_groups acc [c] = (if ascii_digit c then Some (acc * 10 + digit_val c) else None)"
| "digits_groups acc (c # d # cs) =
     (if ascii_digit c then digits_groups (acc * 10 + digit_val c) (d # cs)
      else if c = CHR ''_'' \<and> ascii_digit d then digits_groups acc (d # cs)
      else None)"

definition py_unsigned :: "string \<Rightarrow> int option" where
  "py_unsigned s =
     (case s of [] \<Rightarrow> None
      | c # cs \<Rightarrow> if ascii_digit c then digits_groups 0 s else None)"

definition py_int :: "string \<Rightarrow> int option" where
  "py_int s =
     (let t = rev (dropWhile int_space (rev (dropWhile int_space s)))
      in case t of
           [] \<Rightarrow> None
         | c # cs \<Rightarrow>
             if c = CHR ''-'' then map_option uminus (py_unsigned cs)
             else if c = CHR ''+'' then py_unsigned cs
             else py_unsigned t)"

section \<open>CRC-16/IBM (ARC)\<close>

text \<open>
  \<^verbatim>\<open>
  def crc16_ibm_arc(data: bytes) -> int:
      crc = 0x0000
      for byte in data:
          crc ^= byte
          for _ in range(8):
              if crc & 1:
                  crc = (crc >> 1) ^ 0xA001
              else:
                  crc >>= 1
      return crc & 0xFFFF
  \<close>
  The register is a Python integer, without a width; a byte is an integer below 256.
\<close>

type_synonym byte = "8 word"

definition crc_bit :: "int \<Rightarrow> int" where
  "crc_bit crc = (if crc AND 1 \<noteq> 0 then (drop_bit 1 crc) XOR 0xA001 else drop_bit 1 crc)"

definition crc_byte :: "int \<Rightarrow> byte \<Rightarrow> int" where
  "crc_byte crc b = (crc_bit ^^ 8) (crc XOR uint b)"

definition crc16_ibm_arc :: "byte list \<Rightarrow> int" where
  "crc16_ibm_arc data = (foldl crc_byte 0 data) AND 0xFFFF"

text \<open>
  The reference CRC-16/ARC, on a 16-bit register: initial value 0, each byte is XORed into
  the register, then eight times the register is shifted right and XORed with 0xA001 when
  the bit shifted out was set; no final XOR.
\<close>

definition arc_shift :: "16 word \<Rightarrow> 16 word" where
  "arc_shift r = (if bit r 0 then drop_bit 1 r XOR 0xA001 else drop_bit 1 r)"

definition arc_byte :: "16 word \<Rightarrow> byte \<Rightarrow> 16 word" where
  "arc_byte r b = (arc_shift ^^ 8) (r XOR ucast b)"

definition crc16_arc_reference :: "byte list \<Rightarrow> 16 word" where
  "crc16_arc_reference data = foldl arc_byte 0 data"

text \<open>
  \<^verbatim>\<open>f"{n:04X}"\<close>: upper-case hexadecimal, filled with zeros to four characters (the sign
  of a negative number counts as one of them).
\<close>

definition hex_digit :: "nat \<Rightarrow> char" where
  "hex_digit d = ''0123456789ABCDEF'' ! d"

fun hex_upper :: "nat \<Rightarrow> string" where
  "hex_upper n = (if n < 16 then [hex_digit n] else hex_upper (n div 16) @ [hex_digit (n mod 16)])"

declare hex_upper.simps [simp del]

definition zero_fill :: "nat \<Rightarrow> string \<Rightarrow> string" where
  "zero_fill w s = replicate (w - length s) (CHR ''0'') @ s"

definition fmt_04X :: "int \<Rightarrow> string" where
  "fmt_04X n =
     (if n < 0 then CHR ''-'' # zero_fill 3 (hex_upper (nat (- n)))
      else zero_fill 4 (hex_upper (nat n)))"

text \<open>
  \<^verbatim>\<open>s.encode("latin-1", errors="replace")\<close>: one byte for each character; no character of
  a Latin-1 string needs the replacement.
\<close>

definition encode_latin1 :: "string \<Rightarrow> byte list" where
  "encode_latin1 s = map of_char s"

text \<open>
  \<^verbatim>\<open>
  def _crc16_hex4_for_line(line, crc_field_pos):
      a, b = crc_field_pos
      left = _slice(line, 1, a-1)
      right = _slice(line, b+1, len(line))
      data = (left + right).encode("latin-1", errors="replace")
      return f"{crc16_ibm_arc(data):04X}"
  \<close>
\<close>

definition crc16_hex4_for_line :: "string \<Rightarrow> int \<times> int \<Rightarrow> string" where
  "crc16_hex4_for_line line crc_field_pos =
     (case crc_field_pos of (a, b) \<Rightarrow>
        let left = slice_afd line 1 (a - 1);
            right = slice_afd line (b + 1) (int (length line));
            data = encode_latin1 (left @ right)
        in fmt_04X (crc16_ibm_arc data))"

section \<open>Records and errors\<close>

text \<open>
  The dataclasses \<^verbatim>\<open>Registro1\<close> .. \<^verbatim>\<open>Registro9\<close>.  Field names carry the record's number,
  since several dataclasses use the same names.  A field typed \<^verbatim>\<open>str | None\<close> is an option;
  a checksum text is the result of \<^verbatim>\<open>upper()\<close>, hence a \<^typ>\<open>ustring\<close>.
\<close>

record Registro1 =
  r1_nsr :: int
  r1_tipo :: int
  r1_id_empregador_tipo :: "string option"
  r1_id_empregador :: "string option"
  r1_cno_caepf :: "string option"
  r1_razao_social :: "string option"
  r1_numero_fabricacao_processo_ou_inpi :: "string option"
  r1_data_inicio :: "string option"
  r1_data_fim :: "string option"
  r1_data_hora_geracao :: "string option"
  r1_versao_layout :: "string option"
  r1_id_fabricante_tipo :: "string option"
  r1_id_fabricante :: "string option"
  r1_modelo_rep_c :: "string option"
  r1_crc16 :: "ustring option"
  r1_crc_ok :: "bool option"

record Registro2 =
  r2_nsr :: int
  r2_tipo :: int
  r2_dh_gravacao :: string
  r2_cpf_responsavel :: string
  r2_id_empregador_tipo :: string
  r2_id_empregador :: string
  r2_cno_caepf :: string
  r2_razao_social :: string
  r2_local_prestacao :: string
  r2_crc16 :: ustring
  r2_crc_ok :: bool

record Registro3 =
  r3_nsr :: int
  r3_tipo :: string
  r3_dh_marcacao :: string
  r3_cpf :: string
  r3_crc16 :: "ustring option"
  r3_crc_ok :: "bool option"
  r3_formato :: string

record Registro4 =
  r4_nsr :: int
  r4_tipo :: int
  r4_dh_antes :: string
  r4_dh_ajustada :: string
  r4_cpf_responsavel :: string
  r4_crc16 :: ustring
  r4_crc_ok :: bool

record Registro5 =
  r5_nsr :: int
  r5_tipo :: int
  r5_dh_gravacao :: string
  r5_operacao :: string
  r5_cpf :: string
  r5_nome :: string
  r5_demais_dados :: string
  r5_cpf_responsavel :: string
  r5_crc16 :: ustring
  r5_crc_ok :: bool

record Registro6 =
  r6_nsr :: int
  r6_tipo :: int
  r6_dh_gravacao :: string
  r6_tipo_evento :: string

record Registro7 =
  r7_nsr :: int
  r7_tipo :: string
  r7_dh_marcacao :: string
  r7_cpf :: string
  r7_dh_gravacao :: string
  r7_coletor_id :: string
  r7_online_offline :: string
  r7_hash256 :: string

record Registro9 =
  r9_nsr :: int
  r9_qtd_tipo2 :: int
  r9_qtd_tipo3 :: int
  r9_qtd_tipo4 :: int
  r9_qtd_tipo5 :: int
  r9_qtd_tipo6 :: int
  r9_qtd_tipo7 :: int
  r9_tipo :: int

text \<open>
  The \<^verbatim>\<open>ValueError\<close>s of the parsers, by what raises them, with the values their messages
  embed: a line shorter than a layout's minimum (layout, observed length, minimum), a text
  that \<^verbatim>\<open>int()\<close> rejects, a type-3 timestamp that does not match the pattern, a compact
  header without its 28 final digits, a compact type-3 line with a bad date or time window,
  and the composite error of a failed fallback (type digit, both causes).
\<close>

datatype parse_error =
    Tamanho string nat nat
  | IntInvalido string
  | DHInvalido string
  | SemBlocoFinal
  | DataHoraInvalidas string string
  | Falha char parse_error parse_error

text \<open>
  The entries of \<^verbatim>\<open>erros\<close>, by the statement that appends them, with the values their
  texts embed: the line without NSR (the line), \<^verbatim>\<open>"Tipo desconhecido: ..."\<close> (the type
  character), and \<^verbatim>\<open>"Erro ao parsear NSR ... (tipo ...): ..."\<close> (the first nine characters,
  the type character and the exception).
\<close>

datatype diagnostico =
    LinhaInvalida string
  | TipoDesconhecido char
  | ErroParse string char parse_error

text \<open>
  What \<^verbatim>\<open>interpretar_afd\<close> raises: \<^verbatim>\<open>ValueError("Arquivo vazio")\<close>, the \<^verbatim>\<open>ValueError\<close> of
  \<^verbatim>\<open>int(ln[:9])\<close> in the first loop, which no handler encloses, and
  \<^verbatim>\<open>ValueError("Nenhum registro foi interpretado. Ex.: " + "; ".join(erros[:3]))\<close>.
\<close>

datatype afd_error =
    ArquivoVazio
  | NsrInvalido string
  | NenhumRegistro "diagnostico list"

definition to_int :: "string \<Rightarrow> parse_error + int" where
  "to_int s = (case py_int s of None \<Rightarrow> Inl (IntInvalido s) | Some n \<Rightarrow> Inr n)"

definition and_then :: "'e + 'a \<Rightarrow> ('a \<Rightarrow> 'e + 'b) \<Rightarrow> 'e + 'b" where
  "and_then r f = (case r of Inl e \<Rightarrow> Inl e | Inr x \<Rightarrow> f x)"

text \<open>\<^verbatim>\<open>s[i:j]\<close> for literal bounds \<open>0 \<le> i \<le> j\<close>.\<close>

definition substr :: "string \<Rightarrow> nat \<Rightarrow> nat \<Rightarrow> string" where
  "substr s i j = take (j - i) (drop i s)"

text \<open>
  \<^verbatim>\<open>
  def _ddmmaaaa_to_iso(d):
      if len(d) == 8 and _is_digits(d):
          return f"{d[4:8]}-{d[2:4]}-{d[0:2]}"
      return None

  def _hhmm_to_hhmm(h):
      if len(h) == 4 and _is_digits(h):
          return f"{h[:2]}:{h[2:4]}"
      return None
  \<close>
\<close>

definition ddmmaaaa_to_iso :: "string \<Rightarrow> string option" where
  "ddmmaaaa_to_iso d =
     (if length d = 8 \<and> is_digits d
      then Some (substr d 4 8 @ ''-'' @ substr d 2 4 @ ''-'' @ substr d 0 2)
      else None)"

definition hhmm_to_hhmm :: "string \<Rightarrow> string option" where
  "hhmm_to_hhmm h =
     (if length h = 4 \<and> is_digits h then Some (substr h 0 2 @ '':'' @ substr h 2 4) else None)"

text \<open>
  \<^verbatim>\<open>re.fullmatch(r"\d{4}-\d{2}-\d{2}T\d{2}:\d{2}:00[+-]\d{4}", s)\<close>.  The pattern has neither
  a choice nor a repetition of variable length, so it is a list of character classes, one
  for each of the 24 characters; \<^verbatim>\<open>\d\<close> is a decimal digit, which in Latin-1 is \<open>0\<close>..\<open>9\<close>.
\<close>

datatype char_class = Digito | Literal char | Sinal

fun in_class :: "char_class \<Rightarrow> char \<Rightarrow> bool" where
  "in_class Digito c = ascii_digit c"
| "in_class (Literal l) c = (c = l)"
| "in_class Sinal c = (c = CHR ''+'' \<or> c = CHR ''-'')"

definition iso_dh_pattern :: "char_class list" where
  "iso_dh_pattern =
     [Digito, Digito, Digito, Digito, Literal (CHR ''-''), Digito, Digito, Literal (CHR ''-''),
      Digito, Digito, Literal (CHR ''T''), Digito, Digito, Literal (CHR '':''), Digito, Digito,
      Literal (CHR '':''), Literal (CHR ''0''), Literal (CHR ''0''), Sinal,
      Digito, Digito, Digito, Digito]"

definition is_iso_dh :: "string \<Rightarrow> bool" where
  "is_iso_dh s = list_all2 in_class iso_dh_pattern s"

section \<open>Parsers of the official layouts\<close>

text \<open>
  Each parser follows its source statement by statement: the length check, then the
  conversions with \<^verbatim>\<open>int()\<close> in the order the source makes them (the first that fails is
  the exception raised), then the fields.
\<close>

definition parse_registro1_oficial :: "string \<Rightarrow> parse_error + Registro1" where
  "parse_registro1_oficial line =
     (if length line < 302 then Inl (Tamanho ''Tipo 1 (oficial)'' (length line) 302)
      else
        and_then (to_int (slice_afd line 1 9)) (\<lambda>nsr.
        and_then (to_int (slice_afd line 10 10)) (\<lambda>tipo.
          let crc = py_upper (slice_afd line 299 302);
              crc_calc = crc16_hex4_for_line line (299, 302)
          in Inr \<lparr> r1_nsr = nsr, r1_tipo = tipo,
                   r1_id_empregador_tipo = Some (slice_afd line 11 11),
                   r1_id_empregador = Some (py_strip (slice_afd line 12 25)),
                   r1_cno_caepf = Some (py_strip (slice_afd line 26 39)),
                   r1_razao_social = Some (py_rstrip (slice_afd line 40 189)),
                   r1_numero_fabricacao_processo_ou_inpi = Some (py_strip (slice_afd line 190 206)),
                   r1_data_inicio = Some (slice_afd line 207 216),
                   r1_data_fim = Some (slice_afd line 217 226),
                   r1_data_hora_geracao = Some (slice_afd line 227 250),
                   r1_versao_layout = Some (slice_afd line 251 253),
                   r1_id_fabricante_tipo = Some (slice_afd line 254 254),
                   r1_id_fabricante = Some (py_strip (slice_afd line 255 268)),
                   r1_modelo_rep_c = Some (py_rstrip (slice_afd line 269 298)),
                   r1_crc16 = Some crc,
                   r1_crc_ok = Some (crc = ustr crc_calc) \<rparr>)))"

definition parse_registro2 :: "string \<Rightarrow> parse_error + Registro2" where
  "parse_registro2 line =
     (if length line < 331 then Inl (Tamanho ''Tipo 2'' (length line) 331)
      else
        and_then (to_int (slice_afd line 1 9)) (\<lambda>nsr.
        and_then (to_int (slice_afd line 10 10)) (\<lambda>tipo.
          let crc = py_upper (slice_afd line 328 331);
              crc_ok = (crc = ustr (crc16_hex4_for_line line (328, 331)))
          in Inr \<lparr> r2_nsr = nsr, r2_tipo = tipo,
                   r2_dh_gravacao = slice_afd line 11 34,
                   r2_cpf_responsavel = py_strip (slice_afd line 35 48),
                   r2_id_empregador_tipo = slice_afd line 49 49,
                   r2_id_empregador = py_strip (slice_afd line 50 63),
                   r2_cno_caepf = py_strip (slice_afd line 64 77),
                   r2_razao_social = py_rstrip (slice_afd line 78 227),
                   r2_local_prestacao = py_rstrip (slice_afd line 228 327),
                   r2_crc16 = crc, r2_crc_ok = crc_ok \<rparr>)))"

text \<open>
  \<^verbatim>\<open>
  def parse_registro3_oficial(line):
      if len(line) < 50: raise ValueError(...)
      nsr = int(_slice(line, 1, 9)); tipo = _slice(line, 10, 10)
      dh = _slice(line, 11, 34); cpf = _slice(line, 35, 46).strip()
      crc = _slice(line, 47, 50).upper(); crc_ok = (crc == _crc16_hex4_for_line(line, (47, 50)))
      if not _is_iso_dh(dh): raise ValueError(...)
      return Registro3(nsr, tipo, dh, cpf, crc, crc_ok, formato="oficial")
  \<close>
\<close>

definition parse_registro3_oficial :: "string \<Rightarrow> parse_error + Registro3" where
  "parse_registro3_oficial line =
     (if length line < 50 then Inl (Tamanho ''Tipo 3 (oficial)'' (length line) 50)
      else
        and_then (to_int (slice_afd line 1 9)) (\<lambda>nsr.
          let tipo = slice_afd line 10 10;
              dh = slice_afd line 11 34;
              cpf = py_strip (slice_afd line 35 46);
              crc = py_upper (slice_afd line 47 50);
              crc_ok = (crc = ustr (crc16_hex4_for_line line (47, 50)))
          in if \<not> is_iso_dh dh then Inl (DHInvalido dh)
             else Inr \<lparr> r3_nsr = nsr, r3_tipo = tipo, r3_dh_marcacao = dh, r3_cpf = cpf,
                        r3_crc16 = Some crc, r3_crc_ok = Some crc_ok,
                        r3_formato = ''oficial'' \<rparr>))"

definition parse_registro4 :: "string \<Rightarrow> parse_error + Registro4" where
  "parse_registro4 line =
     (if length line < 73 then Inl (Tamanho ''Tipo 4'' (length line) 73)
      else
        and_then (to_int (slice_afd line 1 9)) (\<lambda>nsr.
        and_then (to_int (slice_afd line 10 10)) (\<lambda>tipo.
          let crc = py_upper (slice_afd line 70 73);
              crc_ok = (crc = ustr (crc16_hex4_for_line line (70, 73)))
          in Inr \<lparr> r4_nsr = nsr, r4_tipo = tipo,
                   r4_dh_antes = slice_afd line 11 34,
                   r4_dh_ajustada = slice_afd line 35 58,
                   r4_cpf_responsavel = py_strip (slice_afd line 59 69),
                   r4_crc16 = crc, r4_crc_ok = crc_ok \<rparr>)))"

definition parse_registro5 :: "string \<Rightarrow> parse_error + Registro5" where
  "parse_registro5 line =
     (if length line < 118 then Inl (Tamanho ''Tipo 5'' (length line) 118)
      else
        and_then (to_int (slice_afd line 1 9)) (\<lambda>nsr.
        and_then (to_int (slice_afd line 10 10)) (\<lambda>tipo.
          let crc = py_upper (slice_afd line 115 118);
              crc_ok = (crc = ustr (crc16_hex4_for_line line (115, 118)))
          in Inr \<lparr> r5_nsr = nsr, r5_tipo = tipo,
                   r5_dh_gravacao = slice_afd line 11 34,
                   r5_operacao = slice_afd line 35 35,
                   r5_cpf = py_strip (slice_afd line 36 47),
                   r5_nome = py_rstrip (slice_afd line 48 99),
                   r5_demais_dados = py_rstrip (slice_afd line 100 103),
                   r5_cpf_responsavel = py_strip (slice_afd line 104 114),
                   r5_crc16 = crc, r5_crc_ok = crc_ok \<rparr>)))"

definition parse_registro6 :: "string \<Rightarrow> parse_error + Registro6" where
  "parse_registro6 line =
     (if length line < 36 then Inl (Tamanho ''Tipo 6'' (length line) 36)
      else
        and_then (to_int (slice_afd line 1 9)) (\<lambda>nsr.
        and_then (to_int (slice_afd line 10 10)) (\<lambda>tipo.
          Inr \<lparr> r6_nsr = nsr, r6_tipo = tipo,
                r6_dh_gravacao = slice_afd line 11 34,
                r6_tipo_evento = slice_afd line 35 36 \<rparr>)))"

definition parse_registro7 :: "string \<Rightarrow> parse_error + Registro7" where
  "parse_registro7 line =
     (if length line < 137 then Inl (Tamanho ''Tipo 7'' (length line) 137)
      else
        and_then (to_int (slice_afd line 1 9)) (\<lambda>nsr.
          Inr \<lparr> r7_nsr = nsr, r7_tipo = slice_afd line 10 10,
                r7_dh_marcacao = slice_afd line 11 34,
                r7_cpf = py_strip (slice_afd line 35 46),
                r7_dh_gravacao = slice_afd line 47 70,
                r7_coletor_id = slice_afd line 71 72,
                r7_online_offline = slice_afd line 73 73,
                r7_hash256 = py_strip (slice_afd line 74 137) \<rparr>))"

definition parse_registro9 :: "string \<Rightarrow> parse_error + Registro9" where
  "parse_registro9 line =
     (if length line < 64 then Inl (Tamanho ''Tipo 9'' (length line) 64)
      else
        and_then (to_int (slice_afd line 1 9)) (\<lambda>nsr.
        and_then (to_int (slice_afd line 10 18)) (\<lambda>q2.
        and_then (to_int (slice_afd line 19 27)) (\<lambda>q3.
        and_then (to_int (slice_afd line 28 36)) (\<lambda>q4.
        and_then (to_int (slice_afd line 37 45)) (\<lambda>q5.
        and_then (to_int (slice_afd line 46 54)) (\<lambda>q6.
        and_then (to_int (slice_afd line 55 63)) (\<lambda>q7.
        and_then (to_int (slice_afd line 64 64)) (\<lambda>tipo9.
          Inr \<lparr> r9_nsr = nsr, r9_qtd_tipo2 = q2, r9_qtd_tipo3 = q3, r9_qtd_tipo4 = q4,
                r9_qtd_tipo5 = q5, r9_qtd_tipo6 = q6, r9_qtd_tipo7 = q7,
                r9_tipo = tipo9 \<rparr>)))))))))"

section \<open>Parsers of the compact layouts\<close>

text \<open>
  \<^verbatim>\<open>
  def parse_registro1_compacto(line):
      if len(line) < 9+1+28: raise ValueError(...)
      nsr = int(line[:9]); tipo = int(line[9])
      trail = line[-28:]
      if not _is_digits(trail): raise ValueError(...)
      di, df, dg, hg = trail[0:8], trail[8:16], trail[16:24], trail[24:28]
      di_iso = _ddmmaaaa_to_iso(di); df_iso = _ddmmaaaa_to_iso(df); dg_iso = _ddmmaaaa_to_iso(dg)
      dh_ger = f"{dg_iso}T{_hhmm_to_hhmm(hg)}:00-0300" if dg_iso and _hhmm_to_hhmm(hg) else None
      return Registro1(nsr=nsr, tipo=tipo, ..., data_inicio=di_iso, data_fim=df_iso,
                       data_hora_geracao=dh_ger, ..., crc16=None, crc_ok=None)
  \<close>
  Past the length check the line has 38 characters or more, so \<^verbatim>\<open>line[9]\<close> exists and
  \<^verbatim>\<open>line[-28:]\<close> is the last 28 characters.
\<close>

definition parse_registro1_compacto :: "string \<Rightarrow> parse_error + Registro1" where
  "parse_registro1_compacto line =
     (if length line < 9 + 1 + 28 then Inl (Tamanho ''Tipo 1 compacto'' (length line) 38)
      else
        and_then (to_int (substr line 0 9)) (\<lambda>nsr.
        and_then (to_int [line ! 9]) (\<lambda>tipo.
          let trail = py_slice line (- 28) (int (length line))
          in if \<not> is_digits trail then Inl SemBlocoFinal
             else
               let di = substr trail 0 8; df = substr trail 8 16;
                   dg = substr trail 16 24; hg = substr trail 24 28;
                   di_iso = ddmmaaaa_to_iso di; df_iso = ddmmaaaa_to_iso df;
                   dg_iso = ddmmaaaa_to_iso dg;
                   dh_ger = (case (dg_iso, hhmm_to_hhmm hg) of
                               (Some d, Some h) \<Rightarrow> Some (d @ ''T'' @ h @ '':00-0300'')
                             | _ \<Rightarrow> None)
               in Inr \<lparr> r1_nsr = nsr, r1_tipo = tipo,
                        r1_id_empregador_tipo = None, r1_id_empregador = None,
                        r1_cno_caepf = None, r1_razao_social = None,
                        r1_numero_fabricacao_processo_ou_inpi = None,
                        r1_data_inicio = di_iso, r1_data_fim = df_iso,
                        r1_data_hora_geracao = dh_ger,
                        r1_versao_layout = None, r1_id_fabricante_tipo = None,
                        r1_id_fabricante = None, r1_modelo_rep_c = None,
                        r1_crc16 = None, r1_crc_ok = None \<rparr>)))"

text \<open>
  \<^verbatim>\<open>
  def parse_registro3_compacto(line):
      if len(line) < 34: raise ValueError(...)
      nsr = int(line[:9]); tipo = line[9]
      d, h, cpf = line[10:18], line[18:22], line[22:34].strip()
      di = _ddmmaaaa_to_iso(d); hh = _hhmm_to_hhmm(h)
      if not di or not hh: raise ValueError(...)
      dh = f"{di}T{hh}:00-0300"
      return Registro3(nsr, tipo, dh, cpf, crc16=None, crc_ok=None, formato="compacto")
  \<close>
  A value of \<^verbatim>\<open>_ddmmaaaa_to_iso\<close> or \<^verbatim>\<open>_hhmm_to_hhmm\<close> is \<^verbatim>\<open>None\<close> or a string that is not
  empty, so \<^verbatim>\<open>not di\<close> is \<^verbatim>\<open>di is None\<close>.
\<close>

definition parse_registro3_compacto :: "string \<Rightarrow> parse_error + Registro3" where
  "parse_registro3_compacto line =
     (if length line < 34 then Inl (Tamanho ''Tipo 3 compacto'' (length line) 34)
      else
        and_then (to_int (substr line 0 9)) (\<lambda>nsr.
          let tipo = [line ! 9];
              d = substr line 10 18; h = substr line 18 22;
              cpf = py_strip (substr line 22 34)
          in case (ddmmaaaa_to_iso d, hhmm_to_hhmm h) of
               (Some di, Some hh) \<Rightarrow>
                 Inr \<lparr> r3_nsr = nsr, r3_tipo = tipo,
                       r3_dh_marcacao = di @ ''T'' @ hh @ '':00-0300'', r3_cpf = cpf,
                       r3_crc16 = None, r3_crc_ok = None, r3_formato = ''compacto'' \<rparr>
             | _ \<Rightarrow> Inl (DataHoraInvalidas d h)))"

section \<open>The document interpreter\<close>

text \<open>
  The file is given as its bytes, each one as the character of the same code:
  \<^verbatim>\<open>raw.decode("latin-1", errors="replace")\<close> maps every byte to that character and
  replaces nothing.
\<close>

definition read_text_afd :: "string \<Rightarrow> string" where
  "read_text_afd raw = raw"

text \<open>
  \<^verbatim>\<open>
  def _split_lines(s):
      s = s.replace("\r\n", "\n")
      lines = s.split("\n")
      return [ln for ln in lines if ln.strip()]
  \<close>
\<close>

fun replace_crlf :: "string \<Rightarrow> string" where
  "replace_crlf [] = []"
| "replace_crlf [c] = [c]"
| "replace_crlf (c # d # cs) =
     (if c = CHR 0x0D \<and> d = CHR 0x0A then CHR 0x0A # replace_crlf cs
      else c # replace_crlf (d # cs))"

fun split_nl :: "string \<Rightarrow> string list" where
  "split_nl [] = [ [] ]"
| "split_nl (c # cs) =
     (if c = CHR 0x0A then [] # split_nl cs
      else (case split_nl cs of [] \<Rightarrow> [ [c] ] | x # xs \<Rightarrow> (c # x) # xs))"

definition split_lines :: "string \<Rightarrow> string list" where
  "split_lines s = filter (\<lambda>ln. py_strip ln \<noteq> []) (split_nl (replace_crlf s))"

text \<open>
  The accumulators of \<^verbatim>\<open>interpretar_afd\<close>.  The dictionaries \<^verbatim>\<open>bucket\<close> and
  \<^verbatim>\<open>crc_ok_por_tipo\<close> have fixed keys (\<^verbatim>\<open>"2"\<close>..\<^verbatim>\<open>"7"\<close> and \<^verbatim>\<open>"1"\<close>..\<^verbatim>\<open>"5"\<close>), one field each.
\<close>

record buckets =
  b2 :: "Registro2 list"
  b3 :: "Registro3 list"
  b4 :: "Registro4 list"
  b5 :: "Registro5 list"
  b6 :: "Registro6 list"
  b7 :: "Registro7 list"

record crc_flags =
  c1 :: "bool list"
  c2 :: "bool list"
  c3 :: "bool list"
  c4 :: "bool list"
  c5 :: "bool list"

record estado =
  header :: "Registro1 option"
  bucket :: buckets
  trailer :: "Registro9 option"
  crc_ok_por_tipo :: crc_flags
  erros :: "diagnostico list"

text \<open>
  The first loop:
  \<^verbatim>\<open>
  for ln in lines:
      if len(ln) < 10 or not _is_digits(ln[:9]):
          erros.append(f"Linha inv..lida (sem NSR): {ln!r}")
          continue
      registros.append((int(ln[:9]), ln))
  \<close>
  No handler encloses \<^verbatim>\<open>int(ln[:9])\<close>: when it raises, \<^verbatim>\<open>interpretar_afd\<close> raises.
\<close>

fun classificar ::
  "string list \<Rightarrow> diagnostico list \<Rightarrow> (int \<times> string) list
     \<Rightarrow> afd_error + (diagnostico list \<times> (int \<times> string) list)" where
  "classificar [] errs regs = Inr (errs, regs)"
| "classificar (ln # lns) errs regs =
     (if length ln < 10 \<or> \<not> is_digits (substr ln 0 9)
      then classificar lns (errs @ [LinhaInvalida ln]) regs
      else (case py_int (substr ln 0 9) of
              None \<Rightarrow> Inl (NsrInvalido (substr ln 0 9))
            | Some n \<Rightarrow> classificar lns errs (regs @ [(n, ln)])))"

text \<open>
  The two parsers of a type with a fallback:
  \<^verbatim>\<open>
  try:
      r = parse_registro3_oficial(line)
  except Exception as e1:
      try:
          r = parse_registro3_compacto(line)
      except Exception as e2:
          raise ValueError(f"Falha no tipo 3: {e1} | fallback: {e2}")
  \<close>
  and the same for type 1.
\<close>

definition tenta_registro1 :: "string \<Rightarrow> parse_error + Registro1" where
  "tenta_registro1 line =
     (case parse_registro1_oficial line of
        Inr r \<Rightarrow> Inr r
      | Inl e1 \<Rightarrow>
          (case parse_registro1_compacto line of
             Inr r \<Rightarrow> Inr r
           | Inl e2 \<Rightarrow> Inl (Falha (CHR ''1'') e1 e2)))"

definition tenta_registro3 :: "string \<Rightarrow> parse_error + Registro3" where
  "tenta_registro3 line =
     (case parse_registro3_oficial line of
        Inr r \<Rightarrow> Inr r
      | Inl e1 \<Rightarrow>
          (case parse_registro3_compacto line of
             Inr r \<Rightarrow> Inr r
           | Inl e2 \<Rightarrow> Inl (Falha (CHR ''3'') e1 e2)))"

text \<open>
  The body of the second loop, for one line of \<^verbatim>\<open>registros\<close>.  Every exception of a
  parser is caught by \<^verbatim>\<open>except Exception as e\<close>, which appends to \<^verbatim>\<open>erros\<close>; a parser
  raises before anything is appended, so a failed line changes \<^verbatim>\<open>erros\<close> only.
\<close>

definition erro_na_linha :: "estado \<Rightarrow> string \<Rightarrow> parse_error \<Rightarrow> estado" where
  "erro_na_linha st line e = st\<lparr>erros := erros st @ [ErroParse (substr line 0 9) (line ! 9) e]\<rparr>"

definition processar_linha :: "estado \<Rightarrow> string \<Rightarrow> estado" where
  "processar_linha st line =
     (let tipo = line ! 9; bk = bucket st; fl = crc_ok_por_tipo st
      in if tipo = CHR ''1'' then
           (case tenta_registro1 line of
              Inl e \<Rightarrow> erro_na_linha st line e
            | Inr r \<Rightarrow>
                st\<lparr>header := Some r,
                   crc_ok_por_tipo :=
                     (case r1_crc_ok r of None \<Rightarrow> fl | Some ok \<Rightarrow> fl\<lparr>c1 := c1 fl @ [ok]\<rparr>)\<rparr>)
         else if tipo = CHR ''2'' then
           (case parse_registro2 line of
              Inl e \<Rightarrow> erro_na_linha st line e
            | Inr r \<Rightarrow>
                st\<lparr>bucket := bk\<lparr>b2 := b2 bk @ [r]\<rparr>,
                   crc_ok_por_tipo := fl\<lparr>c2 := c2 fl @ [r2_crc_ok r]\<rparr>\<rparr>)
         else if tipo = CHR ''3'' then
           (case tenta_registro3 line of
              Inl e \<Rightarrow> erro_na_linha st line e
            | Inr r \<Rightarrow>
                st\<lparr>bucket := bk\<lparr>b3 := b3 bk @ [r]\<rparr>,
                   crc_ok_por_tipo :=
                     (case r3_crc_ok r of None \<Rightarrow> fl | Some ok \<Rightarrow> fl\<lparr>c3 := c3 fl @ [ok]\<rparr>)\<rparr>)
         else if tipo = CHR ''4'' then
           (case parse_registro4 line of
              Inl e \<Rightarrow> erro_na_linha st line e
            | Inr r \<Rightarrow>
                st\<lparr>bucket := bk\<lparr>b4 := b4 bk @ [r]\<rparr>,
                   crc_ok_por_tipo := fl\<lparr>c4 := c4 fl @ [r4_crc_ok r]\<rparr>\<rparr>)
         else if tipo = CHR ''5'' then
           (case parse_registro5 line of
              Inl e \<Rightarrow> erro_na_linha st line e
            | Inr r \<Rightarrow>
                st\<lparr>bucket := bk\<lparr>b5 := b5 bk @ [r]\<rparr>,
                   crc_ok_por_tipo := fl\<lparr>c5 := c5 fl @ [r5_crc_ok r]\<rparr>\<rparr>)
         else if tipo = CHR ''6'' then
           (case parse_registro6 line of
              Inl e \<Rightarrow> erro_na_linha st line e
            | Inr r \<Rightarrow> st\<lparr>bucket := bk\<lparr>b6 := b6 bk @ [r]\<rparr>\<rparr>)
         else if tipo = CHR ''7'' then
           (case parse_registro7 line of
              Inl e \<Rightarrow> erro_na_linha st line e
            | Inr r \<Rightarrow> st\<lparr>bucket := bk\<lparr>b7 := b7 bk @ [r]\<rparr>\<rparr>)
         else if tipo = CHR ''9'' then
           (case parse_registro9 line of
              Inl e \<Rightarrow> erro_na_linha st line e
            | Inr r \<Rightarrow> st\<lparr>trailer := Some r\<rparr>)
         else st\<lparr>erros := erros st @ [TipoDesconhecido tipo]\<rparr>)"

definition estado_inicial :: "diagnostico list \<Rightarrow> estado" where
  "estado_inicial errs =
     \<lparr> header = None,
       bucket = \<lparr> b2 = [], b3 = [], b4 = [], b5 = [], b6 = [], b7 = [] \<rparr>,
       trailer = None,
       crc_ok_por_tipo = \<lparr> c1 = [], c2 = [], c3 = [], c4 = [], c5 = [] \<rparr>,
       erros = errs \<rparr>"

text \<open>The result: the dictionary that \<^verbatim>\<open>interpretar_afd\<close> returns.\<close>

record crc_resumo =
  crc1_ok :: "bool option"
  crc2_ok :: "bool option"
  crc3_ok :: "bool option"
  crc4_ok :: "bool option"
  crc5_ok :: "bool option"

record validacoes =
  ordem_nsr_ok :: bool
  contagens_ok :: bool
  v_crc_ok_por_tipo :: crc_resumo
  v_erros :: "diagnostico list"

record documento =
  d_header :: "Registro1 option"
  d_registros_por_tipo :: buckets
  d_trailer :: "Registro9 option"
  d_validacoes :: validacoes

text \<open>\<^verbatim>\<open>all(v) if v else None\<close>\<close>

definition all_or_none :: "bool list \<Rightarrow> bool option" where
  "all_or_none v = (if v = [] then None else Some (list_all (\<lambda>b. b) v))"

text \<open>\<^verbatim>\<open>any(bucket.values())\<close>: some list of the dictionary is not empty.\<close>

definition any_bucket :: "buckets \<Rightarrow> bool" where
  "any_bucket bk =
     (b2 bk \<noteq> [] \<or> b3 bk \<noteq> [] \<or> b4 bk \<noteq> [] \<or> b5 bk \<noteq> [] \<or> b6 bk \<noteq> [] \<or> b7 bk \<noteq> [])"

text \<open>
  \<^verbatim>\<open>
  contagens_ok = True
  if trailer:
      contagens_ok = (trailer.qtd_tipo2 == len(bucket["2"]) and ... and trailer.tipo == 9)
  \<close>
  An instance of the dataclass is true, so \<^verbatim>\<open>if trailer\<close> asks whether there is one.
\<close>

definition calc_contagens_ok :: "Registro9 option \<Rightarrow> buckets \<Rightarrow> bool" where
  "calc_contagens_ok tr bk =
     (case tr of
        None \<Rightarrow> True
      | Some t \<Rightarrow>
          r9_qtd_tipo2 t = int (length (b2 bk)) \<and>
          r9_qtd_tipo3 t = int (length (b3 bk)) \<and>
          r9_qtd_tipo4 t = int (length (b4 bk)) \<and>
          r9_qtd_tipo5 t = int (length (b5 bk)) \<and>
          r9_qtd_tipo6 t = int (length (b6 bk)) \<and>
          r9_qtd_tipo7 t = int (length (b7 bk)) \<and>
          r9_tipo t = 9)"

definition interpretar_afd :: "string \<Rightarrow> afd_error + documento" where
  "interpretar_afd raw =
     (let text = read_text_afd raw; lines = split_lines text
      in if lines = [] then Inl ArquivoVazio
         else
           (case classificar lines [] [] of
              Inl e \<Rightarrow> Inl e
            | Inr (errs, registros) \<Rightarrow>
                let ordem = (map fst registros = sort (map fst registros));
                    st = foldl processar_linha (estado_inicial errs) (map snd registros);
                    contagens = calc_contagens_ok (trailer st) (bucket st);
                    fl = crc_ok_por_tipo st
                in if \<not> any_bucket (bucket st) \<and> header st = None \<and> trailer st = None
                   then Inl (NenhumRegistro (take 3 (erros st)))
                   else Inr \<lparr> d_header = header st,
                              d_registros_por_tipo = bucket st,
                              d_trailer = trailer st,
                              d_validacoes =
                                \<lparr> ordem_nsr_ok = ordem,
                                  contagens_ok = contagens,
                                  v_crc_ok_por_tipo =
                                    \<lparr> crc1_ok = all_or_none (c1 fl), crc2_ok = all_or_none (c2 fl),
                                      crc3_ok = all_or_none (c3 fl), crc4_ok = all_or_none (c4 fl),
                                      crc5_ok = all_or_none (c5 fl) \<rparr>,
                                  v_erros = take 200 (erros st) \<rparr> \<rparr>))"

section \<open>The journey summarizer: time stamps\<close>

text \<open>
  A \<^verbatim>\<open>datetime\<close> with a fixed offset from UTC, as \<^verbatim>\<open>strptime\<close> with \<^verbatim>\<open>%z\<close> builds it.
  The offset is in microseconds, since \<^verbatim>\<open>%z\<close> reads seconds and a fraction.
\<close>

record datetime =
  dt_year :: nat
  dt_month :: nat
  dt_day :: nat
  dt_hour :: nat
  dt_minute :: nat
  dt_second :: nat
  dt_microsecond :: nat
  dt_utcoffset :: int

definition is_leap :: "nat \<Rightarrow> bool" where
  "is_leap y = (y mod 4 = 0 \<and> (y mod 100 \<noteq> 0 \<or> y mod 400 = 0))"

definition days_in_month :: "nat \<Rightarrow> nat \<Rightarrow> nat" where
  "days_in_month y m =
     (if m = 2 then (if is_leap y then 29 else 28)
      else if m \<in> {4, 6, 9, 11} then 30 else 31)"

definition days_before_year :: "nat \<Rightarrow> nat" where
  "days_before_year y = (y - 1) * 365 + (y - 1) div 4 - (y - 1) div 100 + (y - 1) div 400"

definition days_before_month :: "nat \<Rightarrow> nat \<Rightarrow> nat" where
  "days_before_month y m = sum_list (map (days_in_month y) [1..<m])"

text \<open>\<^verbatim>\<open>date.toordinal()\<close>: day 1 is the first of January of year 1.\<close>

definition toordinal :: "nat \<Rightarrow> nat \<Rightarrow> nat \<Rightarrow> nat" where
  "toordinal y m d = days_before_year y + days_before_month y m + d"

text \<open>
  Two aware \<^verbatim>\<open>datetime\<close>s compare, and subtract, by their instants: the local time less the
  offset.  The instant is in microseconds, so it is also the \<^verbatim>\<open>timedelta\<close> since the
  beginning of day 0; a \<^verbatim>\<open>timedelta\<close> is an integer of microseconds.
\<close>

definition instant :: "datetime \<Rightarrow> int" where
  "instant t =
     ((int (toordinal (dt_year t) (dt_month t) (dt_day t)) * 86400
         + int (dt_hour t) * 3600 + int (dt_minute t) * 60 + int (dt_second t)) * 1000000
       + int (dt_microsecond t))
     - dt_utcoffset t"

subsection \<open>\<^verbatim>\<open>datetime.strptime(s, "%Y-%m-%dT%H:%M:00%z")\<close>\<close>

text \<open>
  \<^verbatim>\<open>strptime\<close> turns the format into a regular expression, compiled with
  \<^verbatim>\<open>IGNORECASE\<close>, and applies \<^verbatim>\<open>match\<close>:
  \<^verbatim>\<open>
  (?P<Y>\d\d\d\d)-(?P<m>1[0-2]|0[1-9]|[1-9])-(?P<d>3[0-1]|[1-2]\d|0[1-9]|[1-9]| [1-9])T
  (?P<H>2[0-3]|[0-1]\d|\d):(?P<M>[0-5]\d|\d):00
  (?P<z>[+-]\d\d:?[0-5]\d(:?[0-5]\d(\.\d{1,6})?)?|(?-i:Z))
  \<close>
  The expression has no star, so its backtracking search is the list of all ways of
  matching, by priority: the first alternative before the second, an optional part taken
  before it is left out.  \<open>rx_match r s\<close> lists, for each way of matching \<open>r\<close> at the
  beginning of \<open>s\<close>, the text matched and what is left of \<open>s\<close>.
\<close>

datatype rx = Um "char list" | Seq rx rx | Alt rx rx | Vazio

fun rx_match :: "rx \<Rightarrow> string \<Rightarrow> (string \<times> string) list" where
  "rx_match (Um cs) s = (case s of [] \<Rightarrow> [] | c # t \<Rightarrow> if c \<in> set cs then [([c], t)] else [])"
| "rx_match (Seq a b) s =
     concat (map (\<lambda>(u, r). map (\<lambda>(v, r'). (u @ v, r')) (rx_match b r)) (rx_match a s))"
| "rx_match (Alt a b) s = rx_match a s @ rx_match b s"
| "rx_match Vazio s = [([], s)]"

text \<open>
  The sequence of the groups and of the literals between them.  Each way of matching gives
  the text of every part and what is left of the string; the head of the list is the match
  that \<^verbatim>\<open>re\<close> reports.
\<close>

fun rx_seq :: "rx list \<Rightarrow> string \<Rightarrow> (string list \<times> string) list" where
  "rx_seq [] s = [([], s)]"
| "rx_seq (r # rs) s =
     concat (map (\<lambda>(u, rest). map (\<lambda>(caps, fin). (u # caps, fin)) (rx_seq rs rest))
                 (rx_match r s))"

definition rx_opt :: "rx \<Rightarrow> rx" where
  "rx_opt r = Alt r Vazio"

definition rx_d :: rx where
  "rx_d = Um ''0123456789''"

definition rx_Y :: rx where
  "rx_Y = Seq rx_d (Seq rx_d (Seq rx_d rx_d))"

definition rx_m :: rx where
  "rx_m = Alt (Seq (Um ''1'') (Um ''012'')) (Alt (Seq (Um ''0'') (Um ''123456789'')) (Um ''123456789''))"

definition rx_dia :: rx where
  "rx_dia =
     Alt (Seq (Um ''3'') (Um ''01''))
    (Alt (Seq (Um ''12'') rx_d)
    (Alt (Seq (Um ''0'') (Um ''123456789''))
    (Alt (Um ''123456789'')
         (Seq (Um '' '') (Um ''123456789'')))))"

definition rx_H :: rx where
  "rx_H = Alt (Seq (Um ''2'') (Um ''0123'')) (Alt (Seq (Um ''01'') rx_d) rx_d)"

definition rx_M :: rx where
  "rx_M = Alt (Seq (Um ''012345'') rx_d) rx_d"

definition rx_frac :: rx where
  "rx_frac =
     Seq (Um ''.'') (Seq rx_d (rx_opt (Seq rx_d (rx_opt (Seq rx_d (rx_opt (Seq rx_d
       (rx_opt (Seq rx_d (rx_opt rx_d))))))))))"

definition rx_z :: rx where
  "rx_z =
     Alt (Seq (Um ''+-'') (Seq rx_d (Seq rx_d (Seq (rx_opt (Um '':''))
            (Seq (Um ''012345'') (Seq rx_d
              (rx_opt (Seq (rx_opt (Um '':'')) (Seq (Um ''012345'') (Seq rx_d
                 (rx_opt rx_frac)))))))))))
         (Um ''Z'')"

definition formato_dh :: "rx list" where
  "formato_dh =
     [rx_Y, Um ''-'', rx_m, Um ''-'', rx_dia, Um ''Tt'', rx_H, Um '':'', rx_M,
      Seq (Um '':'') (Seq (Um ''0'') (Um ''0'')), rx_z]"

text \<open>\<^verbatim>\<open>int()\<close> of the text of a group: decimal digits, after a blank in the case of the day.\<close>

definition decimal :: "string \<Rightarrow> nat" where
  "decimal s = foldl (\<lambda>a c. a * 10 + (of_char c - 48)) 0 (filter ascii_digit s)"

text \<open>
  The offset of a group \<^verbatim>\<open>z\<close>, in microseconds:
  \<^verbatim>\<open>
  if z == 'Z': gmtoff = 0
  else:
      if z[3] == ':':
          z = z[:3] + z[4:]
          if len(z) > 5:
              if z[5] != ':': raise ValueError(...)
              z = z[:5] + z[6:]
      hours = int(z[1:3]); minutes = int(z[3:5]); seconds = int(z[5:7] or 0)
      gmtoff = (hours * 60 * 60) + (minutes * 60) + seconds
      gmtoff_remainder = z[8:]
      gmtoff_fraction = int(gmtoff_remainder + "0" * (6 - len(gmtoff_remainder)))
      if z.startswith("-"): gmtoff = -gmtoff; gmtoff_fraction = -gmtoff_fraction
  \<close>
  A matched \<^verbatim>\<open>z\<close> other than \<^verbatim>\<open>Z\<close> has five characters or more.  \<open>None\<close> is a
  \<^verbatim>\<open>ValueError\<close>.
\<close>

definition sem_dois_pontos :: "string \<Rightarrow> string option" where
  "sem_dois_pontos z =
     (if z ! 3 = CHR '':'' then
        (let z1 = take 3 z @ drop 4 z
         in if length z1 > 5 then
              (if z1 ! 5 \<noteq> CHR '':'' then None else Some (take 5 z1 @ drop 6 z1))
            else Some z1)
      else Some z)"

definition gmtoff_us :: "string \<Rightarrow> int option" where
  "gmtoff_us z =
     (if z = ''Z'' then Some 0
      else
        (case sem_dois_pontos z of
           None \<Rightarrow> None
         | Some z2 \<Rightarrow>
             (case (py_int (substr z2 1 3), py_int (substr z2 3 5),
                    (if substr z2 5 7 = [] then Some 0 else py_int (substr z2 5 7)),
                    py_int (drop 8 z2 @ replicate (6 - length (drop 8 z2)) (CHR ''0''))) of
                (Some hours, Some minutes, Some seconds, Some fraction) \<Rightarrow>
                  (let gmtoff = hours * 60 * 60 + minutes * 60 + seconds
                   in if take 1 z2 = ''-'' then Some (- gmtoff * 1000000 - fraction)
                      else Some (gmtoff * 1000000 + fraction))
              | _ \<Rightarrow> None)))"

text \<open>
  \<^verbatim>\<open>def _parse_iso_dh(s): return datetime.strptime(s, "%Y-%m-%dT%H:%M:00%z")\<close>

  \<open>None\<close> is a \<^verbatim>\<open>ValueError\<close>: the string does not match, or the match leaves characters
  over, or the offset is inconsistent, or \<^verbatim>\<open>date(year, month, day)\<close> does not exist (a year
  below 1, a day beyond the month), or \<^verbatim>\<open>timezone\<close> refuses an offset that is not strictly
  within 24 hours.
\<close>

definition parse_iso_dh :: "string \<Rightarrow> datetime option" where
  "parse_iso_dh s =
     (case rx_seq formato_dh s of
        [] \<Rightarrow> None
      | (caps, fin) # _ \<Rightarrow>
          if fin \<noteq> [] then None
          else
            (let year = decimal (caps ! 0); month = decimal (caps ! 2);
                 day = decimal (caps ! 4); hour = decimal (caps ! 6);
                 minute = decimal (caps ! 8)
             in case gmtoff_us (caps ! 10) of
                  None \<Rightarrow> None
                | Some off \<Rightarrow>
                    if year < 1 \<or> day > days_in_month year month then None
                    else if \<not> (- 86400000000 < off \<and> off < 86400000000) then None
                    else Some \<lparr> dt_year = year, dt_month = month, dt_day = day,
                                dt_hour = hour, dt_minute = minute, dt_second = 0,
                                dt_microsecond = 0, dt_utcoffset = off \<rparr>))"

section \<open>The journey summarizer: pairs and rows\<close>

text \<open>
  \<^verbatim>\<open>
  def _sum_pairs(times):
      pares = []
      total = timedelta(0)
      i = 0
      while i < len(times):
          e = times[i]
          s = times[i+1] if i + 1 < len(times) else None
          pares.append((e, s))
          if s and s > e:
              total += (s - e)
          i += 2
      return total, pares
  \<close>
  The loop reads \<^verbatim>\<open>times\<close> two elements at a time; the function below is the loop from the
  index \<open>i\<close> on, with \<open>drop i times\<close> as its list.  A \<^verbatim>\<open>datetime\<close> is true, so \<^verbatim>\<open>if s\<close>
  asks whether there is an exit.
\<close>

type_synonym par = "datetime \<times> datetime option"

fun sum_pairs_loop :: "datetime list \<Rightarrow> int \<Rightarrow> par list \<Rightarrow> int \<times> par list" where
  "sum_pairs_loop [] tot pares = (tot, pares)"
| "sum_pairs_loop [e] tot pares = (tot, pares @ [(e, None)])"
| "sum_pairs_loop (e # s # rest) tot pares =
     sum_pairs_loop rest
       (if instant s > instant e then tot + (instant s - instant e) else tot)
       (pares @ [(e, Some s)])"

definition sum_pairs :: "datetime list \<Rightarrow> int \<times> par list" where
  "sum_pairs tms = sum_pairs_loop tms 0 []"

text \<open>
  A row of the CSV of punches, as \<^verbatim>\<open>carregar_marcacoes_csv\<close> reads it back from what
  \<^verbatim>\<open>exportar_marcacoes_tipo3_csv\<close> wrote: the six columns of a type-3 record, as texts.
  The file between the two functions is not modelled: the rows read are the rows written.
\<close>

record marcacao =
  m_nsr :: string
  m_dh_marcacao :: string
  m_cpf :: string
  m_crc16 :: ustring
  m_crc_ok :: string
  m_formato :: string

fun dec_str :: "nat \<Rightarrow> string" where
  "dec_str n = (if n < 10 then [hex_digit n] else dec_str (n div 10) @ [hex_digit (n mod 10)])"

declare dec_str.simps [simp del]

definition str_int :: "int \<Rightarrow> string" where
  "str_int n = (if n < 0 then CHR ''-'' # dec_str (nat (- n)) else dec_str (nat n))"

text \<open>What the CSV writer makes of the fields of a record: \<^verbatim>\<open>None\<close> is the empty text.\<close>

definition linha_csv :: "Registro3 \<Rightarrow> marcacao" where
  "linha_csv r =
     \<lparr> m_nsr = str_int (r3_nsr r),
       m_dh_marcacao = r3_dh_marcacao r,
       m_cpf = r3_cpf r,
       m_crc16 = (case r3_crc16 r of None \<Rightarrow> [] | Some c \<Rightarrow> c),
       m_crc_ok = (case r3_crc_ok r of None \<Rightarrow> [] | Some True \<Rightarrow> ''True'' | Some False \<Rightarrow> ''False''),
       m_formato = r3_formato r \<rparr>"

definition exportar_marcacoes_tipo3 :: "documento \<Rightarrow> marcacao list" where
  "exportar_marcacoes_tipo3 doc = map linha_csv (b3 (d_registros_por_tipo doc))"

text \<open>
  The grouping loop of \<^verbatim>\<open>gerar_jornadas_por_cpf\<close>:
  \<^verbatim>\<open>
  buckets = defaultdict(list)
  for row in dados:
      cpf = (row.get("cpf") or "").strip()
      dh = (row.get("dh_marcacao") or "").strip()
      if not cpf or not dh:
          continue
      try:
          dt = _parse_iso_dh(dh)
      except Exception:
          continue
      data_local = dt.astimezone(dt.tzinfo).date().isoformat()
      buckets[(cpf, data_local)].append(dt)
  \<close>
  The dictionary keeps its keys in the order of their first insertion: it is a list of
  keys with their lists.  \<^verbatim>\<open>astimezone\<close> to the time stamp's own zone changes nothing, so
  the local date is the date of the time stamp, written \<^verbatim>\<open>YYYY-MM-DD\<close>.
\<close>

definition isoformat_date :: "datetime \<Rightarrow> string" where
  "isoformat_date t =
     zero_fill 4 (dec_str (dt_year t)) @ ''-'' @ zero_fill 2 (dec_str (dt_month t)) @ ''-''
       @ zero_fill 2 (dec_str (dt_day t))"

type_synonym grupos = "((string \<times> string) \<times> datetime list) list"

fun append_grupo :: "grupos \<Rightarrow> string \<times> string \<Rightarrow> datetime \<Rightarrow> grupos" where
  "append_grupo [] k t = [(k, [t])]"
| "append_grupo ((k', ts) # g) k t =
     (if k' = k then (k', ts @ [t]) # g else (k', ts) # append_grupo g k t)"

definition agrupar_linha :: "grupos \<Rightarrow> marcacao \<Rightarrow> grupos" where
  "agrupar_linha g row =
     (let cpf = py_strip (m_cpf row); dh = py_strip (m_dh_marcacao row)
      in if cpf = [] \<or> dh = [] then g
         else (case parse_iso_dh dh of
                 None \<Rightarrow> g
               | Some t \<Rightarrow> append_grupo g (cpf, isoformat_date t) t))"

definition agrupar :: "marcacao list \<Rightarrow> grupos" where
  "agrupar dados = foldl agrupar_linha [] dados"

text \<open>
  One row of the summary, for one key of \<^verbatim>\<open>buckets\<close>:
  \<^verbatim>\<open>
  times.sort()
  total, pares = _sum_pairs(times)
  extra_10h = total - limite_10h if total > limite_10h else timedelta(0)
  extra_6h  = total - limite_6h  if total > limite_6h  else timedelta(0)
  row = {"cpf": cpf, "data": data_str}
  for i in range(n_pares):
      e = pares[i][0] if i < len(pares) else None
      s = pares[i][1] if i < len(pares) else None
      row[f"entrada{i+1}"] = _format_dh(e) if e else ""
      row[f"saida{i+1}"]   = _format_dh(s) if s else ""
  \<close>
  The row holds the values; their rendering as text by \<^verbatim>\<open>_format_dh\<close> and
  \<^verbatim>\<open>_format_td_hhmm\<close> is not modelled.  \<^verbatim>\<open>list.sort\<close> is stable, and so is \<open>sort_key\<close>.
\<close>

record jornada =
  j_cpf :: string
  j_data :: string
  j_pares :: "(datetime option \<times> datetime option) list"
  j_horas_trabalhadas :: int
  j_horas_extras_maior_10h :: int
  j_horas_extras_maior_6h :: int

definition horas :: "int \<Rightarrow> int" where
  "horas h = h * 3600 * 1000000"

definition linha_jornada :: "nat \<Rightarrow> (string \<times> string) \<times> datetime list \<Rightarrow> jornada" where
  "linha_jornada n_pares grupo =
     (case grupo of ((cpf, data_str), tms) \<Rightarrow>
        (case sum_pairs (sort_key instant tms) of (tot, pares) \<Rightarrow>
           \<lparr> j_cpf = cpf, j_data = data_str,
             j_pares = map (\<lambda>i. if i < length pares
                                 then (Some (fst (pares ! i)), snd (pares ! i))
                                 else (None, None)) [0..<n_pares],
             j_horas_trabalhadas = tot,
             j_horas_extras_maior_10h = (if tot > horas 10 then tot - horas 10 else 0),
             j_horas_extras_maior_6h = (if tot > horas 6 then tot - horas 6 else 0) \<rparr>))"

text \<open>
  \<^verbatim>\<open>
  if ordenar_por == "cpf_data":
      linhas.sort(key=lambda r: (r["cpf"], r["data"]))
  else:
      linhas.sort(key=lambda r: (r["data"], r["cpf"]))
  \<close>
  Texts and pairs are ordered as in Python: by the first character, or component, that
  differs.  The result is the list of rows that is written to the output file.
\<close>

definition gerar_jornadas_por_cpf :: "marcacao list \<Rightarrow> nat \<Rightarrow> string \<Rightarrow> jornada list" where
  "gerar_jornadas_por_cpf dados n_pares ordenar_por =
     (let linhas = map (linha_jornada n_pares) (agrupar dados)
      in if ordenar_por = ''cpf_data'' then sort_key (\<lambda>r. (j_cpf r, j_data r)) linhas
         else sort_key (\<lambda>r. (j_data r, j_cpf r)) linhas)"

section \<open>Notions used in the statements\<close>

text \<open>An upper-case hexadecimal digit, and the number that a text of such digits denotes.\<close>

definition is_hex_upper :: "char \<Rightarrow> bool" where
  "is_hex_upper c = (c \<in> set ''0123456789ABCDEF'')"

definition is_hex_digit :: "char \<Rightarrow> bool" where
  "is_hex_digit c = (c \<in> set ''0123456789abcdefABCDEF'')"

definition hex_digit_value :: "char \<Rightarrow> nat" where
  "hex_digit_value c = (if ascii_digit c then of_char c - 48 else of_char c - 55)"

definition hex_value :: "string \<Rightarrow> nat" where
  "hex_value s = foldl (\<lambda>a c. a * 16 + hex_digit_value c) 0 s"

text \<open>
  The list that the dictionary of groups holds under a key: \<^verbatim>\<open>buckets[k]\<close>, empty when the key
  is absent.
\<close>

definition grupo :: "grupos \<Rightarrow> string \<times> string \<Rightarrow> datetime list" where
  "grupo g k = (case map_of g k of None \<Rightarrow> [] | Some tms \<Rightarrow> tms)"

text \<open>
  A classifiable line has ten characters or more, the first nine of them decimal digits; its
  NSR is the number that these nine digits denote.
\<close>

definition classificavel :: "string \<Rightarrow> bool" where
  "classificavel ln = (10 \<le> length ln \<and> list_all ascii_digit (take 9 ln))"

definition nsr_de :: "string \<Rightarrow> int" where
  "nsr_de ln = int (decimal (take 9 ln))"

text \<open>
  The pairs of a list of time stamps, by index: element \<open>2k\<close> with element \<open>2k + 1\<close>, the
  exit empty when there is no element \<open>2k + 1\<close>; and what a pair adds to the day's total.
\<close>

definition pares_por_indice :: "datetime list \<Rightarrow> par list" where
  "pares_por_indice tms =
     map (\<lambda>k. (tms ! (2 * k), if 2 * k + 1 < length tms then Some (tms ! (2 * k + 1)) else None))
         [0..<(length tms + 1) div 2]"

fun contribuicao :: "par \<Rightarrow> int" where
  "contribuicao (e, None) = 0"
| "contribuicao (e, Some s) = (if instant s > instant e then instant s - instant e else 0)"

text \<open>
  The characters that \<^verbatim>\<open>isdigit\<close> accepts; two characters that are decimal digits and
  denote a number within bounds; and a date window (day, month, year) with a time window
  (hour, minute) that denote a date of the calendar and a time of the day, as the
  \<^verbatim>\<open>datetime\<close> class has them (years from 1 on).
\<close>

definition isdigit_chars :: "char list" where
  "isdigit_chars = ''0123456789'' @ [CHR 0xB2, CHR 0xB3, CHR 0xB9]"

definition dois_digitos :: "char \<Rightarrow> char \<Rightarrow> nat \<Rightarrow> nat \<Rightarrow> bool" where
  "dois_digitos a b lo hi =
     (ascii_digit a \<and> ascii_digit b \<and> lo \<le> decimal [a, b] \<and> decimal [a, b] \<le> hi)"

definition data_hora_real :: "string \<Rightarrow> string \<Rightarrow> bool" where
  "data_hora_real d h =
     (list_all ascii_digit (d @ h) \<and>
      1 \<le> decimal (substr d 4 8) \<and>
      1 \<le> decimal (substr d 2 4) \<and> decimal (substr d 2 4) \<le> 12 \<and>
      1 \<le> decimal (substr d 0 2) \<and>
      decimal (substr d 0 2) \<le> days_in_month (decimal (substr d 4 8)) (decimal (substr d 2 4)) \<and>
      decimal (substr h 0 2) \<le> 23 \<and> decimal (substr h 2 4) \<le> 59)"

section \<open>Example lines\<close>

text \<open>
  One line of each layout that carries a checksum, field by field.  The checksum field of
  the lines of types 1, 2, 4 and 5 and of the first line of type 3 is \<open>0000\<close>, which is not
  the checksum of any of them; the checksum of the line of type 3 is \<open>1E89\<close>.
\<close>

definition linha1_exemplo :: string where
  "linha1_exemplo =
     ''000000001'' @ ''1'' @ ''1'' @ ''12345678000199'' @ replicate 14 (CHR '' '')
     @ ''EMPRESA EXEMPLO LTDA'' @ replicate 130 (CHR '' '')
     @ ''00012345678901234'' @ ''2025-07-01'' @ ''2025-07-31''
     @ ''2025-08-01T08:00:00-0300'' @ ''003'' @ ''1'' @ ''98765432000155''
     @ ''REP-C MODELO X'' @ replicate 16 (CHR '' '') @ ''0000''"

definition linha2_exemplo :: string where
  "linha2_exemplo =
     ''000000002'' @ ''2'' @ ''2025-07-16T18:22:00-0300'' @ ''01234567890   '' @ ''1''
     @ ''12345678000199'' @ replicate 14 (CHR '' '')
     @ ''EMPRESA EXEMPLO LTDA'' @ replicate 130 (CHR '' '')
     @ ''RUA DAS FLORES 100'' @ replicate 82 (CHR '' '') @ ''0000''"

definition linha3_dados :: string where
  "linha3_dados = ''000000003'' @ ''3'' @ ''2025-07-16T18:22:00-0300'' @ ''012345678901''"

definition linha3_exemplo :: string where
  "linha3_exemplo = linha3_dados @ ''0000''"

definition linha3_minuscula :: string where
  "linha3_minuscula = linha3_dados @ ''1e89''"

definition linha3_maiuscula :: string where
  "linha3_maiuscula = linha3_dados @ ''1E89''"

text \<open>The line \<open>linha3_maiuscula\<close> with the last digit of its NSR changed from 3 to 4.\<close>

definition linha3_alterada :: string where
  "linha3_alterada =
     ''000000004'' @ ''3'' @ ''2025-07-16T18:22:00-0300'' @ ''012345678901'' @ ''1E89''"

definition linha4_exemplo :: string where
  "linha4_exemplo =
     ''000000004'' @ ''4'' @ ''2025-07-16T18:22:00-0300'' @ ''2025-07-16T18:25:00-0300''
     @ ''01234567890'' @ ''0000''"

definition linha5_exemplo :: string where
  "linha5_exemplo =
     ''000000005'' @ ''5'' @ ''2025-07-16T18:22:00-0300'' @ ''I'' @ ''012345678901''
     @ ''MARIA DA SILVA'' @ replicate 38 (CHR '' '') @ ''0001'' @ ''01234567890'' @ ''0000''"

text \<open>The records that the parsers make of these lines.\<close>

definition registro1_exemplo :: Registro1 where
  "registro1_exemplo =
     \<lparr> r1_nsr = 1, r1_tipo = 1, r1_id_empregador_tipo = Some ''1'',
       r1_id_empregador = Some ''12345678000199'', r1_cno_caepf = Some [],
       r1_razao_social = Some ''EMPRESA EXEMPLO LTDA'',
       r1_numero_fabricacao_processo_ou_inpi = Some ''00012345678901234'',
       r1_data_inicio = Some ''2025-07-01'', r1_data_fim = Some ''2025-07-31'',
       r1_data_hora_geracao = Some ''2025-08-01T08:00:00-0300'',
       r1_versao_layout = Some ''003'', r1_id_fabricante_tipo = Some ''1'',
       r1_id_fabricante = Some ''98765432000155'',
       r1_modelo_rep_c = Some ''REP-C MODELO X'',
       r1_crc16 = Some (ustr ''0000''), r1_crc_ok = Some False \<rparr>"

definition registro2_exemplo :: Registro2 where
  "registro2_exemplo =
     \<lparr> r2_nsr = 2, r2_tipo = 2, r2_dh_gravacao = ''2025-07-16T18:22:00-0300'',
       r2_cpf_responsavel = ''01234567890'', r2_id_empregador_tipo = ''1'',
       r2_id_empregador = ''12345678000199'', r2_cno_caepf = [],
       r2_razao_social = ''EMPRESA EXEMPLO LTDA'',
       r2_local_prestacao = ''RUA DAS FLORES 100'',
       r2_crc16 = ustr ''0000'', r2_crc_ok = False \<rparr>"

definition registro3_de :: "string \<Rightarrow> Registro3" where
  "registro3_de f =
     \<lparr> r3_nsr = 3, r3_tipo = ''3'', r3_dh_marcacao = ''2025-07-16T18:22:00-0300'',
       r3_cpf = ''012345678901'', r3_crc16 = Some (py_upper f),
       r3_crc_ok = Some (py_upper f = ustr ''1E89''), r3_formato = ''oficial'' \<rparr>"

definition registro3_exemplo :: Registro3 where
  "registro3_exemplo =
     \<lparr> r3_nsr = 3, r3_tipo = ''3'', r3_dh_marcacao = ''2025-07-16T18:22:00-0300'',
       r3_cpf = ''012345678901'', r3_crc16 = Some (ustr ''0000''),
       r3_crc_ok = Some False, r3_formato = ''oficial'' \<rparr>"

definition registro3_conferido :: Registro3 where
  "registro3_conferido =
     \<lparr> r3_nsr = 3, r3_tipo = ''3'', r3_dh_marcacao = ''2025-07-16T18:22:00-0300'',
       r3_cpf = ''012345678901'', r3_crc16 = Some (ustr ''1E89''),
       r3_crc_ok = Some True, r3_formato = ''oficial'' \<rparr>"

definition registro4_exemplo :: Registro4 where
  "registro4_exemplo =
     \<lparr> r4_nsr = 4, r4_tipo = 4, r4_dh_antes = ''2025-07-16T18:22:00-0300'',
       r4_dh_ajustada = ''2025-07-16T18:25:00-0300'',
       r4_cpf_responsavel = ''01234567890'', r4_crc16 = ustr ''0000'',
       r4_crc_ok = False \<rparr>"

definition registro5_exemplo :: Registro5 where
  "registro5_exemplo =
     \<lparr> r5_nsr = 5, r5_tipo = 5, r5_dh_gravacao = ''2025-07-16T18:22:00-0300'',
       r5_operacao = ''I'', r5_cpf = ''012345678901'', r5_nome = ''MARIA DA SILVA'',
       r5_demais_dados = ''0001'', r5_cpf_responsavel = ''01234567890'',
       r5_crc16 = ustr ''0000'', r5_crc_ok = False \<rparr>"

section \<open>Example files\<close>

text \<open>
  Two small files of compact type-3 lines.  The first has the NSRs 1, 2, 2, 3, a line
  end of two characters, an empty line and a line without NSR.  The second has the NSRs
  2, 1, 3 and then a line whose tenth character is \<open>9\<close>, which the interpreter therefore
  reads as a trailer: its count of type 2 is the text \<open>9\<close> followed by eight blanks.
\<close>

definition arquivo_em_ordem :: string where
  "arquivo_em_ordem =
     ''000000001'' @ ''3'' @ ''16072025'' @ ''0800'' @ ''012345678901'' @ [CHR 0x0D, CHR 0x0A]
     @ ''000000002'' @ ''3'' @ ''16072025'' @ ''1200'' @ ''012345678901'' @ [CHR 0x0A]
     @ ''abc'' @ [CHR 0x0A] @ [CHR 0x0A]
     @ ''000000002'' @ ''3'' @ ''16072025'' @ ''1300'' @ ''012345678901'' @ [CHR 0x0A]
     @ ''000000003'' @ ''3'' @ ''16072025'' @ ''1700'' @ ''012345678901'' @ [CHR 0x0A]"

definition arquivo_fora_de_ordem :: string where
  "arquivo_fora_de_ordem =
     ''000000002'' @ ''3'' @ ''16072025'' @ ''0800'' @ ''012345678901'' @ [CHR 0x0A]
     @ ''000000001'' @ ''3'' @ ''16072025'' @ ''1200'' @ ''012345678901'' @ [CHR 0x0A]
     @ ''000000003'' @ ''3'' @ ''16072025'' @ ''1300'' @ ''012345678901'' @ [CHR 0x0A]
     @ ''000000004'' @ ''9        '' @ ''000000003'' @ ''000000000'' @ ''000000000''
     @ ''000000000'' @ ''000000000'' @ ''9''"

definition registro3_compacto :: "int \<Rightarrow> string \<Rightarrow> Registro3" where
  "registro3_compacto n dh =
     \<lparr> r3_nsr = n, r3_tipo = ''3'', r3_dh_marcacao = dh, r3_cpf = ''012345678901'',
       r3_crc16 = None, r3_crc_ok = None, r3_formato = ''compacto'' \<rparr>"

definition sem_crc :: crc_resumo where
  "sem_crc = \<lparr> crc1_ok = None, crc2_ok = None, crc3_ok = None, crc4_ok = None, crc5_ok = None \<rparr>"

definition documento_em_ordem :: documento where
  "documento_em_ordem =
     \<lparr> d_header = None,
       d_registros_por_tipo =
         \<lparr> b2 = [],
           b3 = [registro3_compacto 1 ''2025-07-16T08:00:00-0300'',
                 registro3_compacto 2 ''2025-07-16T12:00:00-0300'',
                 registro3_compacto 2 ''2025-07-16T13:00:00-0300'',
                 registro3_compacto 3 ''2025-07-16T17:00:00-0300''],
           b4 = [], b5 = [], b6 = [], b7 = [] \<rparr>,
       d_trailer = None,
       d_validacoes =
         \<lparr> ordem_nsr_ok = True, contagens_ok = True, v_crc_ok_por_tipo = sem_crc,
           v_erros = [LinhaInvalida ''abc''] \<rparr> \<rparr>"

definition documento_fora_de_ordem :: documento where
  "documento_fora_de_ordem =
     \<lparr> d_header = None,
       d_registros_por_tipo =
         \<lparr> b2 = [],
           b3 = [registro3_compacto 2 ''2025-07-16T08:00:00-0300'',
                 registro3_compacto 1 ''2025-07-16T12:00:00-0300'',
                 registro3_compacto 3 ''2025-07-16T13:00:00-0300''],
           b4 = [], b5 = [], b6 = [], b7 = [] \<rparr>,
       d_trailer = Some \<lparr> r9_nsr = 4, r9_qtd_tipo2 = 9, r9_qtd_tipo3 = 3,
                          r9_qtd_tipo4 = 0, r9_qtd_tipo5 = 0, r9_qtd_tipo6 = 0,
                          r9_qtd_tipo7 = 0, r9_tipo = 9 \<rparr>,
       d_validacoes =
         \<lparr> ordem_nsr_ok = False, contagens_ok = False, v_crc_ok_por_tipo = sem_crc,
           v_erros = [] \<rparr> \<rparr>"

text \<open>
  The file of the single line \<open>linha3_exemplo\<close>, whose checksum field is wrong, as a
  document; the time stamp of its record, and the journey that the summarizer makes of it
  with four pairs.
\<close>

definition documento_crc_falho :: documento where
  "documento_crc_falho =
     \<lparr> d_header = None,
       d_registros_por_tipo =
         \<lparr> b2 = [], b3 = [registro3_exemplo], b4 = [], b5 = [], b6 = [], b7 = [] \<rparr>,
       d_trailer = None,
       d_validacoes =
         \<lparr> ordem_nsr_ok = True, contagens_ok = True,
           v_crc_ok_por_tipo =
             \<lparr> crc1_ok = None, crc2_ok = None, crc3_ok = Some False, crc4_ok = None,
               crc5_ok = None \<rparr>,
           v_erros = [] \<rparr> \<rparr>"

definition carimbo_exemplo :: datetime where
  "carimbo_exemplo =
     \<lparr> dt_year = 2025, dt_month = 7, dt_day = 16, dt_hour = 18, dt_minute = 22,
       dt_second = 0, dt_microsecond = 0, dt_utcoffset = - 10800000000 \<rparr>"

definition jornada_exemplo :: jornada where
  "jornada_exemplo =
     \<lparr> j_cpf = ''012345678901'', j_data = ''2025-07-16'',
       j_pares = [(Some carimbo_exemplo, None), (None, None), (None, None), (None, None)],
       j_horas_trabalhadas = 0, j_horas_extras_maior_10h = 0,
       j_horas_extras_maior_6h = 0 \<rparr>"

text \<open>
  The file \<open>arquivo_em_ordem\<close> followed by one more compact type-3 line, in whose NSR the
  last digit is the byte 0xB2, which Latin-1 decodes to the superscript two.
\<close>

definition nsr_sobrescrito :: string where
  "nsr_sobrescrito = ''00000000'' @ [CHR 0xB2]"

definition linha3_sobrescrita :: string where
  "linha3_sobrescrita = nsr_sobrescrito @ ''3'' @ ''16072025'' @ ''1800'' @ ''012345678901''"

definition arquivo_nsr_sobrescrito :: string where
  "arquivo_nsr_sobrescrito = arquivo_em_ordem @ linha3_sobrescrita @ [CHR 0x0A]"

text \<open>
  A compact type-3 line (NSR, type, day-month-year, hour-minute, tax ID), and a type-3 line
  that is too short for both layouts.
\<close>

definition linha3_compacta :: string where
  "linha3_compacta = ''000000001'' @ ''3'' @ ''16072025'' @ ''1822'' @ ''012345678901''"

definition linha3_curta :: string where
  "linha3_curta = ''000000001'' @ ''3'' @ ''abc''"

text \<open>A compact type-3 line with day 31 of month 13, at 99:61.\<close>

definition linha3_invalida :: string where
  "linha3_invalida = ''000000002'' @ ''3'' @ ''31132025'' @ ''9961'' @ ''012345678901''"

section \<open>The checksum engine\<close>

subsection \<open>The register of the code never leaves 16 bits\<close>

lemma uint_drop_bit: "uint (drop_bit n (r::'a::len word)) = drop_bit n (uint r)"
  by (simp add: bintr_uint unsigned_drop_bit_eq)

lemma uint_odd_iff: "(uint (r::'a::len word) mod 2 = 1) = odd r"
  by (metis dvd_0_right even_mod_2_iff even_of_nat not_mod_2_eq_0_eq_1
    odd_one of_int_of_nat_eq of_nat_unat word_of_int_uint)

lemma uint_low_bit: "(uint (r::'a::len word) AND 1 \<noteq> 0) = bit r 0"
  by (simp add: and_one_eq bit_iff_odd uint_odd_iff)

lemma crc_bit_uint: "crc_bit (uint (r::16 word)) = uint (arc_shift r)"
  unfolding crc_bit_def arc_shift_def uint_low_bit
  by (simp add: uint_xor uint_drop_bit del: bit_0)

lemma crc_bit_pow_uint: "(crc_bit ^^ n) (uint (r::16 word)) = uint ((arc_shift ^^ n) r)"
  by (induction n) (simp_all add: crc_bit_uint)

lemma uint_ucast_byte: "uint (ucast (b::8 word) :: 16 word) = uint b"
  by (simp add: uint_up_ucast is_up)

lemma crc_byte_uint: "crc_byte (uint (r::16 word)) b = uint (arc_byte r b)"
  unfolding crc_byte_def arc_byte_def
  by (simp add: uint_xor uint_ucast_byte flip: crc_bit_pow_uint)

lemma foldl_crc_byte_uint:
  "foldl crc_byte (uint (r::16 word)) data = uint (foldl arc_byte r data)"
  by (induction data arbitrary: r) (simp_all add: crc_byte_uint)

lemma uint16_mask: "uint (w :: 16 word) AND 0xFFFF = uint w"
proof -
  have "take_bit 16 (uint w) = uint w"
    using uint_lt2p [of w] by (simp add: take_bit_int_eq_self)
  then show ?thesis
    by (simp add: take_bit_eq_mask mask_eq_exp_minus_1)
qed

lemma crc16_refines: "crc16_ibm_arc data = uint (crc16_arc_reference data)"
proof -
  have "foldl crc_byte 0 data = uint (foldl arc_byte 0 data)"
    using foldl_crc_byte_uint [of 0 data] by simp
  then show ?thesis
    by (simp add: crc16_ibm_arc_def crc16_arc_reference_def uint16_mask)
qed

lemma crc16_range: "0 \<le> crc16_ibm_arc data \<and> crc16_ibm_arc data < 65536"
  using uint_lt2p [of "crc16_arc_reference data"] by (simp add: crc16_refines)

text \<open>The check value of the CRC catalogue for CRC-16/ARC.\<close>

lemma crc16_check_value: "crc16_ibm_arc (encode_latin1 ''123456789'') = 0xBB3D"
  by code_simp

subsection \<open>One changed byte changes the checksum\<close>

lemma bit16_word16: "\<not> bit (r::16 word) 16"
  using bit_imp_le_length [of r 16] by auto

lemma arc_shift_bit15: "bit (arc_shift r) 15 = bit r 0"
  unfolding arc_shift_def
  by (simp add: bit_simps bit16_word16 del: bit_0)

lemma xor_right_cancel: "(a::'a::len word) XOR c = b XOR c \<Longrightarrow> a = b"
  by (metis bit.xor_left_self word_bw_assocs(3) word_bw_same(3))

lemma xor_left_cancel: "(c::'a::len word) XOR a = c XOR b \<Longrightarrow> a = b"
  by (metis xor_right_cancel xor.commute)

lemma arc_shift_inj:
  assumes "arc_shift r = arc_shift s" shows "r = s"
proof -
  have b: "bit r 0 = bit s 0"
    using assms arc_shift_bit15 by metis
  have d: "drop_bit 1 r = drop_bit 1 s"
    using assms b unfolding arc_shift_def
    by (cases "bit s 0") (auto simp del: bit_0 dest: xor_right_cancel)
  show ?thesis
  proof (rule bit_word_eqI)
    fix n assume "n < LENGTH(16)"
    show "bit r n = bit s n"
    proof (cases n)
      case 0 then show ?thesis using b by simp
    next
      case (Suc k)
      have "bit (drop_bit 1 r) k = bit (drop_bit 1 s) k" using d by simp
      then show ?thesis using Suc by (simp add: bit_drop_bit_eq)
    qed
  qed
qed

lemma arc_shift_pow_inj: "(arc_shift ^^ n) r = (arc_shift ^^ n) s \<Longrightarrow> r = s"
  by (induction n) (auto dest: arc_shift_inj)

lemma arc_byte_inj_reg: "arc_byte r b = arc_byte s b \<Longrightarrow> r = s"
  unfolding arc_byte_def by (auto dest!: arc_shift_pow_inj xor_right_cancel)

lemma ucast_byte_inj:
  assumes "(ucast (b :: 8 word) :: 16 word) = ucast c" shows "b = c"
proof -
  have "uint b = uint c" using assms uint_ucast_byte by metis
  then show ?thesis by (rule word_uint_eqI)
qed

lemma arc_byte_inj_byte: "arc_byte r b = arc_byte r c \<Longrightarrow> b = c"
  unfolding arc_byte_def by (auto dest!: arc_shift_pow_inj xor_left_cancel ucast_byte_inj)

lemma foldl_arc_byte_inj: "foldl arc_byte r xs = foldl arc_byte s xs \<Longrightarrow> r = s"
  by (induction xs arbitrary: r s) (auto dest: arc_byte_inj_reg)

lemma crc16_reference_one_byte:
  assumes "crc16_arc_reference (pre @ b # suf) = crc16_arc_reference (pre @ c # suf)"
  shows "b = c"
proof -
  have "foldl arc_byte (arc_byte (foldl arc_byte 0 pre) b) suf
      = foldl arc_byte (arc_byte (foldl arc_byte 0 pre) c) suf"
    using assms by (simp add: crc16_arc_reference_def)
  then show ?thesis using foldl_arc_byte_inj arc_byte_inj_byte by blast
qed

lemma crc16_one_byte:
  assumes "crc16_ibm_arc (pre @ b # suf) = crc16_ibm_arc (pre @ c # suf)"
  shows "b = c"
proof -
  have "uint (crc16_arc_reference (pre @ b # suf)) = uint (crc16_arc_reference (pre @ c # suf))"
    using assms by (simp add: crc16_refines)
  then have "crc16_arc_reference (pre @ b # suf) = crc16_arc_reference (pre @ c # suf)"
    by (rule word_uint_eqI)
  then show ?thesis by (rule crc16_reference_one_byte)
qed

lemma unat_of_char: "unat (of_char c :: 8 word) = of_char c"
proof -
  have "(of_char c :: 8 word) = of_nat (of_char c)" by (simp add: of_nat_of_char)
  then show ?thesis by (simp add: unat_of_nat)
qed

lemma of_char_byte_inj:
  assumes "(of_char c :: 8 word) = of_char d" shows "c = d"
proof -
  have "(of_char c :: nat) = of_char d" using assms unat_of_char by metis
  then show ?thesis by simp
qed

lemma crc16_list_update:
  assumes "i < length s" "c \<noteq> s ! i"
  shows "crc16_ibm_arc (encode_latin1 (s[i := c])) \<noteq> crc16_ibm_arc (encode_latin1 s)"
proof
  assume eq: "crc16_ibm_arc (encode_latin1 (s[i := c])) = crc16_ibm_arc (encode_latin1 s)"
  have 1: "encode_latin1 (s[i := c])
             = encode_latin1 (take i s) @ of_char c # encode_latin1 (drop (Suc i) s)"
    using assms(1) by (simp add: encode_latin1_def upd_conv_take_nth_drop)
  have 2: "encode_latin1 s
             = encode_latin1 (take i s) @ of_char (s ! i) # encode_latin1 (drop (Suc i) s)"
    using assms(1) id_take_nth_drop [of i s] unfolding encode_latin1_def
    by (metis list.simps(9) map_append)
  have "(of_char c :: 8 word) = of_char (s ! i)"
    using eq crc16_one_byte unfolding 1 2 by blast
  then show False using assms(2) of_char_byte_inj by blast
qed

subsection \<open>Four hexadecimal digits\<close>

lemma hex_digit_all: "\<forall>d \<in> set [0..<16]. is_hex_upper (hex_digit d)"
  by code_simp

lemma hex_digit_in:
  assumes "d < 16" shows "is_hex_upper (hex_digit d)"
proof -
  have "d \<in> set [0..<16]" using assms by simp
  then show ?thesis using hex_digit_all by blast
qed

lemma hex_upper_chars: "list_all is_hex_upper (hex_upper n)"
proof (induction n rule: hex_upper.induct)
  case (1 n)
  show ?case
  proof (cases "n < 16")
    case True
    then show ?thesis using hex_digit_in [of n] by (subst hex_upper.simps) simp
  next
    case False
    have "n mod 16 < 16" by simp
    then show ?thesis using False 1 hex_digit_in [of "n mod 16"]
      by (subst hex_upper.simps) simp
  qed
qed

lemma hex_upper_length: "n < 16 ^ k \<Longrightarrow> 0 < k \<Longrightarrow> length (hex_upper n) \<le> k"
proof (induction n arbitrary: k rule: hex_upper.induct)
  case (1 n)
  show ?case
  proof (cases "n < 16")
    case True
    then show ?thesis using 1(3) by (subst hex_upper.simps) simp
  next
    case False
    then obtain j where k: "k = Suc j" using 1(3) by (cases k) auto
    have "0 < j" using False 1(2) k by (cases j) auto
    moreover have "n div 16 < 16 ^ j" using 1(2) k
      by (simp add: less_mult_imp_div_less mult.commute)
    ultimately have "length (hex_upper (n div 16)) \<le> j" using 1(1) False by blast
    then show ?thesis using False k by (subst hex_upper.simps) simp
  qed
qed

lemma fmt_04X_shape:
  assumes "0 \<le> n" "n < 65536"
  shows "length (fmt_04X n) = 4 \<and> list_all is_hex_upper (fmt_04X n)"
proof -
  have "nat n < 16 ^ 4" using assms by simp
  then have "length (hex_upper (nat n)) \<le> 4" by (rule hex_upper_length) simp
  moreover have "is_hex_upper (CHR ''0'')" by (simp add: is_hex_upper_def)
  ultimately show ?thesis
    using assms(1) hex_upper_chars [of "nat n"]
    by (auto simp: fmt_04X_def zero_fill_def list_all_iff)
qed

lemma hex_digit_value_all: "\<forall>d \<in> set [0..<16]. hex_digit_value (hex_digit d) = d"
  by code_simp

lemma hex_digit_value_digit:
  assumes "d < 16" shows "hex_digit_value (hex_digit d) = d"
proof -
  have "d \<in> set [0..<16]" using assms by simp
  then show ?thesis using hex_digit_value_all by blast
qed

lemma hex_value_snoc: "hex_value (s @ [c]) = hex_value s * 16 + hex_digit_value c"
  by (simp add: hex_value_def)

lemma hex_value_hex_upper: "hex_value (hex_upper n) = n"
proof (induction n rule: hex_upper.induct)
  case (1 n)
  show ?case
  proof (cases "n < 16")
    case True
    then show ?thesis
      by (subst hex_upper.simps) (simp add: hex_value_def hex_digit_value_digit)
  next
    case False
    have "hex_value (hex_upper (n div 16) @ [hex_digit (n mod 16)]) = n"
      using 1 False by (simp add: hex_value_snoc hex_digit_value_digit)
    then show ?thesis using False by (subst hex_upper.simps) simp
  qed
qed

lemma hex_value_zeros:
  "foldl (\<lambda>a c. a * 16 + hex_digit_value c) 0 (replicate k (CHR ''0'')) = 0"
  by (induction k) (simp_all add: hex_digit_value_def ascii_digit_def)

lemma hex_value_zero_fill: "hex_value (zero_fill w s) = hex_value s"
  by (simp add: zero_fill_def hex_value_def hex_value_zeros)

lemma hex_value_fmt: "0 \<le> n \<Longrightarrow> hex_value (fmt_04X n) = nat n"
  by (simp add: fmt_04X_def hex_value_zero_fill hex_value_hex_upper)

lemma fmt_04X_inj:
  assumes "0 \<le> m" "0 \<le> n" "fmt_04X m = fmt_04X n" shows "m = n"
proof -
  have "nat m = nat n" using assms hex_value_fmt by metis
  then show ?thesis using assms by simp
qed

lemma ustr_inj: "ustr s = ustr t \<Longrightarrow> s = t"
  unfolding ustr_def by (metis list.inj_map_strong of_char_eq_iff)

subsection \<open>The bytes that are summed\<close>

lemma slice_afd_cols: "slice_afd s (int (Suc a)) (int b) = substr s a b"
  by (auto simp add: slice_afd_def py_slice_def py_index_def min_def substr_def)

lemma hex4_excised:
  "crc16_hex4_for_line line (int (Suc a), int b)
     = fmt_04X (crc16_ibm_arc (encode_latin1 (take a line @ drop b line)))"
  by (simp add: crc16_hex4_for_line_def slice_afd_def py_slice_def py_index_def min_def)

lemma hex4_shape:
  "length (crc16_hex4_for_line line pos) = 4 \<and> list_all is_hex_upper (crc16_hex4_for_line line pos)"
  using crc16_range fmt_04X_shape
  by (cases pos) (simp add: crc16_hex4_for_line_def Let_def)

section \<open>What a successful parse holds\<close>

lemma parse_registro1_oficial_crc:
  "parse_registro1_oficial line = Inr r \<Longrightarrow>
     r1_crc_ok r = Some (py_upper (slice_afd line 299 302) = ustr (crc16_hex4_for_line line (299, 302)))"
  unfolding parse_registro1_oficial_def and_then_def Let_def
  by (auto split: if_splits sum.splits)

lemma parse_registro2_crc:
  "parse_registro2 line = Inr r \<Longrightarrow>
     r2_crc_ok r = (py_upper (slice_afd line 328 331) = ustr (crc16_hex4_for_line line (328, 331)))"
  unfolding parse_registro2_def and_then_def Let_def
  by (auto split: if_splits sum.splits)

lemma parse_registro3_oficial_crc:
  "parse_registro3_oficial line = Inr r \<Longrightarrow>
     r3_crc_ok r = Some (py_upper (slice_afd line 47 50) = ustr (crc16_hex4_for_line line (47, 50)))"
  unfolding parse_registro3_oficial_def and_then_def Let_def
  by (auto split: if_splits sum.splits)

lemma parse_registro4_crc:
  "parse_registro4 line = Inr r \<Longrightarrow>
     r4_crc_ok r = (py_upper (slice_afd line 70 73) = ustr (crc16_hex4_for_line line (70, 73)))"
  unfolding parse_registro4_def and_then_def Let_def
  by (auto split: if_splits sum.splits)

lemma parse_registro5_crc:
  "parse_registro5 line = Inr r \<Longrightarrow>
     r5_crc_ok r = (py_upper (slice_afd line 115 118) = ustr (crc16_hex4_for_line line (115, 118)))"
  unfolding parse_registro5_def and_then_def Let_def
  by (auto split: if_splits sum.splits)

section \<open>The example lines, parsed\<close>

lemma linha1_crc:
  "crc16_ibm_arc (encode_latin1 (take 298 linha1_exemplo @ drop 302 linha1_exemplo)) = 0x4D49"
  by code_simp

lemma linha1_hex: "crc16_hex4_for_line linha1_exemplo (299, 302) = ''4D49''"
  using hex4_excised [of linha1_exemplo 298 302]
  by (simp add: linha1_crc fmt_04X_def zero_fill_def hex_upper.simps hex_digit_def)

lemma linha1_campos:
  "length linha1_exemplo = 302"
  "to_int (slice_afd linha1_exemplo 1 9) = Inr 1"
  "to_int (slice_afd linha1_exemplo 10 10) = Inr 1"
  "slice_afd linha1_exemplo 11 11 = ''1''"
  "py_strip (slice_afd linha1_exemplo 12 25) = ''12345678000199''"
  "py_strip (slice_afd linha1_exemplo 26 39) = []"
  "py_rstrip (slice_afd linha1_exemplo 40 189) = ''EMPRESA EXEMPLO LTDA''"
  "py_strip (slice_afd linha1_exemplo 190 206) = ''00012345678901234''"
  "slice_afd linha1_exemplo 207 216 = ''2025-07-01''"
  "slice_afd linha1_exemplo 217 226 = ''2025-07-31''"
  "slice_afd linha1_exemplo 227 250 = ''2025-08-01T08:00:00-0300''"
  "slice_afd linha1_exemplo 251 253 = ''003''"
  "slice_afd linha1_exemplo 254 254 = ''1''"
  "py_strip (slice_afd linha1_exemplo 255 268) = ''98765432000155''"
  "py_rstrip (slice_afd linha1_exemplo 269 298) = ''REP-C MODELO X''"
  "py_upper (slice_afd linha1_exemplo 299 302) = ustr ''0000''"
  by code_simp+

lemma linha1_parse:
  "parse_registro1_oficial linha1_exemplo =
     Inr registro1_exemplo"
  unfolding parse_registro1_oficial_def
  by (simp add: linha1_campos linha1_hex and_then_def ustr_def registro1_exemplo_def)

lemma linha2_crc:
  "crc16_ibm_arc (encode_latin1 (take 327 linha2_exemplo @ drop 331 linha2_exemplo)) = 0x1D35"
  by code_simp

lemma linha2_hex: "crc16_hex4_for_line linha2_exemplo (328, 331) = ''1D35''"
  using hex4_excised [of linha2_exemplo 327 331]
  by (simp add: linha2_crc fmt_04X_def zero_fill_def hex_upper.simps hex_digit_def)

lemma linha2_campos:
  "length linha2_exemplo = 331"
  "to_int (slice_afd linha2_exemplo 1 9) = Inr 2"
  "to_int (slice_afd linha2_exemplo 10 10) = Inr 2"
  "slice_afd linha2_exemplo 11 34 = ''2025-07-16T18:22:00-0300''"
  "py_strip (slice_afd linha2_exemplo 35 48) = ''01234567890''"
  "slice_afd linha2_exemplo 49 49 = ''1''"
  "py_strip (slice_afd linha2_exemplo 50 63) = ''12345678000199''"
  "py_strip (slice_afd linha2_exemplo 64 77) = []"
  "py_rstrip (slice_afd linha2_exemplo 78 227) = ''EMPRESA EXEMPLO LTDA''"
  "py_rstrip (slice_afd linha2_exemplo 228 327) = ''RUA DAS FLORES 100''"
  "py_upper (slice_afd linha2_exemplo 328 331) = ustr ''0000''"
  by code_simp+

lemma linha2_parse:
  "parse_registro2 linha2_exemplo =
     Inr registro2_exemplo"
  unfolding parse_registro2_def
  by (simp add: linha2_campos linha2_hex and_then_def ustr_def registro2_exemplo_def)

lemma linha3_crc: "crc16_ibm_arc (encode_latin1 linha3_dados) = 0x1E89"
  by code_simp

lemma linha3_dados_length: "length linha3_dados = 46"
  by code_simp

lemma linha3_hex:
  assumes "length f = 4"
  shows "crc16_hex4_for_line (linha3_dados @ f) (47, 50) = ''1E89''"
  using hex4_excised [of "linha3_dados @ f" 46 50] assms
  by (simp add: linha3_dados_length linha3_crc fmt_04X_def zero_fill_def hex_upper.simps
      hex_digit_def)

lemma linha3_campos:
  "to_int (slice_afd linha3_dados 1 9) = Inr 3"
  "slice_afd linha3_dados 10 10 = ''3''"
  "slice_afd linha3_dados 11 34 = ''2025-07-16T18:22:00-0300''"
  "py_strip (slice_afd linha3_dados 35 46) = ''012345678901''"
  "is_iso_dh ''2025-07-16T18:22:00-0300''"
  by code_simp+

lemma slice_afd_append:
  "b \<le> length s \<Longrightarrow> slice_afd (s @ t) (int (Suc a)) (int b) = slice_afd s (int (Suc a)) (int b)"
  unfolding slice_afd_cols by (simp add: substr_def)

lemma slice_afd_append_field:
  "slice_afd (s @ t) (int (Suc (length s))) (int (length s + length t)) = t"
  unfolding slice_afd_cols by (simp add: substr_def)

lemma linha3_parse:
  assumes "length f = 4"
  shows "parse_registro3_oficial (linha3_dados @ f) =
     Inr (registro3_de f)"
proof -
  have a: "slice_afd (linha3_dados @ f) 1 9 = slice_afd linha3_dados 1 9"
    using slice_afd_append [where s=linha3_dados and t=f and a=0 and b=9] by (simp add: linha3_dados_length)
  have b: "slice_afd (linha3_dados @ f) 10 10 = slice_afd linha3_dados 10 10"
    using slice_afd_append [where s=linha3_dados and t=f and a=9 and b=10] by (simp add: linha3_dados_length)
  have c: "slice_afd (linha3_dados @ f) 11 34 = slice_afd linha3_dados 11 34"
    using slice_afd_append [where s=linha3_dados and t=f and a=10 and b=34] by (simp add: linha3_dados_length)
  have d: "slice_afd (linha3_dados @ f) 35 46 = slice_afd linha3_dados 35 46"
    using slice_afd_append [where s=linha3_dados and t=f and a=34 and b=46] by (simp add: linha3_dados_length)
  have e: "slice_afd (linha3_dados @ f) 47 50 = f"
    using slice_afd_append_field [of linha3_dados f] assms by (simp add: linha3_dados_length)
  show ?thesis
    unfolding parse_registro3_oficial_def a b c d e
    by (simp add: linha3_campos linha3_hex [OF assms] and_then_def linha3_dados_length assms
        Let_def registro3_de_def)
qed

lemma linha3_exemplo_parse:
  "parse_registro3_oficial linha3_exemplo =
     Inr registro3_exemplo"
proof -
  have "py_upper ''0000'' = ustr ''0000''" "ustr ''0000'' \<noteq> ustr ''1E89''" by code_simp+
  then show ?thesis using linha3_parse [of "''0000''"]
    by (simp add: linha3_exemplo_def registro3_de_def registro3_exemplo_def)
qed

lemma linha3_minuscula_parse:
  "parse_registro3_oficial linha3_minuscula =
     Inr registro3_conferido"
proof -
  have "py_upper ''1e89'' = ustr ''1E89''" by code_simp
  then show ?thesis using linha3_parse [of "''1e89''"]
    by (simp add: linha3_minuscula_def registro3_de_def registro3_conferido_def)
qed

lemma linha3_maiuscula_parse:
  "parse_registro3_oficial linha3_maiuscula =
     Inr registro3_conferido"
proof -
  have "py_upper ''1E89'' = ustr ''1E89''" by code_simp
  then show ?thesis using linha3_parse [of "''1E89''"]
    by (simp add: linha3_maiuscula_def registro3_de_def registro3_conferido_def)
qed

lemma linha4_crc:
  "crc16_ibm_arc (encode_latin1 (take 69 linha4_exemplo @ drop 73 linha4_exemplo)) = 0x5452"
  by code_simp

lemma linha4_hex: "crc16_hex4_for_line linha4_exemplo (70, 73) = ''5452''"
  using hex4_excised [of linha4_exemplo 69 73]
  by (simp add: linha4_crc fmt_04X_def zero_fill_def hex_upper.simps hex_digit_def)

lemma linha4_campos:
  "length linha4_exemplo = 73"
  "to_int (slice_afd linha4_exemplo 1 9) = Inr 4"
  "to_int (slice_afd linha4_exemplo 10 10) = Inr 4"
  "slice_afd linha4_exemplo 11 34 = ''2025-07-16T18:22:00-0300''"
  "slice_afd linha4_exemplo 35 58 = ''2025-07-16T18:25:00-0300''"
  "py_strip (slice_afd linha4_exemplo 59 69) = ''01234567890''"
  "py_upper (slice_afd linha4_exemplo 70 73) = ustr ''0000''"
  by code_simp+

lemma linha4_parse:
  "parse_registro4 linha4_exemplo =
     Inr registro4_exemplo"
  unfolding parse_registro4_def
  by (simp add: linha4_campos linha4_hex and_then_def ustr_def registro4_exemplo_def)

lemma linha5_crc:
  "crc16_ibm_arc (encode_latin1 (take 114 linha5_exemplo @ drop 118 linha5_exemplo)) = 0x31D0"
  by code_simp

lemma linha5_hex: "crc16_hex4_for_line linha5_exemplo (115, 118) = ''31D0''"
  using hex4_excised [of linha5_exemplo 114 118]
  by (simp add: linha5_crc fmt_04X_def zero_fill_def hex_upper.simps hex_digit_def)

lemma linha5_campos:
  "length linha5_exemplo = 118"
  "to_int (slice_afd linha5_exemplo 1 9) = Inr 5"
  "to_int (slice_afd linha5_exemplo 10 10) = Inr 5"
  "slice_afd linha5_exemplo 11 34 = ''2025-07-16T18:22:00-0300''"
  "slice_afd linha5_exemplo 35 35 = ''I''"
  "py_strip (slice_afd linha5_exemplo 36 47) = ''012345678901''"
  "py_rstrip (slice_afd linha5_exemplo 48 99) = ''MARIA DA SILVA''"
  "py_rstrip (slice_afd linha5_exemplo 100 103) = ''0001''"
  "py_strip (slice_afd linha5_exemplo 104 114) = ''01234567890''"
  "py_upper (slice_afd linha5_exemplo 115 118) = ustr ''0000''"
  by code_simp+

lemma linha5_parse:
  "parse_registro5 linha5_exemplo =
     Inr registro5_exemplo"
  unfolding parse_registro5_def
  by (simp add: linha5_campos linha5_hex and_then_def ustr_def registro5_exemplo_def)

section \<open>The checksum of a record\<close>

text \<open>
  C1.  The checksum engine computes CRC-16/ARC: on every sequence of bytes, the code's result
  on unbounded integers is the value of the 16-bit reference register (initial value 0, each
  byte XORed in, eight shifts to the right with XOR 0xA001 when the low bit was set, no final
  XOR).  The text that a record is verified against is this value over the bytes of the line
  before the checksum field followed by those after it, one byte for each character, written
  as four upper-case hexadecimal digits; and the flag of each parser of a layout with a
  checksum is the comparison of that text with the upper-cased text of the field.
\<close>

theorem crc16_arc_and_record_verification:
  "crc16_ibm_arc data = uint (crc16_arc_reference data) \<and>
   crc16_hex4_for_line line (int (Suc a), int b)
     = fmt_04X (uint (crc16_arc_reference (encode_latin1 (take a line @ drop b line)))) \<and>
   encode_latin1 line = map of_char line \<and>
   length (crc16_hex4_for_line line pos) = 4 \<and>
   list_all is_hex_upper (crc16_hex4_for_line line pos) \<and>
   (parse_registro1_oficial line = Inr r1 \<longrightarrow>
      r1_crc_ok r1 = Some (py_upper (slice_afd line 299 302)
                            = ustr (crc16_hex4_for_line line (299, 302)))) \<and>
   (parse_registro2 line = Inr r2 \<longrightarrow>
      r2_crc_ok r2 = (py_upper (slice_afd line 328 331)
                       = ustr (crc16_hex4_for_line line (328, 331)))) \<and>
   (parse_registro3_oficial line = Inr r3 \<longrightarrow>
      r3_crc_ok r3 = Some (py_upper (slice_afd line 47 50)
                            = ustr (crc16_hex4_for_line line (47, 50)))) \<and>
   (parse_registro4 line = Inr r4 \<longrightarrow>
      r4_crc_ok r4 = (py_upper (slice_afd line 70 73)
                       = ustr (crc16_hex4_for_line line (70, 73)))) \<and>
   (parse_registro5 line = Inr r5 \<longrightarrow>
      r5_crc_ok r5 = (py_upper (slice_afd line 115 118)
                       = ustr (crc16_hex4_for_line line (115, 118))))"
proof (intro conjI impI)
  show "crc16_ibm_arc data = uint (crc16_arc_reference data)"
    by (rule crc16_refines)
  show "crc16_hex4_for_line line (int (Suc a), int b)
          = fmt_04X (uint (crc16_arc_reference (encode_latin1 (take a line @ drop b line))))"
    unfolding hex4_excised crc16_refines ..
  show "encode_latin1 line = map of_char line"
    by (simp add: encode_latin1_def)
  show "length (crc16_hex4_for_line line pos) = 4"
    and "list_all is_hex_upper (crc16_hex4_for_line line pos)"
    using hex4_shape [of line pos] by simp_all
qed (erule parse_registro1_oficial_crc parse_registro2_crc parse_registro3_oficial_crc
      parse_registro4_crc parse_registro5_crc)+

theorem crc16_arc_and_record_verification_witness:
  "parse_registro1_oficial linha1_exemplo = Inr registro1_exemplo \<and>
   py_upper (slice_afd linha1_exemplo 299 302) \<noteq> ustr (crc16_hex4_for_line linha1_exemplo (299, 302)) \<and>
   parse_registro2 linha2_exemplo = Inr registro2_exemplo \<and>
   py_upper (slice_afd linha2_exemplo 328 331) \<noteq> ustr (crc16_hex4_for_line linha2_exemplo (328, 331)) \<and>
   parse_registro3_oficial linha3_minuscula = Inr registro3_conferido \<and>
   py_upper (slice_afd linha3_minuscula 47 50) = ustr (crc16_hex4_for_line linha3_minuscula (47, 50)) \<and>
   parse_registro4 linha4_exemplo = Inr registro4_exemplo \<and>
   py_upper (slice_afd linha4_exemplo 70 73) \<noteq> ustr (crc16_hex4_for_line linha4_exemplo (70, 73)) \<and>
   parse_registro5 linha5_exemplo = Inr registro5_exemplo \<and>
   py_upper (slice_afd linha5_exemplo 115 118) \<noteq> ustr (crc16_hex4_for_line linha5_exemplo (115, 118))"
  using
    crc16_arc_and_record_verification [where line = linha1_exemplo and ?r1.0 = registro1_exemplo]
    crc16_arc_and_record_verification [where line = linha2_exemplo and ?r2.0 = registro2_exemplo]
    crc16_arc_and_record_verification [where line = linha3_minuscula and ?r3.0 = registro3_conferido]
    crc16_arc_and_record_verification [where line = linha4_exemplo and ?r4.0 = registro4_exemplo]
    crc16_arc_and_record_verification [where line = linha5_exemplo and ?r5.0 = registro5_exemplo]
    linha1_parse linha2_parse linha3_minuscula_parse linha4_parse linha5_parse
  by (simp add: registro1_exemplo_def registro2_exemplo_def registro3_conferido_def
      registro4_exemplo_def registro5_exemplo_def)

section \<open>The example files, interpreted\<close>

lemma arquivo_em_ordem_doc: "interpretar_afd arquivo_em_ordem = Inr documento_em_ordem"
  by code_simp

lemma arquivo_fora_de_ordem_doc:
  "interpretar_afd arquivo_fora_de_ordem = Inr documento_fora_de_ordem"
  by code_simp

lemma arquivo_em_ordem_nsrs:
  "map nsr_de (filter classificavel (split_lines (read_text_afd arquivo_em_ordem))) = [1, 2, 2, 3]"
  by code_simp

lemma arquivo_fora_de_ordem_nsrs:
  "map nsr_de (filter classificavel (split_lines (read_text_afd arquivo_fora_de_ordem)))
     = [2, 1, 3, 4]"
  by code_simp

section \<open>The interpreter, read backwards from its result\<close>

lemma interpretar_afd_Inr:
  assumes "interpretar_afd raw = Inr doc"
  shows "\<exists>errs registros st.
    split_lines raw \<noteq> [] \<and>
    classificar (split_lines raw) [] [] = Inr (errs, registros) \<and>
    st = foldl processar_linha (estado_inicial errs) (map snd registros) \<and>
    (any_bucket (bucket st) \<or> header st \<noteq> None \<or> trailer st \<noteq> None) \<and>
    d_header doc = header st \<and> d_registros_por_tipo doc = bucket st \<and>
    d_trailer doc = trailer st \<and>
    ordem_nsr_ok (d_validacoes doc) = (map fst registros = sort (map fst registros)) \<and>
    contagens_ok (d_validacoes doc) = calc_contagens_ok (trailer st) (bucket st) \<and>
    v_erros (d_validacoes doc) = take 200 (erros st)"
  using assms unfolding interpretar_afd_def read_text_afd_def Let_def
  by (auto split: if_splits sum.splits prod.splits)

subsection \<open>\<^verbatim>\<open>int()\<close> on a text that \<^verbatim>\<open>isdigit()\<close> accepts\<close>

lemma isdigit_not_space: "py_isdigit c \<Longrightarrow> \<not> int_space c"
  by (auto simp: py_isdigit_def ascii_digit_def int_space_def Let_def)

lemma ascii_isdigit: "ascii_digit c \<Longrightarrow> py_isdigit c"
  by (simp add: py_isdigit_def)

lemma isdigit_not_sign: "py_isdigit c \<Longrightarrow> c \<noteq> CHR ''-'' \<and> c \<noteq> CHR ''+''"
  by (auto simp: py_isdigit_def ascii_digit_def)

lemma digits_groups_ascii:
  "list_all ascii_digit s \<Longrightarrow>
     digits_groups acc s = Some (foldl (\<lambda>a c. a * 10 + digit_val c) acc s)"
  by (induction acc s rule: digits_groups.induct) simp_all

lemma digits_groups_isdigit:
  "list_all py_isdigit s \<Longrightarrow> digits_groups acc s = Some n \<Longrightarrow> list_all ascii_digit s"
proof (induction acc s arbitrary: n rule: digits_groups.induct)
  case (1 acc)
  then show ?case by simp
next
  case (2 acc c)
  then show ?case by (simp split: if_splits)
next
  case (3 acc c d cs)
  have "c \<noteq> CHR ''_''" using 3(3) by (auto simp: py_isdigit_def ascii_digit_def)
  then show ?case using 3 by (auto split: if_splits)
qed

lemma strip_int_space:
  assumes "list_all py_isdigit s"
  shows "rev (dropWhile int_space (rev (dropWhile int_space s))) = s"
proof -
  have 1: "dropWhile int_space s = s"
    using assms by (cases s) (auto dest: isdigit_not_space)
  have "list_all py_isdigit (rev s)" using assms by (simp add: list_all_iff)
  then have 2: "dropWhile int_space (rev s) = rev s"
    by (cases "rev s") (auto dest: isdigit_not_space)
  show ?thesis by (simp add: 1 2)
qed

lemma py_int_of_isdigit:
  assumes "list_all py_isdigit s"
  shows "py_int s = py_unsigned s"
proof (cases s)
  case Nil
  then show ?thesis by (simp add: py_int_def py_unsigned_def)
next
  case (Cons c cs)
  have t: "rev (dropWhile int_space (rev (dropWhile int_space s))) = c # cs"
    using strip_int_space [OF assms] Cons by simp
  have "c \<noteq> CHR ''-'' \<and> c \<noteq> CHR ''+''"
    using assms Cons isdigit_not_sign by simp
  then show ?thesis unfolding py_int_def Let_def t using Cons by simp
qed

lemma int_decimal_foldl:
  "list_all ascii_digit s \<Longrightarrow>
     int (foldl (\<lambda>a c. a * 10 + (of_char c - 48)) a s)
       = foldl (\<lambda>a c. a * 10 + digit_val c) (int a) s"
proof (induction s arbitrary: a)
  case Nil
  then show ?case by simp
next
  case (Cons c s)
  have "48 \<le> (of_char c :: nat)" using Cons.prems by (simp add: ascii_digit_def Let_def)
  then have "int (a * 10 + (of_char c - 48)) = int a * 10 + digit_val c"
    by (simp add: digit_val_def)
  then show ?case using Cons by simp
qed

lemma int_decimal:
  assumes "list_all ascii_digit s"
  shows "int (decimal s) = foldl (\<lambda>a c. a * 10 + digit_val c) 0 s"
proof -
  have "filter ascii_digit s = s" using assms by (simp add: list_all_iff)
  then show ?thesis using int_decimal_foldl [OF assms, of 0] by (simp add: decimal_def)
qed

lemma py_int_ascii:
  assumes "list_all ascii_digit s" "s \<noteq> []"
  shows "py_int s = Some (int (decimal s))"
proof -
  have "list_all py_isdigit s" using assms(1) by (simp add: list_all_iff ascii_isdigit)
  then have "py_int s = py_unsigned s" by (rule py_int_of_isdigit)
  also have "\<dots> = digits_groups 0 s"
    using assms by (cases s) (simp_all add: py_unsigned_def)
  finally show ?thesis using assms(1) by (simp add: digits_groups_ascii int_decimal)
qed

lemma py_int_isdigit:
  assumes "list_all py_isdigit s" "py_int s = Some n"
  shows "list_all ascii_digit s"
proof -
  have "py_unsigned s = Some n" using assms py_int_of_isdigit by simp
  then have "digits_groups 0 s = Some n"
    by (cases s) (simp_all add: py_unsigned_def split: if_splits)
  then show ?thesis using assms(1) digits_groups_isdigit by blast
qed

subsection \<open>The first loop\<close>

lemma classificar_Inr:
  "classificar lns errs regs = Inr (errs', regs') \<Longrightarrow>
     regs' = regs @ map (\<lambda>ln. (nsr_de ln, ln)) (filter classificavel lns) \<and>
     errs' = errs @ map LinhaInvalida (filter (\<lambda>ln. \<not> classificavel ln) lns)"
proof (induction lns errs regs rule: classificar.induct)
  case (1 errs regs)
  then show ?case by simp
next
  case (2 ln lns errs regs)
  show ?case
  proof (cases "length ln < 10 \<or> \<not> is_digits (substr ln 0 9)")
    case True
    have "\<not> classificavel ln"
      using True ascii_isdigit
      by (auto simp: classificavel_def is_digits_def substr_def list_all_iff)
    then show ?thesis using 2 True by simp
  next
    case False
    then obtain n where n: "py_int (substr ln 0 9) = Some n"
      using "2.prems" by (cases "py_int (substr ln 0 9)") auto
    have d: "list_all py_isdigit (take 9 ln)" using False by (simp add: is_digits_def substr_def)
    have a: "list_all ascii_digit (take 9 ln)"
      using py_int_isdigit [OF d] n by (simp add: substr_def)
    have c: "classificavel ln" using False a by (simp add: classificavel_def)
    have "take 9 ln \<noteq> []" using False by auto
    then have "n = nsr_de ln" using py_int_ascii [OF a] n by (simp add: nsr_de_def substr_def)
    then show ?thesis using "2.IH"(2) [OF False n] "2.prems" False n c by simp
  qed
qed

lemma sort_eq_iff_sorted: "(xs = sort xs) = sorted (xs :: int list)"
  by (metis sorted_sort sorted_sort_id)

text \<open>
  C2.  Whenever the interpreter returns a document, \<open>ordem_nsr_ok\<close> is true exactly when the
  NSRs of the classifiable lines (ten characters or more, the first nine decimal digits), in
  the order of the file, never decrease; the other lines take no part in the check.
\<close>

theorem ordem_nsr_ok_iff_nondecreasing:
  assumes "interpretar_afd raw = Inr doc"
  shows "ordem_nsr_ok (d_validacoes doc)
           \<longleftrightarrow> sorted (map nsr_de (filter classificavel (split_lines (read_text_afd raw))))"
proof -
  obtain errs registros where
    c: "classificar (split_lines raw) [] [] = Inr (errs, registros)" and
    o: "ordem_nsr_ok (d_validacoes doc) = (map fst registros = sort (map fst registros))"
    using interpretar_afd_Inr [OF assms] by blast
  have "map fst registros = map nsr_de (filter classificavel (split_lines raw))"
    using classificar_Inr [OF c] by (simp add: comp_def)
  then show ?thesis by (simp add: o sort_eq_iff_sorted read_text_afd_def)
qed

theorem ordem_nsr_ok_iff_nondecreasing_witness:
  "interpretar_afd arquivo_em_ordem = Inr documento_em_ordem \<and>
   ordem_nsr_ok (d_validacoes documento_em_ordem) \<and>
   sorted (map nsr_de (filter classificavel (split_lines (read_text_afd arquivo_em_ordem)))) \<and>
   interpretar_afd arquivo_fora_de_ordem = Inr documento_fora_de_ordem \<and>
   \<not> ordem_nsr_ok (d_validacoes documento_fora_de_ordem) \<and>
   \<not> sorted (map nsr_de (filter classificavel (split_lines (read_text_afd arquivo_fora_de_ordem))))"
  using ordem_nsr_ok_iff_nondecreasing [OF arquivo_em_ordem_doc]
    ordem_nsr_ok_iff_nondecreasing [OF arquivo_fora_de_ordem_doc]
    arquivo_em_ordem_doc arquivo_fora_de_ordem_doc
  by (simp add: arquivo_em_ordem_nsrs arquivo_fora_de_ordem_nsrs documento_em_ordem_def
      documento_fora_de_ordem_def)

text \<open>
  C7.  Whenever the interpreter returns a document, \<open>contagens_ok\<close> is true exactly when the
  document has no trailer, or the six counts of its trailer are the lengths of the lists of
  types 2 to 7 and the type field of the trailer is 9.
\<close>

theorem contagens_ok_iff_trailer_matches:
  assumes "interpretar_afd raw = Inr doc"
  shows "contagens_ok (d_validacoes doc) \<longleftrightarrow>
           (d_trailer doc = None \<or>
            (\<exists>t. d_trailer doc = Some t \<and>
                 r9_qtd_tipo2 t = int (length (b2 (d_registros_por_tipo doc))) \<and>
                 r9_qtd_tipo3 t = int (length (b3 (d_registros_por_tipo doc))) \<and>
                 r9_qtd_tipo4 t = int (length (b4 (d_registros_por_tipo doc))) \<and>
                 r9_qtd_tipo5 t = int (length (b5 (d_registros_por_tipo doc))) \<and>
                 r9_qtd_tipo6 t = int (length (b6 (d_registros_por_tipo doc))) \<and>
                 r9_qtd_tipo7 t = int (length (b7 (d_registros_por_tipo doc))) \<and>
                 r9_tipo t = 9))"
proof -
  obtain st :: estado where
    a: "d_registros_por_tipo doc = bucket st" "d_trailer doc = trailer st"
       "contagens_ok (d_validacoes doc) = calc_contagens_ok (trailer st) (bucket st)"
    using interpretar_afd_Inr [OF assms] by blast
  show ?thesis unfolding a calc_contagens_ok_def
    by (cases "trailer st") simp_all
qed

theorem contagens_ok_iff_trailer_matches_witness:
  "interpretar_afd arquivo_em_ordem = Inr documento_em_ordem \<and>
   contagens_ok (d_validacoes documento_em_ordem) \<and>
   d_trailer documento_em_ordem = None \<and>
   interpretar_afd arquivo_fora_de_ordem = Inr documento_fora_de_ordem \<and>
   \<not> contagens_ok (d_validacoes documento_fora_de_ordem) \<and>
   d_trailer documento_fora_de_ordem \<noteq> None \<and>
   length (b2 (d_registros_por_tipo documento_fora_de_ordem)) = 0 \<and>
   map_option r9_qtd_tipo2 (d_trailer documento_fora_de_ordem) = Some 9"
  using contagens_ok_iff_trailer_matches [OF arquivo_em_ordem_doc]
    contagens_ok_iff_trailer_matches [OF arquivo_fora_de_ordem_doc]
    arquivo_em_ordem_doc arquivo_fora_de_ordem_doc
  by (simp add: documento_em_ordem_def documento_fora_de_ordem_def)

section \<open>Pairs of time stamps\<close>

lemma pares_por_indice_Nil: "pares_por_indice [] = []"
  by (simp add: pares_por_indice_def)

lemma pares_por_indice_single: "pares_por_indice [e] = [(e, None)]"
  by (simp add: pares_por_indice_def)

lemma pares_por_indice_two:
  "pares_por_indice (e # s # rest) = (e, Some s) # pares_por_indice rest"
proof -
  have n: "(length (e # s # rest) + 1) div 2 = Suc ((length rest + 1) div 2)" by simp
  show ?thesis
    unfolding pares_por_indice_def n
    by (simp add: upt_conv_Cons map_Suc_upt [symmetric] del: upt_Suc)
qed

lemma sum_pairs_loop_eq:
  "sum_pairs_loop tms tot pares =
     (tot + sum_list (map contribuicao (pares_por_indice tms)), pares @ pares_por_indice tms)"
proof (induction tms tot pares rule: sum_pairs_loop.induct)
  case (1 tot pares)
  then show ?case by (simp add: pares_por_indice_Nil)
next
  case (2 e tot pares)
  then show ?case by (simp add: pares_por_indice_single)
next
  case (3 e s rest tot pares)
  then show ?case by (simp add: pares_por_indice_two)
qed

lemma contribuicao_nonneg: "0 \<le> contribuicao p"
  by (cases p rule: contribuicao.cases) simp_all

lemma sum_contribuicao_nonneg: "0 \<le> sum_list (map contribuicao ps)"
  by (induction ps) (simp_all add: contribuicao_nonneg)

text \<open>
  C3.  For every list of time stamps, sorted or not, \<^verbatim>\<open>_sum_pairs\<close> pairs element 0 with
  element 1, element 2 with element 3, and so on, the last element of a list of odd length
  being an entry without exit; and the total is the sum over these pairs of exit less
  entry where the exit is later than the entry, a pair with no exit or with an exit that is
  not later adding nothing, so that the total is never negative.  The row of a group holds
  this total for the group's time stamps in ascending order.
\<close>

theorem sum_pairs_by_index:
  "sum_pairs tms = (sum_list (map contribuicao (pares_por_indice tms)), pares_por_indice tms) \<and>
   length (pares_por_indice tms) = (length tms + 1) div 2 \<and>
   contribuicao (e, None) = 0 \<and>
   contribuicao (e, Some s) = (if instant e < instant s then instant s - instant e else 0) \<and>
   0 \<le> contribuicao p \<and>
   0 \<le> fst (sum_pairs tms) \<and>
   j_horas_trabalhadas (linha_jornada n ((cpf, dia), tms))
     = sum_list (map contribuicao (pares_por_indice (sort_key instant tms)))"
proof (intro conjI)
  show "length (pares_por_indice tms) = (length tms + 1) div 2"
    by (simp add: pares_por_indice_def)
  show "j_horas_trabalhadas (linha_jornada n ((cpf, dia), tms))
          = sum_list (map contribuicao (pares_por_indice (sort_key instant tms)))"
    by (simp add: linha_jornada_def sum_pairs_def sum_pairs_loop_eq)
qed (simp_all add: sum_pairs_def sum_pairs_loop_eq contribuicao_nonneg sum_contribuicao_nonneg)

section \<open>Type-3 lines: the two layouts\<close>

lemma slice_afd_11_18: "slice_afd s 11 18 = substr s 10 18"
  using slice_afd_cols [of s 10 18] by simp

lemma slice_afd_19_22: "slice_afd s 19 22 = substr s 18 22"
  using slice_afd_cols [of s 18 22] by simp

lemma slice_afd_23_34: "slice_afd s 23 34 = substr s 22 34"
  using slice_afd_cols [of s 22 34] by simp

lemma slice_afd_11_34: "slice_afd s 11 34 = substr s 10 34"
  using slice_afd_cols [of s 10 34] by simp

lemma parse_registro3_compacto_Inr:
  assumes "parse_registro3_compacto line = Inr r"
  shows "\<exists>n di hh. 34 \<le> length line \<and> py_int (substr line 0 9) = Some n \<and>
           ddmmaaaa_to_iso (substr line 10 18) = Some di \<and>
           hhmm_to_hhmm (substr line 18 22) = Some hh \<and>
           r = \<lparr> r3_nsr = n, r3_tipo = [line ! 9],
                 r3_dh_marcacao = di @ ''T'' @ hh @ '':00-0300'',
                 r3_cpf = py_strip (substr line 22 34),
                 r3_crc16 = None, r3_crc_ok = None, r3_formato = ''compacto'' \<rparr>"
  using assms unfolding parse_registro3_compacto_def and_then_def to_int_def Let_def
  by (auto split: if_splits option.splits sum.splits)

lemma parse_registro3_compacto_ok:
  assumes "34 \<le> length line" "py_int (substr line 0 9) = Some n"
    "is_digits (substr line 10 18)" "is_digits (substr line 18 22)"
  shows "parse_registro3_compacto line =
           Inr \<lparr> r3_nsr = n, r3_tipo = [line ! 9],
                 r3_dh_marcacao =
                   substr (substr line 10 18) 4 8 @ ''-'' @ substr (substr line 10 18) 2 4
                     @ ''-'' @ substr (substr line 10 18) 0 2 @ ''T''
                     @ substr (substr line 18 22) 0 2 @ '':'' @ substr (substr line 18 22) 2 4
                     @ '':00-0300'',
                 r3_cpf = py_strip (substr line 22 34),
                 r3_crc16 = None, r3_crc_ok = None, r3_formato = ''compacto'' \<rparr>"
proof -
  have l1: "length (substr line 10 18) = 8" using assms(1) by (simp add: substr_def)
  have l2: "length (substr line 18 22) = 4" using assms(1) by (simp add: substr_def)
  show ?thesis
    unfolding parse_registro3_compacto_def and_then_def to_int_def Let_def
      ddmmaaaa_to_iso_def hhmm_to_hhmm_def
    using assms l1 l2 by simp
qed

lemma digits_window_not_iso:
  assumes "is_digits (substr line 10 18)" "34 \<le> length line"
  shows "\<not> is_iso_dh (slice_afd line 11 34)"
proof
  assume iso: "is_iso_dh (slice_afd line 11 34)"
  have "list_all2 in_class iso_dh_pattern (substr line 10 34)"
    using iso unfolding is_iso_dh_def slice_afd_11_34 .
  then have "in_class (iso_dh_pattern ! 4) (substr line 10 34 ! 4)"
    by (rule list_all2_nthD) (simp add: iso_dh_pattern_def)
  then have "substr line 10 34 ! 4 = CHR ''-''" by (simp add: iso_dh_pattern_def)
  then have d: "line ! 14 = CHR ''-''" using assms(2) by (simp add: substr_def)
  have "substr line 10 18 ! 4 = line ! 14" using assms(2) by (simp add: substr_def)
  moreover have "py_isdigit (substr line 10 18 ! 4)"
  proof -
    have "list_all py_isdigit (substr line 10 18)" using assms(1) by (simp add: is_digits_def)
    moreover have "4 < length (substr line 10 18)" using assms(2) by (simp add: substr_def)
    ultimately show ?thesis unfolding list_all_length by blast
  qed
  ultimately show False using d by (simp add: py_isdigit_def ascii_digit_def)
qed

lemma parse_registro3_oficial_digits_window:
  assumes "is_digits (substr line 10 18)" "34 \<le> length line"
  shows "\<exists>e. parse_registro3_oficial line = Inl e"
  using digits_window_not_iso [OF assms]
  unfolding parse_registro3_oficial_def and_then_def Let_def
  by (auto split: sum.splits)

lemma tenta_registro3_compacto:
  assumes "34 \<le> length line" "py_int (substr line 0 9) = Some n"
    "is_digits (substr line 10 18)" "is_digits (substr line 18 22)"
  shows "tenta_registro3 line = parse_registro3_compacto line"
  using parse_registro3_oficial_digits_window [OF assms(3) assms(1)]
    parse_registro3_compacto_ok [OF assms]
  by (auto simp: tenta_registro3_def)

lemma processar_linha_tipo3:
  "line ! 9 = CHR ''3'' \<Longrightarrow>
     processar_linha st line =
       (case tenta_registro3 line of
          Inl e \<Rightarrow> erro_na_linha st line e
        | Inr r \<Rightarrow>
            st\<lparr>bucket := (bucket st)\<lparr>b3 := b3 (bucket st) @ [r]\<rparr>,
               crc_ok_por_tipo :=
                 (case r3_crc_ok r of
                    None \<Rightarrow> crc_ok_por_tipo st
                  | Some ok \<Rightarrow> (crc_ok_por_tipo st)\<lparr>c3 := c3 (crc_ok_por_tipo st) @ [ok]\<rparr>)\<rparr>)"
  by (simp add: processar_linha_def Let_def)

lemma linha3_compacta_campos:
  "linha3_compacta ! 9 = CHR ''3''"
  "length linha3_compacta = 34"
  "parse_registro3_oficial linha3_compacta = Inl (Tamanho ''Tipo 3 (oficial)'' 34 50)"
  "parse_registro3_compacto linha3_compacta
     = Inr (registro3_compacto 1 ''2025-07-16T18:22:00-0300'')"
  "py_int (substr linha3_compacta 0 9) = Some 1"
  "is_digits (substr linha3_compacta 10 18)"
  "is_digits (substr linha3_compacta 18 22)"
  by code_simp+

lemma linha3_curta_campos:
  "linha3_curta ! 9 = CHR ''3''"
  "parse_registro3_oficial linha3_curta = Inl (Tamanho ''Tipo 3 (oficial)'' 13 50)"
  "parse_registro3_compacto linha3_curta = Inl (Tamanho ''Tipo 3 compacto'' 13 34)"
  "substr linha3_curta 0 9 = ''000000001''"
  by code_simp+

lemma linha3_minuscula_tipo: "linha3_minuscula ! 9 = CHR ''3''"
  by code_simp

text \<open>
  C4.  For a line whose tenth character is \<open>3\<close>, the interpreter uses the record of the
  official parser when that parser succeeds; when it fails, the record of the compact parser;
  and when both fail it appends one entry to \<open>erros\<close>, with both causes, and leaves every
  list of records as it was.  In particular a line of 34 to 49 characters whose date window
  is eight digits and whose time window is four digits, and whose NSR \<^verbatim>\<open>int()\<close> reads (as
  for every line that reaches this loop), is stored with \<open>formato = compacto\<close> and a
  \<open>crc_ok\<close> that is \<open>None\<close>.
\<close>

theorem tipo3_official_then_compact:
  fixes st :: estado
  assumes "line ! 9 = CHR ''3''"
  shows
    "(parse_registro3_oficial line = Inr r \<longrightarrow>
        b3 (bucket (processar_linha st line)) = b3 (bucket st) @ [r] \<and>
        erros (processar_linha st line) = erros st) \<and>
     (parse_registro3_oficial line = Inl e1 \<and> parse_registro3_compacto line = Inr r \<longrightarrow>
        b3 (bucket (processar_linha st line)) = b3 (bucket st) @ [r] \<and>
        erros (processar_linha st line) = erros st) \<and>
     (parse_registro3_oficial line = Inl e1 \<and> parse_registro3_compacto line = Inl e2 \<longrightarrow>
        processar_linha st line
          = st\<lparr>erros := erros st
                   @ [ErroParse (substr line 0 9) (CHR ''3'') (Falha (CHR ''3'') e1 e2)]\<rparr> \<and>
        bucket (processar_linha st line) = bucket st) \<and>
     (34 \<le> length line \<and> length line < 50 \<and> is_digits (substr line 10 18) \<and>
      is_digits (substr line 18 22) \<and> py_int (substr line 0 9) = Some n \<longrightarrow>
        (\<exists>r'. (\<exists>e. parse_registro3_oficial line = Inl e) \<and>
              parse_registro3_compacto line = Inr r' \<and>
              r3_nsr r' = n \<and> r3_formato r' = ''compacto'' \<and> r3_crc_ok r' = None \<and>
              b3 (bucket (processar_linha st line)) = b3 (bucket st) @ [r']))"
proof (intro conjI impI)
  assume "parse_registro3_oficial line = Inr r"
  then show "b3 (bucket (processar_linha st line)) = b3 (bucket st) @ [r]"
    and "erros (processar_linha st line) = erros st"
    by (simp_all add: processar_linha_tipo3 [OF assms] tenta_registro3_def split: option.splits)
next
  assume "parse_registro3_oficial line = Inl e1 \<and> parse_registro3_compacto line = Inr r"
  then show "b3 (bucket (processar_linha st line)) = b3 (bucket st) @ [r]"
    and "erros (processar_linha st line) = erros st"
    by (simp_all add: processar_linha_tipo3 [OF assms] tenta_registro3_def split: option.splits)
next
  assume "parse_registro3_oficial line = Inl e1 \<and> parse_registro3_compacto line = Inl e2"
  then show "processar_linha st line
      = st\<lparr>erros := erros st @ [ErroParse (substr line 0 9) (CHR ''3'') (Falha (CHR ''3'') e1 e2)]\<rparr>"
    and "bucket (processar_linha st line) = bucket st"
    using assms
    by (simp_all add: processar_linha_tipo3 [OF assms] tenta_registro3_def erro_na_linha_def)
next
  assume h: "34 \<le> length line \<and> length line < 50 \<and> is_digits (substr line 10 18) \<and>
      is_digits (substr line 18 22) \<and> py_int (substr line 0 9) = Some n"
  then have ok: "34 \<le> length line" "py_int (substr line 0 9) = Some n"
    "is_digits (substr line 10 18)" "is_digits (substr line 18 22)" by simp_all
  obtain e where e: "parse_registro3_oficial line = Inl e"
    using parse_registro3_oficial_digits_window [OF ok(3) ok(1)] by blast
  show "\<exists>r'. (\<exists>e. parse_registro3_oficial line = Inl e) \<and>
              parse_registro3_compacto line = Inr r' \<and>
              r3_nsr r' = n \<and> r3_formato r' = ''compacto'' \<and> r3_crc_ok r' = None \<and>
              b3 (bucket (processar_linha st line)) = b3 (bucket st) @ [r']"
    using e parse_registro3_compacto_ok [OF ok]
    by (simp add: processar_linha_tipo3 [OF assms] tenta_registro3_def)
qed

theorem tipo3_official_then_compact_witness:
  "linha3_minuscula ! 9 = CHR ''3'' \<and>
   parse_registro3_oficial linha3_minuscula = Inr registro3_conferido \<and>
   b3 (bucket (processar_linha (estado_inicial []) linha3_minuscula)) = [registro3_conferido] \<and>
   linha3_compacta ! 9 = CHR ''3'' \<and> length linha3_compacta = 34 \<and>
   parse_registro3_oficial linha3_compacta = Inl (Tamanho ''Tipo 3 (oficial)'' 34 50) \<and>
   parse_registro3_compacto linha3_compacta
     = Inr (registro3_compacto 1 ''2025-07-16T18:22:00-0300'') \<and>
   b3 (bucket (processar_linha (estado_inicial []) linha3_compacta))
     = [registro3_compacto 1 ''2025-07-16T18:22:00-0300''] \<and>
   r3_crc_ok (registro3_compacto 1 ''2025-07-16T18:22:00-0300'') = None \<and>
   linha3_curta ! 9 = CHR ''3'' \<and>
   parse_registro3_oficial linha3_curta = Inl (Tamanho ''Tipo 3 (oficial)'' 13 50) \<and>
   parse_registro3_compacto linha3_curta = Inl (Tamanho ''Tipo 3 compacto'' 13 34) \<and>
   erros (processar_linha (estado_inicial []) linha3_curta)
     = [ErroParse ''000000001'' (CHR ''3'')
          (Falha (CHR ''3'') (Tamanho ''Tipo 3 (oficial)'' 13 50) (Tamanho ''Tipo 3 compacto'' 13 34))] \<and>
   b3 (bucket (processar_linha (estado_inicial []) linha3_curta)) = []"
  using
    tipo3_official_then_compact [where line = linha3_minuscula and r = registro3_conferido
      and st = "estado_inicial []"]
    tipo3_official_then_compact [where line = linha3_compacta
      and r = "registro3_compacto 1 ''2025-07-16T18:22:00-0300''"
      and ?e1.0 = "Tamanho ''Tipo 3 (oficial)'' 34 50" and n = 1 and st = "estado_inicial []"]
    tipo3_official_then_compact [where line = linha3_curta
      and ?e1.0 = "Tamanho ''Tipo 3 (oficial)'' 13 50"
      and ?e2.0 = "Tamanho ''Tipo 3 compacto'' 13 34" and st = "estado_inicial []"]
    linha3_minuscula_parse
  by (simp add: linha3_minuscula_tipo linha3_compacta_campos linha3_curta_campos
      estado_inicial_def registro3_compacto_def)

text \<open>
  C5, as the code has it.  Counting columns from 1 and including both ends, the compact
  parser reads the date, as day, month and year, from columns 11 to 18, the time from
  columns 19 to 22 and the tax ID from columns 23 to 34 (without the blanks around it);
  the time stamp is year-month-day, \<open>T\<close>, hour:minute and the fixed \<open>:00-0300\<close>.
  Column 10 is the type.
\<close>

theorem compacto_columns:
  assumes "parse_registro3_compacto line = Inr r"
  shows "length (slice_afd line 11 18) = 8 \<and> is_digits (slice_afd line 11 18) \<and>
         length (slice_afd line 19 22) = 4 \<and> is_digits (slice_afd line 19 22) \<and>
         r3_dh_marcacao r =
           substr (slice_afd line 11 18) 4 8 @ ''-'' @ substr (slice_afd line 11 18) 2 4 @ ''-''
             @ substr (slice_afd line 11 18) 0 2 @ ''T''
             @ substr (slice_afd line 19 22) 0 2 @ '':'' @ substr (slice_afd line 19 22) 2 4
             @ '':00-0300'' \<and>
         r3_cpf r = py_strip (slice_afd line 23 34) \<and>
         r3_tipo r = slice_afd line 10 10 \<and>
         r3_crc16 r = None \<and> r3_crc_ok r = None \<and> r3_formato r = ''compacto''"
proof -
  obtain n di hh where
    len: "34 \<le> length line" and
    di: "ddmmaaaa_to_iso (substr line 10 18) = Some di" and
    hh: "hhmm_to_hhmm (substr line 18 22) = Some hh" and
    r: "r = \<lparr> r3_nsr = n, r3_tipo = [line ! 9],
              r3_dh_marcacao = di @ ''T'' @ hh @ '':00-0300'',
              r3_cpf = py_strip (substr line 22 34),
              r3_crc16 = None, r3_crc_ok = None, r3_formato = ''compacto'' \<rparr>"
    using parse_registro3_compacto_Inr [OF assms] by blast
  have t: "slice_afd line 10 10 = [line ! 9]"
    using slice_afd_cols [of line 9 10] len
    by (simp add: substr_def take_Suc_conv_app_nth)
  show ?thesis
    using di hh len unfolding slice_afd_11_18 slice_afd_19_22 slice_afd_23_34 t r
    by (auto simp: ddmmaaaa_to_iso_def hhmm_to_hhmm_def split: if_splits)
qed

theorem compacto_columns_witness:
  "parse_registro3_compacto linha3_compacta
     = Inr (registro3_compacto 1 ''2025-07-16T18:22:00-0300'') \<and>
   slice_afd linha3_compacta 11 18 = ''16072025'' \<and>
   slice_afd linha3_compacta 19 22 = ''1822'' \<and>
   py_strip (slice_afd linha3_compacta 23 34) = ''012345678901'' \<and>
   r3_dh_marcacao (registro3_compacto 1 ''2025-07-16T18:22:00-0300'')
     = substr (slice_afd linha3_compacta 11 18) 4 8 @ ''-''
         @ substr (slice_afd linha3_compacta 11 18) 2 4 @ ''-''
         @ substr (slice_afd linha3_compacta 11 18) 0 2 @ ''T''
         @ substr (slice_afd linha3_compacta 19 22) 0 2 @ '':''
         @ substr (slice_afd linha3_compacta 19 22) 2 4 @ '':00-0300''"
proof -
  have "slice_afd linha3_compacta 11 18 = ''16072025''"
    "slice_afd linha3_compacta 19 22 = ''1822''"
    "py_strip (slice_afd linha3_compacta 23 34) = ''012345678901''"
    by code_simp+
  then show ?thesis
    using compacto_columns [OF linha3_compacta_campos(4)] linha3_compacta_campos(4)
    by simp
qed

text \<open>
  The claim C5 as it is written fails on the example line: columns 10 to 17 hold the type
  digit and the first seven digits of the date, columns 18 to 21 the last digit of the date
  and three of the time, and columns 22 to 34 one digit of the time before the tax ID.
\<close>

theorem compacto_columns_counterexample:
  "parse_registro3_compacto linha3_compacta
     = Inr (registro3_compacto 1 ''2025-07-16T18:22:00-0300'') \<and>
   slice_afd linha3_compacta 10 17 = ''31607202'' \<and>
   ddmmaaaa_to_iso (slice_afd linha3_compacta 10 17) = Some ''7202-60-31'' \<and>
   slice_afd linha3_compacta 18 21 = ''5182'' \<and>
   hhmm_to_hhmm (slice_afd linha3_compacta 18 21) = Some ''51:82'' \<and>
   r3_dh_marcacao (registro3_compacto 1 ''2025-07-16T18:22:00-0300'')
     \<noteq> ''7202-60-31'' @ ''T'' @ ''51:82'' @ '':00-0300'' \<and>
   py_strip (slice_afd linha3_compacta 22 34) = ''2012345678901'' \<and>
   r3_cpf (registro3_compacto 1 ''2025-07-16T18:22:00-0300'')
     \<noteq> py_strip (slice_afd linha3_compacta 22 34)"
  by code_simp

section \<open>Records with a failed checksum\<close>

lemma agrupar_linha_cong:
  "m_cpf a = m_cpf b \<Longrightarrow> m_dh_marcacao a = m_dh_marcacao b
     \<Longrightarrow> agrupar_linha g a = agrupar_linha g b"
  by (simp add: agrupar_linha_def)

lemma foldl_agrupar_cong:
  "map m_cpf ds = map m_cpf ds' \<Longrightarrow> map m_dh_marcacao ds = map m_dh_marcacao ds'
     \<Longrightarrow> foldl agrupar_linha g ds = foldl agrupar_linha g ds'"
proof (induction ds arbitrary: ds' g)
  case Nil
  then show ?case by simp
next
  case (Cons d ds)
  then obtain d' ds0 where ds': "ds' = d' # ds0" by (cases ds') auto
  have "agrupar_linha g d = agrupar_linha g d'"
    using Cons.prems ds' by (intro agrupar_linha_cong) simp_all
  then show ?case using Cons ds' by simp
qed

lemma gerar_jornadas_por_cpf_cong:
  assumes "map m_cpf ds = map m_cpf ds'" "map m_dh_marcacao ds = map m_dh_marcacao ds'"
  shows "gerar_jornadas_por_cpf ds n ordem = gerar_jornadas_por_cpf ds' n ordem"
  using foldl_agrupar_cong [OF assms]
  by (simp add: gerar_jornadas_por_cpf_def agrupar_def)

lemma exemplos_tipo:
  "linha2_exemplo ! 9 = CHR ''2''" "linha3_exemplo ! 9 = CHR ''3''"
  "linha4_exemplo ! 9 = CHR ''4''" "linha5_exemplo ! 9 = CHR ''5''"
  by code_simp+

subsection \<open>What a row adds to the groups\<close>

lemma grupo_append_same: "grupo (append_grupo g k t) k = grupo g k @ [t]"
  by (induction g k t rule: append_grupo.induct) (simp_all add: grupo_def)

lemma grupo_append_other: "k' \<noteq> k \<Longrightarrow> grupo (append_grupo g k t) k' = grupo g k'"
  by (induction g k t rule: append_grupo.induct) (simp_all add: grupo_def)

lemma agrupar_linha_valid:
  assumes "py_strip (m_cpf row) \<noteq> []" "py_strip (m_dh_marcacao row) \<noteq> []"
    "parse_iso_dh (py_strip (m_dh_marcacao row)) = Some t"
  shows "agrupar_linha g row = append_grupo g (py_strip (m_cpf row), isoformat_date t) t"
  using assms by (simp add: agrupar_linha_def Let_def)

lemma agrupar_linha_mono:
  assumes "t \<in> set (grupo g k)"
  shows "t \<in> set (grupo (agrupar_linha g row) k)"
proof -
  have a: "t \<in> set (grupo (append_grupo g k' t') k)" for k' t'
  proof (cases "k = k'")
    case True
    then show ?thesis using assms by (simp add: grupo_append_same)
  next
    case False
    then show ?thesis using assms by (simp add: grupo_append_other)
  qed
  show ?thesis
    using assms a by (simp add: agrupar_linha_def Let_def split: option.splits)
qed

lemma foldl_agrupar_mono:
  "t \<in> set (grupo g k) \<Longrightarrow> t \<in> set (grupo (foldl agrupar_linha g ds) k)"
proof (induction ds arbitrary: g)
  case Nil
  then show ?case by simp
next
  case (Cons d ds)
  then show ?case using agrupar_linha_mono [of t g k d] by simp
qed

lemma foldl_agrupar_member:
  assumes "row \<in> set ds" "py_strip (m_cpf row) \<noteq> []" "py_strip (m_dh_marcacao row) \<noteq> []"
    "parse_iso_dh (py_strip (m_dh_marcacao row)) = Some t"
  shows "t \<in> set (grupo (foldl agrupar_linha g ds) (py_strip (m_cpf row), isoformat_date t))"
  using assms(1)
proof (induction ds arbitrary: g)
  case Nil
  then show ?case by simp
next
  case (Cons d ds)
  show ?case
  proof (cases "row \<in> set ds")
    case True
    then show ?thesis using Cons.IH by simp
  next
    case False
    then have d: "d = row" using Cons.prems by simp
    have "t \<in> set (grupo (agrupar_linha g row) (py_strip (m_cpf row), isoformat_date t))"
      unfolding agrupar_linha_valid [OF assms(2,3,4)] by (simp add: grupo_append_same)
    then show ?thesis unfolding d by (simp add: foldl_agrupar_mono)
  qed
qed

lemma grupo_entry:
  assumes "t \<in> set (grupo g k)"
  shows "\<exists>tms. (k, tms) \<in> set g \<and> t \<in> set tms"
proof (cases "map_of g k")
  case None
  then show ?thesis using assms by (simp add: grupo_def)
next
  case (Some tms)
  then have "(k, tms) \<in> set g" by (rule map_of_SomeD)
  then show ?thesis using assms Some by (auto simp: grupo_def)
qed

lemma set_gerar_jornadas_por_cpf:
  "set (gerar_jornadas_por_cpf ds n ordem) = linha_jornada n ` set (agrupar ds)"
  by (simp add: gerar_jornadas_por_cpf_def Let_def)

lemma jornada_of_row:
  assumes "row \<in> set ds" "py_strip (m_cpf row) \<noteq> []" "py_strip (m_dh_marcacao row) \<noteq> []"
    "parse_iso_dh (py_strip (m_dh_marcacao row)) = Some t"
  shows "\<exists>tms. t \<in> set tms \<and>
           linha_jornada n ((py_strip (m_cpf row), isoformat_date t), tms)
             \<in> set (gerar_jornadas_por_cpf ds n ordem)"
proof -
  have "t \<in> set (grupo (agrupar ds) (py_strip (m_cpf row), isoformat_date t))"
    unfolding agrupar_def by (rule foldl_agrupar_member [OF assms])
  then obtain tms where "((py_strip (m_cpf row), isoformat_date t), tms) \<in> set (agrupar ds)"
    "t \<in> set tms"
    using grupo_entry by blast
  then show ?thesis unfolding set_gerar_jornadas_por_cpf by blast
qed

subsection \<open>The file of one line with a wrong checksum\<close>

lemma linha3_exemplo_tenta: "tenta_registro3 linha3_exemplo = Inr registro3_exemplo"
  by (simp add: tenta_registro3_def linha3_exemplo_parse)

lemma linha3_exemplo_doc: "interpretar_afd linha3_exemplo = Inr documento_crc_falho"
proof -
  have a: "split_lines (read_text_afd linha3_exemplo) = [linha3_exemplo]"
    "classificar [linha3_exemplo] [] [] = Inr ([], [(3, linha3_exemplo)])"
    by code_simp+
  have b: "processar_linha (estado_inicial []) linha3_exemplo
             = \<lparr> header = None,
                 bucket = \<lparr> b2 = [], b3 = [registro3_exemplo], b4 = [], b5 = [], b6 = [],
                            b7 = [] \<rparr>,
                 trailer = None,
                 crc_ok_por_tipo = \<lparr> c1 = [], c2 = [], c3 = [False], c4 = [], c5 = [] \<rparr>,
                 erros = [] \<rparr>"
    using exemplos_tipo(2)
    by (simp add: processar_linha_def Let_def linha3_exemplo_tenta estado_inicial_def
        registro3_exemplo_def)
  show ?thesis
    unfolding interpretar_afd_def Let_def a
    by (simp add: b any_bucket_def calc_contagens_ok_def all_or_none_def
        documento_crc_falho_def)
qed

lemma linha_csv_exemplo:
  "py_strip (m_cpf (linha_csv registro3_exemplo)) = ''012345678901''"
  "py_strip (m_dh_marcacao (linha_csv registro3_exemplo)) = ''2025-07-16T18:22:00-0300''"
  "parse_iso_dh ''2025-07-16T18:22:00-0300'' = Some carimbo_exemplo"
  "isoformat_date carimbo_exemplo = ''2025-07-16''"
  "exportar_marcacoes_tipo3 documento_crc_falho = [linha_csv registro3_exemplo]"
  "crc3_ok (v_crc_ok_por_tipo (d_validacoes documento_crc_falho)) = Some False"
  "m_crc_ok (linha_csv registro3_exemplo) = ''False''"
  "gerar_jornadas_por_cpf (exportar_marcacoes_tipo3 documento_crc_falho) 4 ''data_cpf''
     = [jornada_exemplo]"
  by code_simp+

text \<open>
  C9.  A record whose checksum comparison is false is kept.  For a line of type 2, 3, 4 or
  5 whose parser succeeds, whatever the value of \<open>crc_ok\<close>, the record is appended to the
  list of its type, no entry is added to \<open>erros\<close>, and header and trailer stay as they
  were; the flag goes to the list of flags of the type.  Every record of type 3 of the
  document is a row of the export, with its tax ID and its time stamp.  The summarizer
  reads nothing of a row but these two columns: rows that agree on them give the same
  journeys.  And a row whose tax ID is not blank and whose time stamp \<^verbatim>\<open>strptime\<close> reads,
  whatever its checksum columns, adds that time stamp at the end of the group of its tax ID
  and date; so the time stamp of each such row of the input is in the group at the end, and
  the output has the journey of that tax ID and date, made of a list that holds it.
\<close>

theorem failed_checksum_keeps_record:
  fixes st :: estado
  shows
    "(line ! 9 = CHR ''2'' \<and> parse_registro2 line = Inr r2 \<longrightarrow>
        b2 (bucket (processar_linha st line)) = b2 (bucket st) @ [r2] \<and>
        c2 (crc_ok_por_tipo (processar_linha st line)) = c2 (crc_ok_por_tipo st) @ [r2_crc_ok r2] \<and>
        erros (processar_linha st line) = erros st \<and>
        header (processar_linha st line) = header st \<and>
        trailer (processar_linha st line) = trailer st) \<and>
     (line ! 9 = CHR ''3'' \<and> tenta_registro3 line = Inr r3 \<and> r3_crc_ok r3 = Some ok \<longrightarrow>
        b3 (bucket (processar_linha st line)) = b3 (bucket st) @ [r3] \<and>
        c3 (crc_ok_por_tipo (processar_linha st line)) = c3 (crc_ok_por_tipo st) @ [ok] \<and>
        erros (processar_linha st line) = erros st \<and>
        header (processar_linha st line) = header st \<and>
        trailer (processar_linha st line) = trailer st) \<and>
     (line ! 9 = CHR ''4'' \<and> parse_registro4 line = Inr r4 \<longrightarrow>
        b4 (bucket (processar_linha st line)) = b4 (bucket st) @ [r4] \<and>
        c4 (crc_ok_por_tipo (processar_linha st line)) = c4 (crc_ok_por_tipo st) @ [r4_crc_ok r4] \<and>
        erros (processar_linha st line) = erros st \<and>
        header (processar_linha st line) = header st \<and>
        trailer (processar_linha st line) = trailer st) \<and>
     (line ! 9 = CHR ''5'' \<and> parse_registro5 line = Inr r5 \<longrightarrow>
        b5 (bucket (processar_linha st line)) = b5 (bucket st) @ [r5] \<and>
        c5 (crc_ok_por_tipo (processar_linha st line)) = c5 (crc_ok_por_tipo st) @ [r5_crc_ok r5] \<and>
        erros (processar_linha st line) = erros st \<and>
        header (processar_linha st line) = header st \<and>
        trailer (processar_linha st line) = trailer st) \<and>
     (map m_cpf ds = map m_cpf ds' \<and> map m_dh_marcacao ds = map m_dh_marcacao ds' \<longrightarrow>
        gerar_jornadas_por_cpf ds n ordem = gerar_jornadas_por_cpf ds' n ordem) \<and>
     agrupar_linha g (linha_csv (r\<lparr>r3_crc16 := c, r3_crc_ok := k\<rparr>)) = agrupar_linha g (linha_csv r) \<and>
     exportar_marcacoes_tipo3 doc = map linha_csv (b3 (d_registros_por_tipo doc)) \<and>
     (reg \<in> set (b3 (d_registros_por_tipo doc)) \<longrightarrow>
        linha_csv reg \<in> set (exportar_marcacoes_tipo3 doc) \<and>
        m_cpf (linha_csv reg) = r3_cpf reg \<and>
        m_dh_marcacao (linha_csv reg) = r3_dh_marcacao reg) \<and>
     (py_strip (m_cpf row) \<noteq> [] \<and> py_strip (m_dh_marcacao row) \<noteq> [] \<and>
      parse_iso_dh (py_strip (m_dh_marcacao row)) = Some t \<longrightarrow>
        grupo (agrupar_linha g row) (py_strip (m_cpf row), isoformat_date t)
          = grupo g (py_strip (m_cpf row), isoformat_date t) @ [t] \<and>
        (row \<in> set dados \<longrightarrow>
           t \<in> set (grupo (agrupar dados) (py_strip (m_cpf row), isoformat_date t)) \<and>
           (\<exists>tms. t \<in> set tms \<and>
              linha_jornada n ((py_strip (m_cpf row), isoformat_date t), tms)
                \<in> set (gerar_jornadas_por_cpf dados n ordem))))"
proof (intro conjI impI)
  assume "reg \<in> set (b3 (d_registros_por_tipo doc))"
  then show "linha_csv reg \<in> set (exportar_marcacoes_tipo3 doc)"
    by (simp add: exportar_marcacoes_tipo3_def)
  show "m_cpf (linha_csv reg) = r3_cpf reg" "m_dh_marcacao (linha_csv reg) = r3_dh_marcacao reg"
    by (simp_all add: linha_csv_def)
next
  assume v: "py_strip (m_cpf row) \<noteq> [] \<and> py_strip (m_dh_marcacao row) \<noteq> [] \<and>
      parse_iso_dh (py_strip (m_dh_marcacao row)) = Some t"
  then show "grupo (agrupar_linha g row) (py_strip (m_cpf row), isoformat_date t)
          = grupo g (py_strip (m_cpf row), isoformat_date t) @ [t]"
    by (simp add: agrupar_linha_valid grupo_append_same)
  assume "row \<in> set dados"
  then show "t \<in> set (grupo (agrupar dados) (py_strip (m_cpf row), isoformat_date t))"
    unfolding agrupar_def using v by (intro foldl_agrupar_member) simp_all
  show "\<exists>tms. t \<in> set tms \<and>
          linha_jornada n ((py_strip (m_cpf row), isoformat_date t), tms)
            \<in> set (gerar_jornadas_por_cpf dados n ordem)"
    using \<open>row \<in> set dados\<close> v by (intro jornada_of_row) simp_all
next
  show "agrupar_linha g (linha_csv (r\<lparr>r3_crc16 := c, r3_crc_ok := k\<rparr>)) = agrupar_linha g (linha_csv r)"
    by (rule agrupar_linha_cong) (simp_all add: linha_csv_def)
  show "exportar_marcacoes_tipo3 doc = map linha_csv (b3 (d_registros_por_tipo doc))"
    by (simp add: exportar_marcacoes_tipo3_def)
next
  assume "map m_cpf ds = map m_cpf ds' \<and> map m_dh_marcacao ds = map m_dh_marcacao ds'"
  then show "gerar_jornadas_por_cpf ds n ordem = gerar_jornadas_por_cpf ds' n ordem"
    using gerar_jornadas_por_cpf_cong by blast
qed (simp_all add: processar_linha_def Let_def)

theorem failed_checksum_keeps_record_witness:
  "linha2_exemplo ! 9 = CHR ''2'' \<and> parse_registro2 linha2_exemplo = Inr registro2_exemplo \<and>
   \<not> r2_crc_ok registro2_exemplo \<and>
   b2 (bucket (processar_linha (estado_inicial []) linha2_exemplo)) = [registro2_exemplo] \<and>
   linha3_exemplo ! 9 = CHR ''3'' \<and> tenta_registro3 linha3_exemplo = Inr registro3_exemplo \<and>
   r3_crc_ok registro3_exemplo = Some False \<and>
   b3 (bucket (processar_linha (estado_inicial []) linha3_exemplo)) = [registro3_exemplo] \<and>
   c3 (crc_ok_por_tipo (processar_linha (estado_inicial []) linha3_exemplo)) = [False] \<and>
   linha4_exemplo ! 9 = CHR ''4'' \<and> parse_registro4 linha4_exemplo = Inr registro4_exemplo \<and>
   \<not> r4_crc_ok registro4_exemplo \<and>
   b4 (bucket (processar_linha (estado_inicial []) linha4_exemplo)) = [registro4_exemplo] \<and>
   linha5_exemplo ! 9 = CHR ''5'' \<and> parse_registro5 linha5_exemplo = Inr registro5_exemplo \<and>
   \<not> r5_crc_ok registro5_exemplo \<and>
   b5 (bucket (processar_linha (estado_inicial []) linha5_exemplo)) = [registro5_exemplo] \<and>
   gerar_jornadas_por_cpf [linha_csv registro3_exemplo] 4 ''data_cpf''
     = gerar_jornadas_por_cpf [linha_csv registro3_conferido] 4 ''data_cpf'' \<and>
   interpretar_afd linha3_exemplo = Inr documento_crc_falho \<and>
   crc3_ok (v_crc_ok_por_tipo (d_validacoes documento_crc_falho)) = Some False \<and>
   registro3_exemplo \<in> set (b3 (d_registros_por_tipo documento_crc_falho)) \<and>
   linha_csv registro3_exemplo \<in> set (exportar_marcacoes_tipo3 documento_crc_falho) \<and>
   m_crc_ok (linha_csv registro3_exemplo) = ''False'' \<and>
   parse_iso_dh (py_strip (m_dh_marcacao (linha_csv registro3_exemplo))) = Some carimbo_exemplo \<and>
   grupo (agrupar_linha [] (linha_csv registro3_exemplo)) (''012345678901'', ''2025-07-16'')
     = [carimbo_exemplo] \<and>
   carimbo_exemplo
     \<in> set (grupo (agrupar (exportar_marcacoes_tipo3 documento_crc_falho))
              (''012345678901'', ''2025-07-16'')) \<and>
   gerar_jornadas_por_cpf (exportar_marcacoes_tipo3 documento_crc_falho) 4 ''data_cpf''
     = [jornada_exemplo]"
proof -
  note t3 = linha3_exemplo_tenta
  note x = linha_csv_exemplo
  have v: "py_strip (m_cpf (linha_csv registro3_exemplo)) \<noteq> []"
    "py_strip (m_dh_marcacao (linha_csv registro3_exemplo)) \<noteq> []"
    "parse_iso_dh (py_strip (m_dh_marcacao (linha_csv registro3_exemplo))) = Some carimbo_exemplo"
    unfolding x by (simp_all add: x)
  have member: "registro3_exemplo \<in> set (b3 (d_registros_por_tipo documento_crc_falho))"
    by (simp add: documento_crc_falho_def)
  have row: "linha_csv registro3_exemplo \<in> set (exportar_marcacoes_tipo3 documento_crc_falho)"
    using failed_checksum_keeps_record [where reg = registro3_exemplo
        and doc = documento_crc_falho] member by blast
  have g1: "grupo (agrupar_linha [] (linha_csv registro3_exemplo))
              (py_strip (m_cpf (linha_csv registro3_exemplo)), isoformat_date carimbo_exemplo)
            = grupo [] (py_strip (m_cpf (linha_csv registro3_exemplo)),
                        isoformat_date carimbo_exemplo) @ [carimbo_exemplo]"
    using failed_checksum_keeps_record [where row = "linha_csv registro3_exemplo"
        and t = carimbo_exemplo and g = "[]"] v by blast
  have g2: "carimbo_exemplo
     \<in> set (grupo (agrupar (exportar_marcacoes_tipo3 documento_crc_falho))
              (py_strip (m_cpf (linha_csv registro3_exemplo)), isoformat_date carimbo_exemplo))"
    using failed_checksum_keeps_record [where row = "linha_csv registro3_exemplo"
        and t = carimbo_exemplo and dados = "exportar_marcacoes_tipo3 documento_crc_falho"]
      v row by blast
  have e0: "grupo [] (''012345678901'', ''2025-07-16'') = []" by (simp add: grupo_def)
  have m: "map m_cpf [linha_csv registro3_exemplo] = map m_cpf [linha_csv registro3_conferido]"
    "map m_dh_marcacao [linha_csv registro3_exemplo]
       = map m_dh_marcacao [linha_csv registro3_conferido]"
    by (simp_all add: linha_csv_def registro3_exemplo_def registro3_conferido_def)
  have k: "r3_crc_ok registro3_exemplo = Some False" "\<not> r2_crc_ok registro2_exemplo"
    "\<not> r4_crc_ok registro4_exemplo" "\<not> r5_crc_ok registro5_exemplo"
    by (simp_all add: registro3_exemplo_def registro2_exemplo_def registro4_exemplo_def
        registro5_exemplo_def)
  have a2: "b2 (bucket (processar_linha (estado_inicial []) linha2_exemplo))
              = b2 (bucket (estado_inicial [])) @ [registro2_exemplo]"
    using failed_checksum_keeps_record [where line = linha2_exemplo
        and ?r2.0 = registro2_exemplo and st = "estado_inicial []"]
      exemplos_tipo(1) linha2_parse by blast
  have a3: "b3 (bucket (processar_linha (estado_inicial []) linha3_exemplo))
              = b3 (bucket (estado_inicial [])) @ [registro3_exemplo]"
    "c3 (crc_ok_por_tipo (processar_linha (estado_inicial []) linha3_exemplo))
              = c3 (crc_ok_por_tipo (estado_inicial [])) @ [False]"
    using failed_checksum_keeps_record [where line = linha3_exemplo
        and ?r3.0 = registro3_exemplo and ok = False and st = "estado_inicial []"]
      exemplos_tipo(2) t3 k(1) by blast+
  have a4: "b4 (bucket (processar_linha (estado_inicial []) linha4_exemplo))
              = b4 (bucket (estado_inicial [])) @ [registro4_exemplo]"
    using failed_checksum_keeps_record [where line = linha4_exemplo
        and ?r4.0 = registro4_exemplo and st = "estado_inicial []"]
      exemplos_tipo(3) linha4_parse by blast
  have a5: "b5 (bucket (processar_linha (estado_inicial []) linha5_exemplo))
              = b5 (bucket (estado_inicial [])) @ [registro5_exemplo]"
    using failed_checksum_keeps_record [where line = linha5_exemplo
        and ?r5.0 = registro5_exemplo and st = "estado_inicial []"]
      exemplos_tipo(4) linha5_parse by blast
  have g: "gerar_jornadas_por_cpf [linha_csv registro3_exemplo] 4 ''data_cpf''
     = gerar_jornadas_por_cpf [linha_csv registro3_conferido] 4 ''data_cpf''"
    using failed_checksum_keeps_record [where ds = "[linha_csv registro3_exemplo]"
        and ds' = "[linha_csv registro3_conferido]" and n = 4 and ordem = "''data_cpf''"] m
    by blast
  have e: "b2 (bucket (estado_inicial [])) = []" "b3 (bucket (estado_inicial [])) = []"
    "b4 (bucket (estado_inicial [])) = []" "b5 (bucket (estado_inicial [])) = []"
    "c3 (crc_ok_por_tipo (estado_inicial [])) = []"
    by (simp_all add: estado_inicial_def)
  have first: "linha2_exemplo ! 9 = CHR ''2'' \<and> parse_registro2 linha2_exemplo = Inr registro2_exemplo \<and>
   \<not> r2_crc_ok registro2_exemplo \<and>
   b2 (bucket (processar_linha (estado_inicial []) linha2_exemplo)) = [registro2_exemplo] \<and>
   linha3_exemplo ! 9 = CHR ''3'' \<and> tenta_registro3 linha3_exemplo = Inr registro3_exemplo \<and>
   r3_crc_ok registro3_exemplo = Some False \<and>
   b3 (bucket (processar_linha (estado_inicial []) linha3_exemplo)) = [registro3_exemplo] \<and>
   c3 (crc_ok_por_tipo (processar_linha (estado_inicial []) linha3_exemplo)) = [False] \<and>
   linha4_exemplo ! 9 = CHR ''4'' \<and> parse_registro4 linha4_exemplo = Inr registro4_exemplo \<and>
   \<not> r4_crc_ok registro4_exemplo \<and>
   b4 (bucket (processar_linha (estado_inicial []) linha4_exemplo)) = [registro4_exemplo] \<and>
   linha5_exemplo ! 9 = CHR ''5'' \<and> parse_registro5 linha5_exemplo = Inr registro5_exemplo \<and>
   \<not> r5_crc_ok registro5_exemplo \<and>
   b5 (bucket (processar_linha (estado_inicial []) linha5_exemplo)) = [registro5_exemplo]"
    unfolding a2 a3 a4 a5 e
    using exemplos_tipo linha2_parse linha4_parse linha5_parse t3 k by simp
  have g1': "grupo (agrupar_linha [] (linha_csv registro3_exemplo)) (''012345678901'', ''2025-07-16'')
     = [carimbo_exemplo]"
    using g1 unfolding x(1) x(4) e0 by simp
  have g2': "carimbo_exemplo
     \<in> set (grupo (agrupar (exportar_marcacoes_tipo3 documento_crc_falho))
              (''012345678901'', ''2025-07-16''))"
    using g2 unfolding x(1) x(4) .
  show ?thesis
    using first g linha3_exemplo_doc x(6) member row x(7) v(3) g1' g2' x(8) by blast
qed

section \<open>\<^verbatim>\<open>strptime\<close> on the time stamp of a compact line\<close>

lemma ascii_digit_set: "(c \<in> set ''0123456789'') = ascii_digit c"
proof (cases c)
  case (Char x1 x2 x3 x4 x5 x6 x7 x8)
  show ?thesis unfolding Char ascii_digit_def Let_def
    by (cases x1; cases x2; cases x3; cases x4; cases x5; cases x6; cases x7; cases x8) simp_all
qed

lemmas ascii_digit_disj = ascii_digit_set [simplified]

lemma py_isdigit_cases: "py_isdigit c = (c \<in> set isdigit_chars)"
proof (cases c)
  case (Char x1 x2 x3 x4 x5 x6 x7 x8)
  show ?thesis unfolding Char py_isdigit_def ascii_digit_def Let_def isdigit_chars_def
    by (cases x1; cases x2; cases x3; cases x4; cases x5; cases x6; cases x7; cases x8) simp_all
qed

lemma isdigit_not_literal:
  assumes "py_isdigit b"
  shows "b \<noteq> CHR ''-''" "b \<noteq> CHR ''T''" "b \<noteq> CHR ''t''" "b \<noteq> CHR '':''" "b \<noteq> CHR '' ''"
  using assms by (auto simp: py_isdigit_def ascii_digit_def)

lemma mes_enum:
  "\<forall>a \<in> set isdigit_chars. \<forall>b \<in> set isdigit_chars.
     ((a = CHR ''1'' \<and> b \<in> set ''012'') \<or> (a = CHR ''0'' \<and> b \<in> set ''123456789''))
       = dois_digitos a b 1 12"
  by code_simp

lemma dia_enum:
  "\<forall>a \<in> set isdigit_chars. \<forall>b \<in> set isdigit_chars.
     ((a = CHR ''3'' \<and> b \<in> set ''01'') \<or> (a \<in> set ''12'' \<and> b \<in> set ''0123456789'')
        \<or> (a = CHR ''0'' \<and> b \<in> set ''123456789''))
       = dois_digitos a b 1 31"
  by code_simp

lemma hora_enum:
  "\<forall>a \<in> set isdigit_chars. \<forall>b \<in> set isdigit_chars.
     ((a = CHR ''2'' \<and> b \<in> set ''0123'') \<or> (a \<in> set ''01'' \<and> b \<in> set ''0123456789''))
       = dois_digitos a b 0 23"
  by code_simp

lemma minuto_enum:
  "\<forall>a \<in> set isdigit_chars. \<forall>b \<in> set isdigit_chars.
     (a \<in> set ''012345'' \<and> b \<in> set ''0123456789'') = dois_digitos a b 0 59"
  by code_simp

lemma stage_ano:
  "rx_seq (rx_Y # Um ''-'' # rs) (a # b # c # e # CHR ''-'' # rest) =
     (if ascii_digit a \<and> ascii_digit b \<and> ascii_digit c \<and> ascii_digit e
      then map (\<lambda>(caps, fin). ([a, b, c, e] # ''-'' # caps, fin)) (rx_seq rs rest) else [])"
  by (auto simp: rx_Y_def rx_d_def ascii_digit_disj)

lemma stage_mes:
  assumes "py_isdigit a" "py_isdigit b"
  shows "rx_seq (rx_m # Um ''-'' # rs) (a # b # CHR ''-'' # rest) =
     (if dois_digitos a b 1 12
      then map (\<lambda>(caps, fin). ([a, b] # ''-'' # caps, fin)) (rx_seq rs rest) else [])"
proof -
  have "rx_seq (rx_m # Um ''-'' # rs) (a # b # CHR ''-'' # rest) =
     (if (a = CHR ''1'' \<and> b \<in> set ''012'') \<or> (a = CHR ''0'' \<and> b \<in> set ''123456789'')
      then map (\<lambda>(caps, fin). ([a, b] # ''-'' # caps, fin)) (rx_seq rs rest) else [])"
    using isdigit_not_literal [OF assms(2)] by (auto simp: rx_m_def)
  moreover have "((a = CHR ''1'' \<and> b \<in> set ''012'') \<or> (a = CHR ''0'' \<and> b \<in> set ''123456789''))
       = dois_digitos a b 1 12"
    using assms mes_enum unfolding py_isdigit_cases by blast
  ultimately show ?thesis by (simp only:)
qed

lemma stage_dia:
  assumes "py_isdigit a" "py_isdigit b"
  shows "rx_seq (rx_dia # Um ''Tt'' # rs) (a # b # CHR ''T'' # rest) =
     (if dois_digitos a b 1 31
      then map (\<lambda>(caps, fin). ([a, b] # ''T'' # caps, fin)) (rx_seq rs rest) else [])"
proof -
  have "rx_seq (rx_dia # Um ''Tt'' # rs) (a # b # CHR ''T'' # rest) =
     (if (a = CHR ''3'' \<and> b \<in> set ''01'') \<or> (a \<in> set ''12'' \<and> b \<in> set ''0123456789'')
        \<or> (a = CHR ''0'' \<and> b \<in> set ''123456789'')
      then map (\<lambda>(caps, fin). ([a, b] # ''T'' # caps, fin)) (rx_seq rs rest) else [])"
    using isdigit_not_literal [OF assms(2)] isdigit_not_literal [OF assms(1)]
    by (auto simp: rx_dia_def rx_d_def)
  moreover have "((a = CHR ''3'' \<and> b \<in> set ''01'') \<or> (a \<in> set ''12'' \<and> b \<in> set ''0123456789'')
        \<or> (a = CHR ''0'' \<and> b \<in> set ''123456789'')) = dois_digitos a b 1 31"
    using assms dia_enum unfolding py_isdigit_cases by blast
  ultimately show ?thesis by (simp only:)
qed

lemma stage_hora:
  assumes "py_isdigit a" "py_isdigit b"
  shows "rx_seq (rx_H # Um '':'' # rs) (a # b # CHR '':'' # rest) =
     (if dois_digitos a b 0 23
      then map (\<lambda>(caps, fin). ([a, b] # '':'' # caps, fin)) (rx_seq rs rest) else [])"
proof -
  have "rx_seq (rx_H # Um '':'' # rs) (a # b # CHR '':'' # rest) =
     (if (a = CHR ''2'' \<and> b \<in> set ''0123'') \<or> (a \<in> set ''01'' \<and> b \<in> set ''0123456789'')
      then map (\<lambda>(caps, fin). ([a, b] # '':'' # caps, fin)) (rx_seq rs rest) else [])"
    using isdigit_not_literal [OF assms(2)] by (auto simp: rx_H_def rx_d_def)
  moreover have "((a = CHR ''2'' \<and> b \<in> set ''0123'') \<or> (a \<in> set ''01'' \<and> b \<in> set ''0123456789''))
       = dois_digitos a b 0 23"
    using assms hora_enum unfolding py_isdigit_cases by blast
  ultimately show ?thesis by (simp only:)
qed

lemma rx_z_0300: "rx_match rx_z ''-0300'' = [(''-0300'', [])]"
  by code_simp

lemma stage_minuto:
  assumes "py_isdigit a" "py_isdigit b"
  shows "rx_seq [rx_M, Seq (Um '':'') (Seq (Um ''0'') (Um ''0'')), rx_z] (a # b # '':00-0300'') =
     (if dois_digitos a b 0 59 then [([ [a, b], '':00'', ''-0300''], [])] else [])"
proof -
  have "rx_seq [rx_M, Seq (Um '':'') (Seq (Um ''0'') (Um ''0'')), rx_z] (a # b # '':00-0300'') =
     (if a \<in> set ''012345'' \<and> b \<in> set ''0123456789''
      then [([ [a, b], '':00'', ''-0300''], [])] else [])"
    using isdigit_not_literal [OF assms(2)] rx_z_0300 by (auto simp: rx_M_def rx_d_def)
  moreover have "(a \<in> set ''012345'' \<and> b \<in> set ''0123456789'') = dois_digitos a b 0 59"
    using assms minuto_enum unfolding py_isdigit_cases by blast
  ultimately show ?thesis by (simp only:)
qed


lemma gmtoff_0300: "gmtoff_us ''-0300'' = Some (- 10800000000)"
  by code_simp

lemma rx_seq_compacto:
  assumes "list_all py_isdigit [y1, y2, y3, y4, m1, m2, d1, d2, h1, h2, n1, n2]"
  shows "rx_seq formato_dh
           (y1 # y2 # y3 # y4 # CHR ''-'' # m1 # m2 # CHR ''-'' # d1 # d2 # CHR ''T''
              # h1 # h2 # CHR '':'' # n1 # n2 # '':00-0300'')
         = (if ascii_digit y1 \<and> ascii_digit y2 \<and> ascii_digit y3 \<and> ascii_digit y4 \<and>
               dois_digitos m1 m2 1 12 \<and> dois_digitos d1 d2 1 31 \<and>
               dois_digitos h1 h2 0 23 \<and> dois_digitos n1 n2 0 59
            then [([ [y1, y2, y3, y4], ''-'', [m1, m2], ''-'', [d1, d2], ''T'', [h1, h2], '':'',
                    [n1, n2], '':00'', ''-0300''], [])]
            else [])"
proof -
  have d: "py_isdigit m1" "py_isdigit m2" "py_isdigit d1" "py_isdigit d2"
    "py_isdigit h1" "py_isdigit h2" "py_isdigit n1" "py_isdigit n2"
    using assms by simp_all
  note s5 = stage_minuto [OF d(7) d(8)]
  note s4 = stage_hora [OF d(5) d(6), where rest = "n1 # n2 # '':00-0300''"
      and rs = "[rx_M, Seq (Um '':'') (Seq (Um ''0'') (Um ''0'')), rx_z]"]
  note s3 = stage_dia [OF d(3) d(4), where rest = "h1 # h2 # CHR '':'' # n1 # n2 # '':00-0300''"
      and rs = "[rx_H, Um '':'', rx_M, Seq (Um '':'') (Seq (Um ''0'') (Um ''0'')), rx_z]"]
  note s2 = stage_mes [OF d(1) d(2),
      where rest = "d1 # d2 # CHR ''T'' # h1 # h2 # CHR '':'' # n1 # n2 # '':00-0300''"
      and rs = "[rx_dia, Um ''Tt'', rx_H, Um '':'', rx_M,
                 Seq (Um '':'') (Seq (Um ''0'') (Um ''0'')), rx_z]"]
  note s1 = stage_ano [where a = y1 and b = y2 and c = y3 and e = y4
      and rest = "m1 # m2 # CHR ''-'' # d1 # d2 # CHR ''T'' # h1 # h2 # CHR '':'' # n1 # n2
                    # '':00-0300''"
      and rs = "[rx_m, Um ''-'', rx_dia, Um ''Tt'', rx_H, Um '':'', rx_M,
                 Seq (Um '':'') (Seq (Um ''0'') (Um ''0'')), rx_z]"]
  show ?thesis
    unfolding formato_dh_def s1 s2 s3 s4 s5 by simp
qed

lemma days_in_month_le: "days_in_month y m \<le> 31"
  by (simp add: days_in_month_def)

lemma parse_iso_dh_compacto:
  assumes "list_all py_isdigit [y1, y2, y3, y4, m1, m2, d1, d2, h1, h2, n1, n2]"
  shows "parse_iso_dh
           (y1 # y2 # y3 # y4 # CHR ''-'' # m1 # m2 # CHR ''-'' # d1 # d2 # CHR ''T''
              # h1 # h2 # CHR '':'' # n1 # n2 # '':00-0300'')
         = (if data_hora_real [d1, d2, m1, m2, y1, y2, y3, y4] [h1, h2, n1, n2]
            then Some \<lparr> dt_year = decimal [y1, y2, y3, y4], dt_month = decimal [m1, m2],
                        dt_day = decimal [d1, d2], dt_hour = decimal [h1, h2],
                        dt_minute = decimal [n1, n2], dt_second = 0, dt_microsecond = 0,
                        dt_utcoffset = - 10800000000 \<rparr>
            else None)"
  unfolding parse_iso_dh_def rx_seq_compacto [OF assms]
  using days_in_month_le [of "decimal [y1, y2, y3, y4]" "decimal [m1, m2]"]
  by (auto simp: gmtoff_0300 data_hora_real_def dois_digitos_def substr_def Let_def)

section \<open>Compact lines that are no date of the calendar\<close>

lemma list_of_length_8:
  assumes "length d = 8"
  shows "d = [d ! 0, d ! 1, d ! 2, d ! 3, d ! 4, d ! 5, d ! 6, d ! 7]"
  using assms by (intro nth_equalityI) (auto simp: nth_Cons' less_Suc_eq numeral_eq_Suc)

lemma list_of_length_4:
  assumes "length h = 4"
  shows "h = [h ! 0, h ! 1, h ! 2, h ! 3]"
  using assms by (intro nth_equalityI) (auto simp: nth_Cons' less_Suc_eq numeral_eq_Suc)

lemma py_strip_id:
  assumes "s \<noteq> []" "\<not> py_isspace (hd s)" "\<not> py_isspace (last s)"
  shows "py_strip s = s"
proof -
  have 1: "dropWhile py_isspace s = s" using assms(1,2) by (cases s) auto
  obtain x xs where r: "rev s = x # xs" using assms(1) by (cases "rev s") auto
  have "x = last s" using r assms(1) by (metis hd_rev list.sel(1))
  then have "\<not> py_isspace x" using assms(3) by simp
  then have 2: "dropWhile py_isspace (rev s) = rev s" unfolding r by simp
  show ?thesis by (simp add: py_strip_def py_lstrip_def py_rstrip_def 1 2)
qed

lemma isdigit_not_isspace: "py_isdigit c \<Longrightarrow> \<not> py_isspace c"
  by (auto simp: py_isdigit_def ascii_digit_def py_isspace_def Let_def)

lemma parse_iso_dh_janelas:
  assumes "length d = 8" "is_digits d" "length h = 4" "is_digits h"
  shows "parse_iso_dh (py_strip (substr d 4 8 @ ''-'' @ substr d 2 4 @ ''-'' @ substr d 0 2 @ ''T''
                         @ substr h 0 2 @ '':'' @ substr h 2 4 @ '':00-0300''))
           = None \<longleftrightarrow> \<not> data_hora_real d h"
proof -
  obtain d1 d2 m1 m2 y1 y2 y3 y4 where d: "d = [d1, d2, m1, m2, y1, y2, y3, y4]"
    using list_of_length_8 [OF assms(1)] by blast
  obtain h1 h2 n1 n2 where h: "h = [h1, h2, n1, n2]"
    using list_of_length_4 [OF assms(3)] by blast
  have dig: "list_all py_isdigit [y1, y2, y3, y4, m1, m2, d1, d2, h1, h2, n1, n2]"
    using assms(2,4) by (simp add: is_digits_def d h)
  have s: "substr d 4 8 @ ''-'' @ substr d 2 4 @ ''-'' @ substr d 0 2 @ ''T''
             @ substr h 0 2 @ '':'' @ substr h 2 4 @ '':00-0300''
           = y1 # y2 # y3 # y4 # CHR ''-'' # m1 # m2 # CHR ''-'' # d1 # d2 # CHR ''T''
               # h1 # h2 # CHR '':'' # n1 # n2 # '':00-0300''"
    by (simp add: d h substr_def)
  have "\<not> py_isspace y1" using dig by (simp add: isdigit_not_isspace)
  moreover have "\<not> py_isspace (CHR ''0'')" by (simp add: py_isspace_def)
  ultimately have t: "py_strip (y1 # y2 # y3 # y4 # CHR ''-'' # m1 # m2 # CHR ''-'' # d1 # d2
               # CHR ''T'' # h1 # h2 # CHR '':'' # n1 # n2 # '':00-0300'')
           = y1 # y2 # y3 # y4 # CHR ''-'' # m1 # m2 # CHR ''-'' # d1 # d2 # CHR ''T''
               # h1 # h2 # CHR '':'' # n1 # n2 # '':00-0300''"
    by (intro py_strip_id) simp_all
  show ?thesis
    unfolding s t parse_iso_dh_compacto [OF dig] by (simp add: d h)
qed

lemma agrupar_linha_sem_data:
  "parse_iso_dh (py_strip (m_dh_marcacao row)) = None \<Longrightarrow> agrupar_linha g row = g"
  by (simp add: agrupar_linha_def Let_def)

lemma gerar_jornadas_sem_linha:
  assumes "parse_iso_dh (py_strip (m_dh_marcacao row)) = None"
  shows "gerar_jornadas_por_cpf (pre @ row # suf) k ordem = gerar_jornadas_por_cpf (pre @ suf) k ordem"
  using agrupar_linha_sem_data [OF assms]
  by (simp add: gerar_jornadas_por_cpf_def agrupar_def)

lemma linha3_invalida_campos:
  "linha3_invalida ! 9 = CHR ''3''"
  "length linha3_invalida = 34"
  "py_int (substr linha3_invalida 0 9) = Some 2"
  "is_digits (substr linha3_invalida 10 18)"
  "is_digits (substr linha3_invalida 18 22)"
  "substr linha3_invalida 10 18 = ''31132025''"
  "substr linha3_invalida 18 22 = ''9961''"
  "parse_registro3_compacto linha3_invalida
     = Inr (registro3_compacto 2 ''2025-13-31T99:61:00-0300'')"
  "\<not> data_hora_real ''31132025'' ''9961''"
  "is_digits ''31132025''" "is_digits ''9961''"
  by code_simp+

text \<open>
  C10.  The compact parser checks the length of the line and that the date window and the
  time window are digits, nothing else: every line of 34 characters or more with such
  windows (and an NSR that \<^verbatim>\<open>int()\<close> reads) parses, the official parser having refused
  it, and in the loop it is appended to the list of type 3.  When the windows do not denote
  a date of the calendar and a time of the day, \<^verbatim>\<open>strptime\<close> refuses the synthesized time
  stamp, and the row of the record changes nothing in the summary: the journeys are those of
  the other rows.
\<close>

theorem compact_calendar_not_validated:
  fixes st :: estado
  assumes "34 \<le> length line" "py_int (substr line 0 9) = Some n"
    "is_digits (substr line 10 18)" "is_digits (substr line 18 22)"
  shows "\<exists>r. parse_registro3_compacto line = Inr r \<and> tenta_registro3 line = Inr r \<and>
     r3_dh_marcacao r =
       substr (substr line 10 18) 4 8 @ ''-'' @ substr (substr line 10 18) 2 4 @ ''-''
         @ substr (substr line 10 18) 0 2 @ ''T''
         @ substr (substr line 18 22) 0 2 @ '':'' @ substr (substr line 18 22) 2 4
         @ '':00-0300'' \<and>
     (line ! 9 = CHR ''3'' \<longrightarrow> b3 (bucket (processar_linha st line)) = b3 (bucket st) @ [r]) \<and>
     (data_hora_real (substr line 10 18) (substr line 18 22) \<longrightarrow>
        parse_iso_dh (py_strip (r3_dh_marcacao r)) \<noteq> None) \<and>
     (\<not> data_hora_real (substr line 10 18) (substr line 18 22) \<longrightarrow>
        parse_iso_dh (py_strip (r3_dh_marcacao r)) = None \<and>
        agrupar_linha g (linha_csv r) = g \<and>
        gerar_jornadas_por_cpf (pre @ linha_csv r # suf) k ordem
          = gerar_jornadas_por_cpf (pre @ suf) k ordem)"
proof -
  let ?d = "substr line 10 18" and ?h = "substr line 18 22"
  let ?dh = "substr ?d 4 8 @ ''-'' @ substr ?d 2 4 @ ''-'' @ substr ?d 0 2 @ ''T''
               @ substr ?h 0 2 @ '':'' @ substr ?h 2 4 @ '':00-0300''"
  let ?r = "\<lparr> r3_nsr = n, r3_tipo = [line ! 9], r3_dh_marcacao = ?dh,
              r3_cpf = py_strip (substr line 22 34),
              r3_crc16 = None, r3_crc_ok = None, r3_formato = ''compacto'' \<rparr>"
  have p: "parse_registro3_compacto line = Inr ?r"
    by (rule parse_registro3_compacto_ok [OF assms])
  have t: "tenta_registro3 line = Inr ?r"
    using tenta_registro3_compacto [OF assms] p by simp
  have l: "length ?d = 8" "length ?h = 4" using assms(1) by (simp_all add: substr_def)
  have iff: "parse_iso_dh (py_strip ?dh) = None \<longleftrightarrow> \<not> data_hora_real ?d ?h"
    by (rule parse_iso_dh_janelas [OF l(1) assms(3) l(2) assms(4)])
  have m: "m_dh_marcacao (linha_csv ?r) = ?dh" by (simp add: linha_csv_def)
  have b: "line ! 9 = CHR ''3'' \<longrightarrow> b3 (bucket (processar_linha st line)) = b3 (bucket st) @ [?r]"
    using t by (simp add: processar_linha_tipo3)
  have x: "\<not> data_hora_real ?d ?h \<longrightarrow>
        parse_iso_dh (py_strip (r3_dh_marcacao ?r)) = None \<and>
        agrupar_linha g (linha_csv ?r) = g \<and>
        gerar_jornadas_por_cpf (pre @ linha_csv ?r # suf) k ordem
          = gerar_jornadas_por_cpf (pre @ suf) k ordem"
    using iff agrupar_linha_sem_data [of "linha_csv ?r" g]
      gerar_jornadas_sem_linha [of "linha_csv ?r" pre suf k ordem]
    unfolding m by simp
  have y: "data_hora_real ?d ?h \<longrightarrow> parse_iso_dh (py_strip (r3_dh_marcacao ?r)) \<noteq> None"
    using iff by simp
  show ?thesis
    using p t b x y by (intro exI [of _ ?r]) simp
qed

theorem compact_calendar_not_validated_witness:
  "34 \<le> length linha3_invalida \<and> py_int (substr linha3_invalida 0 9) = Some 2 \<and>
   is_digits (substr linha3_invalida 10 18) \<and> is_digits (substr linha3_invalida 18 22) \<and>
   linha3_invalida ! 9 = CHR ''3'' \<and>
   \<not> data_hora_real (substr linha3_invalida 10 18) (substr linha3_invalida 18 22) \<and>
   parse_registro3_compacto linha3_invalida
     = Inr (registro3_compacto 2 ''2025-13-31T99:61:00-0300'') \<and>
   b3 (bucket (processar_linha (estado_inicial []) linha3_invalida))
     = [registro3_compacto 2 ''2025-13-31T99:61:00-0300''] \<and>
   parse_iso_dh (py_strip ''2025-13-31T99:61:00-0300'') = None \<and>
   gerar_jornadas_por_cpf [linha_csv (registro3_compacto 2 ''2025-13-31T99:61:00-0300'')] 4 ''data_cpf''
     = gerar_jornadas_por_cpf [] 4 ''data_cpf''"
proof -
  have a: "34 \<le> length linha3_invalida" by (simp add: linha3_invalida_campos)
  obtain r where
    r: "parse_registro3_compacto linha3_invalida = Inr r" and
    b: "linha3_invalida ! 9 = CHR ''3'' \<longrightarrow>
          b3 (bucket (processar_linha (estado_inicial []) linha3_invalida))
            = b3 (bucket (estado_inicial [])) @ [r]" and
    x: "\<not> data_hora_real (substr linha3_invalida 10 18) (substr linha3_invalida 18 22) \<longrightarrow>
          parse_iso_dh (py_strip (r3_dh_marcacao r)) = None \<and>
          gerar_jornadas_por_cpf ([] @ linha_csv r # []) 4 ''data_cpf''
            = gerar_jornadas_por_cpf ([] @ []) 4 ''data_cpf''"
    using compact_calendar_not_validated [OF a linha3_invalida_campos(3,4,5),
        where st = "estado_inicial []" and pre = "[]" and suf = "[]" and k = 4
          and ordem = "''data_cpf''"]
    by blast
  have e: "r = registro3_compacto 2 ''2025-13-31T99:61:00-0300''"
    using r linha3_invalida_campos(8) by simp
  have d: "r3_dh_marcacao (registro3_compacto 2 ''2025-13-31T99:61:00-0300'')
             = ''2025-13-31T99:61:00-0300''"
    by (simp add: registro3_compacto_def)
  have i: "b3 (bucket (estado_inicial [])) = []" by (simp add: estado_inicial_def)
  show ?thesis
    using b x unfolding e d i
    by (simp add: linha3_invalida_campos)
qed

section \<open>Mutations of a verified line\<close>

lemma parse_registro3_oficial_unfold:
  "parse_registro3_oficial line =
     (if length line < 50 then Inl (Tamanho ''Tipo 3 (oficial)'' (length line) 50)
      else case py_int (substr line 0 9) of
             None \<Rightarrow> Inl (IntInvalido (substr line 0 9))
           | Some n \<Rightarrow>
               if \<not> is_iso_dh (substr line 10 34) then Inl (DHInvalido (substr line 10 34))
               else Inr \<lparr> r3_nsr = n, r3_tipo = substr line 9 10,
                          r3_dh_marcacao = substr line 10 34,
                          r3_cpf = py_strip (substr line 34 46),
                          r3_crc16 = Some (py_upper (substr line 46 50)),
                          r3_crc_ok = Some (py_upper (substr line 46 50)
                            = ustr (fmt_04X (crc16_ibm_arc (encode_latin1 (take 46 line @ drop 50 line))))),
                          r3_formato = ''oficial'' \<rparr>)"
proof -
  have s: "slice_afd line 1 9 = substr line 0 9" "slice_afd line 10 10 = substr line 9 10"
    "slice_afd line 11 34 = substr line 10 34" "slice_afd line 35 46 = substr line 34 46"
    "slice_afd line 47 50 = substr line 46 50"
    using slice_afd_cols [of line 0 9] slice_afd_cols [of line 9 10]
      slice_afd_cols [of line 10 34] slice_afd_cols [of line 34 46]
      slice_afd_cols [of line 46 50] by simp_all
  have h: "crc16_hex4_for_line line (47, 50)
             = fmt_04X (crc16_ibm_arc (encode_latin1 (take 46 line @ drop 50 line)))"
    using hex4_excised [of line 46 50] by simp
  show ?thesis
    unfolding parse_registro3_oficial_def s h and_then_def to_int_def Let_def
    by (simp split: option.splits)
qed

lemma excised_update_before:
  assumes "i < a" "a \<le> b" "b \<le> length xs"
  shows "take a (xs[i := c]) @ drop b (xs[i := c]) = (take a xs @ drop b xs)[i := c]"
    and "(take a xs @ drop b xs) ! i = xs ! i" and "i < length (take a xs @ drop b xs)"
proof -
  have l: "length (take a xs) = a" using assms by simp
  have "take a (xs[i := c]) = (take a xs)[i := c]"
    using assms(1) by (simp add: take_update_swap)
  moreover have "drop b (xs[i := c]) = drop b xs"
    using assms(1,2) by (simp add: drop_update_cancel)
  ultimately show "take a (xs[i := c]) @ drop b (xs[i := c]) = (take a xs @ drop b xs)[i := c]"
    using assms(1) l by (simp add: list_update_append)
  show "(take a xs @ drop b xs) ! i = xs ! i" using assms(1) l by (simp add: nth_append)
  show "i < length (take a xs @ drop b xs)" using assms(1) l by simp
qed

lemma excised_update_after:
  assumes "b \<le> i" "a \<le> b" "i < length xs"
  shows "take a (xs[i := c]) @ drop b (xs[i := c]) = (take a xs @ drop b xs)[a + (i - b) := c]"
    and "(take a xs @ drop b xs) ! (a + (i - b)) = xs ! i"
    and "a + (i - b) < length (take a xs @ drop b xs)"
proof -
  have l: "length (take a xs) = a" using assms by simp
  have 1: "take a (xs[i := c]) = take a xs"
    using assms(1,2) by (simp add: take_update_cancel)
  have 2: "drop b (xs[i := c]) = (drop b xs)[i - b := c]"
    using assms(1) by (simp add: drop_update_swap)
  have 3: "(take a xs @ ys)[a + k := c] = take a xs @ ys[k := c]" for ys k
    unfolding list_update_append l by simp
  show "take a (xs[i := c]) @ drop b (xs[i := c]) = (take a xs @ drop b xs)[a + (i - b) := c]"
    unfolding 1 2 3 ..
  have "(take a xs @ drop b xs) ! (a + (i - b)) = drop b xs ! (i - b)"
    unfolding nth_append l by simp
  then show "(take a xs @ drop b xs) ! (a + (i - b)) = xs ! i"
    using assms(1,3) by simp
  show "a + (i - b) < length (take a xs @ drop b xs)"
    using assms l by simp
qed

lemma excised_crc_changes:
  assumes "i < length line" "i < 46 \<or> 50 \<le> i" "c \<noteq> line ! i" "50 \<le> length line"
  shows "crc16_ibm_arc (encode_latin1 (take 46 (line[i := c]) @ drop 50 (line[i := c])))
           \<noteq> crc16_ibm_arc (encode_latin1 (take 46 line @ drop 50 line))"
proof (cases "i < 46")
  case True
  have le: "(46::nat) \<le> 50" by simp
  note u = excised_update_before [OF True le assms(4)]
  show ?thesis
    unfolding u(1)
    using crc16_list_update [OF u(3), of c] assms(3) unfolding u(2) by simp
next
  case False
  then have ge: "50 \<le> i" using assms(2) by simp
  have le: "(46::nat) \<le> 50" by simp
  note u = excised_update_after [OF ge le assms(1)]
  show ?thesis
    unfolding u(1)
    using crc16_list_update [OF u(3), of c] assms(3) unfolding u(2) by simp
qed

lemma hex_of_crc_inj:
  "ustr (fmt_04X (crc16_ibm_arc xs)) = ustr (fmt_04X (crc16_ibm_arc ys))
     \<Longrightarrow> crc16_ibm_arc xs = crc16_ibm_arc ys"
  using crc16_range [of xs] crc16_range [of ys] by (auto dest!: ustr_inj intro: fmt_04X_inj)

lemma substr_update_outside:
  assumes "i < a \<or> b \<le> i"
  shows "substr (xs[i := c]) a b = substr xs a b"
proof (cases "i < a")
  case True
  then show ?thesis by (simp add: substr_def drop_update_cancel)
next
  case False
  then have "b \<le> i" "a \<le> i" using assms by simp_all
  then show ?thesis by (simp add: substr_def drop_update_swap take_update_cancel)
qed

lemma field_replaced:
  assumes "50 \<le> length line" "length f = 4"
  shows "length (take 46 line @ f @ drop 50 line) = length line"
    and "substr (take 46 line @ f @ drop 50 line) 46 50 = f"
    and "take 46 (take 46 line @ f @ drop 50 line) @ drop 50 (take 46 line @ f @ drop 50 line)
           = take 46 line @ drop 50 line"
    and "b \<le> 46 \<Longrightarrow> substr (take 46 line @ f @ drop 50 line) a b = substr line a b"
proof -
  have l: "length (take 46 line) = 46" using assms(1) by simp
  show "length (take 46 line @ f @ drop 50 line) = length line"
    using assms by simp
  show "substr (take 46 line @ f @ drop 50 line) 46 50 = f"
    using assms l by (simp add: substr_def)
  show "take 46 (take 46 line @ f @ drop 50 line) @ drop 50 (take 46 line @ f @ drop 50 line)
           = take 46 line @ drop 50 line"
    using assms l by simp
  show "substr (take 46 line @ f @ drop 50 line) a b = substr line a b" if b: "b \<le> 46"
  proof (cases "b \<le> a")
    case True
    then show ?thesis by (simp add: substr_def)
  next
    case False
    then have ab: "a < b" by simp
    have k: "b - a \<le> length (drop a (take 46 line))" using l b ab by simp
    have "take (b - a) (drop a (take 46 line @ f @ drop 50 line))
            = take (b - a) (drop a (take 46 line))"
      using k l b ab by simp
    also have "\<dots> = take (b - a) (take (46 - a) (drop a line))"
      by (simp add: drop_take)
    also have "\<dots> = take (b - a) (drop a line)"
      using b by (simp add: min_def)
    finally show ?thesis by (simp add: substr_def)
  qed
qed

text \<open>
  C6, as the code has it.  Let an official type-3 line parse with \<open>crc_ok\<close> true.  With any
  one character outside the checksum field (columns 47 to 50) changed to another, the
  comparison of the checksum is false, so that the changed line, if the official parser
  still accepts it, has \<open>crc_ok\<close> false.  With the field alone replaced by four characters
  whose upper-case text differs from the upper-case text of the field, the line parses with
  \<open>crc_ok\<close> false; with four characters that differ from the field in letter case only,
  it parses as before, with \<open>crc_ok\<close> true.  Putting a changed character back gives the
  line that was verified.
\<close>

theorem checksum_detects_mutations:
  assumes "parse_registro3_oficial line = Inr r" "r3_crc_ok r = Some True"
  shows
    "(i < length line \<and> (i < 46 \<or> 50 \<le> i) \<and> c \<noteq> line ! i \<longrightarrow>
        py_upper (slice_afd (line[i := c]) 47 50)
          \<noteq> ustr (crc16_hex4_for_line (line[i := c]) (47, 50)) \<and>
        (\<forall>r'. parse_registro3_oficial (line[i := c]) = Inr r' \<longrightarrow> r3_crc_ok r' = Some False)) \<and>
     (length f = 4 \<and> py_upper f \<noteq> py_upper (slice_afd line 47 50) \<longrightarrow>
        parse_registro3_oficial (take 46 line @ f @ drop 50 line)
          = Inr (r\<lparr>r3_crc16 := Some (py_upper f), r3_crc_ok := Some False\<rparr>)) \<and>
     (length f = 4 \<and> py_upper f = py_upper (slice_afd line 47 50) \<longrightarrow>
        parse_registro3_oficial (take 46 line @ f @ drop 50 line) = Inr r) \<and>
     parse_registro3_oficial ((line[i := c])[i := line ! i]) = Inr r \<and>
     (length f = 4 \<longrightarrow>
        take 46 (take 46 line @ f @ drop 50 line) @ slice_afd line 47 50
          @ drop 50 (take 46 line @ f @ drop 50 line) = line)"
proof -
  have len: "50 \<le> length line"
    using assms(1) by (simp add: parse_registro3_oficial_unfold split: if_splits)
  have ok: "py_upper (substr line 46 50)
              = ustr (fmt_04X (crc16_ibm_arc (encode_latin1 (take 46 line @ drop 50 line))))"
    using assms by (auto simp: parse_registro3_oficial_unfold split: if_splits option.splits)
  have s: "slice_afd xs 47 50 = substr xs 46 50" for xs
    using slice_afd_cols [of xs 46 50] by simp
  have h: "crc16_hex4_for_line xs (47, 50)
             = fmt_04X (crc16_ibm_arc (encode_latin1 (take 46 xs @ drop 50 xs)))" for xs
    using hex4_excised [of xs 46 50] by simp
  have a: "py_upper (slice_afd (line[i := c]) 47 50)
             \<noteq> ustr (crc16_hex4_for_line (line[i := c]) (47, 50))"
    if m: "i < length line \<and> (i < 46 \<or> 50 \<le> i) \<and> c \<noteq> line ! i"
  proof
    assume e: "py_upper (slice_afd (line[i := c]) 47 50)
                 = ustr (crc16_hex4_for_line (line[i := c]) (47, 50))"
    have "substr (line[i := c]) 46 50 = substr line 46 50"
      using m by (intro substr_update_outside) simp
    then have "ustr (fmt_04X (crc16_ibm_arc (encode_latin1 (take 46 (line[i := c]) @ drop 50 (line[i := c])))))
                 = ustr (fmt_04X (crc16_ibm_arc (encode_latin1 (take 46 line @ drop 50 line))))"
      using e ok unfolding s h by simp
    then have "crc16_ibm_arc (encode_latin1 (take 46 (line[i := c]) @ drop 50 (line[i := c])))
                 = crc16_ibm_arc (encode_latin1 (take 46 line @ drop 50 line))"
      by (rule hex_of_crc_inj)
    then show False using excised_crc_changes [of i line c] m len by simp
  qed
  have a': "\<forall>r'. parse_registro3_oficial (line[i := c]) = Inr r' \<longrightarrow> r3_crc_ok r' = Some False"
    if m: "i < length line \<and> (i < 46 \<or> 50 \<le> i) \<and> c \<noteq> line ! i"
    using a [OF m] parse_registro3_oficial_crc [of "line[i := c]"] by auto
  have p: "parse_registro3_oficial (take 46 line @ f @ drop 50 line)
             = Inr (r\<lparr>r3_crc16 := Some (py_upper f),
                      r3_crc_ok := Some (py_upper f = py_upper (substr line 46 50))\<rparr>)"
    if l: "length f = 4"
  proof -
    note fr = field_replaced [OF len l]
    show ?thesis
      using assms(1) ok
      unfolding parse_registro3_oficial_unfold [of "take 46 line @ f @ drop 50 line"]
        parse_registro3_oficial_unfold [of line] fr(1) fr(2) fr(3)
      by (auto simp: fr(4) split: if_splits option.splits)
  qed
  have r: "r\<lparr>r3_crc16 := Some (py_upper (substr line 46 50)), r3_crc_ok := Some True\<rparr> = r"
    using assms by (auto simp: parse_registro3_oficial_unfold split: if_splits option.splits)
  have restore: "take 46 (take 46 line @ f @ drop 50 line) @ slice_afd line 47 50
       @ drop 50 (take 46 line @ f @ drop 50 line) = line" if l: "length f = 4"
  proof -
    have "take 4 (drop 46 line) @ drop 4 (drop 46 line) = drop 46 line"
      by (rule append_take_drop_id)
    then have "take 46 line @ substr line 46 50 @ drop 50 line = take 46 line @ drop 46 line"
      by (simp add: substr_def)
    then have "take 46 line @ substr line 46 50 @ drop 50 line = line" by simp
    then show ?thesis using len l unfolding s by (simp add: min_def)
  qed
  show ?thesis
    using a a' p r restore unfolding s
    by (auto simp: list_update_id assms(1))
qed


lemma linha3_alterada_campos:
  "linha3_maiuscula[8 := CHR ''4''] = linha3_alterada"
  "linha3_alterada[8 := CHR ''3''] = linha3_maiuscula"
  "linha3_maiuscula ! 8 = CHR ''3''"
  "length linha3_maiuscula = 50"
  "length linha3_alterada = 50"
  "py_int (substr linha3_alterada 0 9) = Some 4"
  "substr linha3_alterada 9 10 = ''3''"
  "substr linha3_alterada 10 34 = ''2025-07-16T18:22:00-0300''"
  "py_strip (substr linha3_alterada 34 46) = ''012345678901''"
  "py_upper (substr linha3_alterada 46 50) = ustr ''1E89''"
  "is_iso_dh ''2025-07-16T18:22:00-0300''"
  by code_simp+

lemma linha3_campo_trocado:
  "take 46 linha3_maiuscula @ ''0000'' @ drop 50 linha3_maiuscula = linha3_exemplo"
  "take 46 linha3_maiuscula @ ''1e89'' @ drop 50 linha3_maiuscula = linha3_minuscula"
  "slice_afd linha3_maiuscula 47 50 = ''1E89''"
  "py_upper ''1E89'' = ustr ''1E89''"
  "py_upper ''1e89'' = ustr ''1E89''"
  "py_upper ''0000'' = ustr ''0000''"
  "ustr ''0000'' \<noteq> ustr ''1E89''"
  "list_all is_hex_digit ''1e89''"
  "length ''1e89'' = 4"
  by code_simp+

theorem checksum_detects_mutations_witness:
  "parse_registro3_oficial linha3_maiuscula = Inr registro3_conferido \<and>
   r3_crc_ok registro3_conferido = Some True \<and>
   linha3_maiuscula[8 := CHR ''4''] = linha3_alterada \<and>
   parse_registro3_oficial linha3_alterada
     = Inr (registro3_conferido\<lparr>r3_nsr := 4, r3_crc_ok := Some False\<rparr>) \<and>
   take 46 linha3_maiuscula @ ''0000'' @ drop 50 linha3_maiuscula = linha3_exemplo \<and>
   parse_registro3_oficial linha3_exemplo
     = Inr (registro3_conferido\<lparr>r3_crc16 := Some (ustr ''0000''), r3_crc_ok := Some False\<rparr>) \<and>
   take 46 linha3_maiuscula @ ''1e89'' @ drop 50 linha3_maiuscula = linha3_minuscula \<and>
   parse_registro3_oficial linha3_minuscula = Inr registro3_conferido \<and>
   parse_registro3_oficial (linha3_alterada[8 := CHR ''3'']) = Inr registro3_conferido"
proof -
  have ok: "r3_crc_ok registro3_conferido = Some True"
    by (simp add: registro3_conferido_def)
  note t = checksum_detects_mutations [OF linha3_maiuscula_parse ok]
  note c = linha3_alterada_campos
  note d = linha3_campo_trocado
  have "\<forall>r'. parse_registro3_oficial linha3_alterada = Inr r' \<longrightarrow> r3_crc_ok r' = Some False"
    using t [where i = 8 and c = "CHR ''4''" and f = "''0000''"] unfolding c(1,3,4) by (simp add: c)
  then have 1: "parse_registro3_oficial linha3_alterada
     = Inr (registro3_conferido\<lparr>r3_nsr := 4, r3_crc_ok := Some False\<rparr>)"
    unfolding parse_registro3_oficial_unfold [of linha3_alterada] c
    by (simp add: registro3_conferido_def c(11))
  have 2: "parse_registro3_oficial linha3_exemplo
     = Inr (registro3_conferido\<lparr>r3_crc16 := Some (ustr ''0000''), r3_crc_ok := Some False\<rparr>)"
    using t [where i = 8 and c = "CHR ''4''" and f = "''0000''"] unfolding d by (simp add: d)
  have 3: "parse_registro3_oficial linha3_minuscula = Inr registro3_conferido"
    using t [where i = 8 and c = "CHR ''4''" and f = "''1e89''"] unfolding d by (simp add: d)
  have 4: "parse_registro3_oficial (linha3_alterada[8 := CHR ''3'']) = Inr registro3_conferido"
    using t [where i = 8 and c = "CHR ''4''" and f = "''0000''"] unfolding c(1,3) by (simp add: c)
  show ?thesis
    using linha3_maiuscula_parse ok c(1) 1 d(1) 2 d(2) 3 4 by simp
qed

text \<open>
  The claim C6 as it is written fails on the example line: its checksum field \<open>1E89\<close>
  replaced by \<open>1e89\<close>, another string of four hexadecimal digits, gives a line that the
  parser verifies as before.  And with its first character changed from \<open>0\<close> to \<open>x\<close> the
  parser rejects the line, so that no \<open>crc_ok\<close> is computed.
\<close>

theorem checksum_detects_mutations_counterexample:
  "parse_registro3_oficial linha3_maiuscula = Inr registro3_conferido \<and>
   r3_crc_ok registro3_conferido = Some True \<and>
   slice_afd linha3_maiuscula 47 50 = ''1E89'' \<and>
   list_all is_hex_digit ''1e89'' \<and> length ''1e89'' = 4 \<and> ''1e89'' \<noteq> ''1E89'' \<and>
   take 46 linha3_maiuscula @ ''1e89'' @ drop 50 linha3_maiuscula = linha3_minuscula \<and>
   drop 50 linha3_maiuscula = [] \<and>
   parse_registro3_oficial linha3_minuscula = Inr registro3_conferido \<and>
   linha3_maiuscula ! 0 = CHR ''0'' \<and>
   parse_registro3_oficial (linha3_maiuscula[0 := CHR ''x'']) = Inl (IntInvalido ''x00000003'')"
proof -
  have "''1e89'' \<noteq> ''1E89''" "drop 50 linha3_maiuscula = []" "linha3_maiuscula ! 0 = CHR ''0''"
    by code_simp+
  moreover have "length (linha3_maiuscula[0 := CHR ''x'']) = 50"
    "substr (linha3_maiuscula[0 := CHR ''x'']) 0 9 = ''x00000003''"
    "py_int ''x00000003'' = None"
    by code_simp+
  then have "parse_registro3_oficial (linha3_maiuscula[0 := CHR ''x''])
               = Inl (IntInvalido ''x00000003'')"
    unfolding parse_registro3_oficial_unfold [of "linha3_maiuscula[0 := CHR ''x'']"] by simp
  ultimately show ?thesis
    using linha3_maiuscula_parse linha3_minuscula_parse linha3_campo_trocado
    by (simp add: registro3_conferido_def)
qed

section \<open>Hard errors of the interpreter\<close>

text \<open>
  The first loop fails only at a line of ten characters or more whose first nine pass
  \<^verbatim>\<open>isdigit\<close> and are refused by \<^verbatim>\<open>int\<close>.
\<close>

lemma classificar_Inl:
  "classificar lns errs regs = Inl e \<Longrightarrow>
     \<exists>ln \<in> set lns. 10 \<le> length ln \<and> is_digits (substr ln 0 9) \<and>
       py_int (substr ln 0 9) = None \<and> e = NsrInvalido (substr ln 0 9)"
proof (induction lns errs regs rule: classificar.induct)
  case (1 errs regs)
  then show ?case by simp
next
  case (2 ln lns errs regs)
  show ?case
  proof (cases "length ln < 10 \<or> \<not> is_digits (substr ln 0 9)")
    case True
    then show ?thesis using 2 by auto
  next
    case False
    show ?thesis
    proof (cases "py_int (substr ln 0 9)")
      case None
      then show ?thesis using False "2.prems" by auto
    next
      case (Some n)
      then show ?thesis using "2.IH"(2) [OF False Some] "2.prems" False by auto
    qed
  qed
qed

lemma classificar_ascii:
  assumes "\<forall>ln \<in> set lns. is_digits (substr ln 0 9) \<longrightarrow> list_all ascii_digit (substr ln 0 9)"
  shows "\<exists>r. classificar lns errs regs = Inr r"
proof (cases "classificar lns errs regs")
  case (Inl e)
  then obtain ln where ln: "ln \<in> set lns" "is_digits (substr ln 0 9)"
      "py_int (substr ln 0 9) = None"
    using classificar_Inl by blast
  have "list_all ascii_digit (substr ln 0 9)" "substr ln 0 9 \<noteq> []"
    using assms ln(1,2) by (auto simp: is_digits_def)
  then show ?thesis using py_int_ascii ln(3) by fastforce
next
  case (Inr r)
  then show ?thesis by blast
qed

text \<open>The three ways in which the interpreter raises, and the bound on the diagnostics.\<close>

lemma interpretar_afd_Inl:
  "interpretar_afd raw = Inl e \<longleftrightarrow>
     split_lines raw = [] \<and> e = ArquivoVazio \<or>
     split_lines raw \<noteq> [] \<and> classificar (split_lines raw) [] [] = Inl e \<or>
     (\<exists>errs registros.
        split_lines raw \<noteq> [] \<and>
        classificar (split_lines raw) [] [] = Inr (errs, registros) \<and>
        \<not> any_bucket (bucket (foldl processar_linha (estado_inicial errs) (map snd registros))) \<and>
        header (foldl processar_linha (estado_inicial errs) (map snd registros)) = None \<and>
        trailer (foldl processar_linha (estado_inicial errs) (map snd registros)) = None \<and>
        e = NenhumRegistro
              (take 3 (erros (foldl processar_linha (estado_inicial errs) (map snd registros)))))"
  unfolding interpretar_afd_def read_text_afd_def Let_def
  by (auto split: if_splits sum.splits prod.splits)

lemma interpretar_afd_erros_cap:
  "interpretar_afd raw = Inr doc \<Longrightarrow> length (v_erros (d_validacoes doc)) \<le> 200"
  using interpretar_afd_Inr [of raw doc] by auto

lemma interpretar_afd_ascii:
  assumes "\<forall>ln \<in> set (split_lines raw).
             is_digits (substr ln 0 9) \<longrightarrow> list_all ascii_digit (substr ln 0 9)"
  shows "(\<exists>e. interpretar_afd raw = Inl e) \<longleftrightarrow>
     split_lines raw = [] \<or>
     (\<exists>errs registros.
        classificar (split_lines raw) [] [] = Inr (errs, registros) \<and>
        \<not> any_bucket (bucket (foldl processar_linha (estado_inicial errs) (map snd registros))) \<and>
        header (foldl processar_linha (estado_inicial errs) (map snd registros)) = None \<and>
        trailer (foldl processar_linha (estado_inicial errs) (map snd registros)) = None)"
proof -
  obtain errs registros where c: "classificar (split_lines raw) [] [] = Inr (errs, registros)"
    using classificar_ascii [OF assms, of "[]" "[]"] by auto
  show ?thesis
    unfolding interpretar_afd_Inl c by auto
qed

text \<open>
  C8 on a file that the code refuses.  The file \<open>arquivo_em_ordem\<close> is interpreted: four
  records of type 3 and one diagnostic.  With one more line after it, whose NSR ends in the
  superscript two, the lines are those of before and the new one; the new line has 34
  characters, its first nine pass \<^verbatim>\<open>_is_digits\<close>, and \<^verbatim>\<open>int\<close> refuses them, outside of every
  handler: the interpreter raises, although the file has non-blank lines and four of them
  are records that it reads.
\<close>

theorem superscript_nsr_raises:
  "interpretar_afd arquivo_em_ordem = Inr documento_em_ordem \<and>
   split_lines (read_text_afd arquivo_nsr_sobrescrito)
     = split_lines (read_text_afd arquivo_em_ordem) @ [linha3_sobrescrita] \<and>
   length linha3_sobrescrita = 34 \<and>
   substr linha3_sobrescrita 0 9 = nsr_sobrescrito \<and>
   is_digits nsr_sobrescrito \<and>
   py_int nsr_sobrescrito = None \<and>
   interpretar_afd arquivo_nsr_sobrescrito = Inl (NsrInvalido nsr_sobrescrito)"
  by code_simp

end
